theory Spec2Isabelle
  imports Complex_Main "HOL-Library.Word"
begin

section \<open>The TinyG cartesian trajectory planner (planner.c)\<close>

text \<open>
  A shallow embedding of \<^verbatim>\<open>firmware/tinyg_316.18/planner.c\<close>.

  Conventions of the embedding.
  \<^item> A C \<^verbatim>\<open>double\<close> is a real number: arithmetic is exact, so every statement
    below is about the planner's formulas and control flow, not about rounding. The one
    place where the code calls a library function outside its domain, \<^verbatim>\<open>acos\<close> of an
    argument outside \<open>[-1, 1]\<close>, gives \<open>None\<close> for the NaN that C returns.
  \<^item> A pointer into the buffer ring \<^verbatim>\<open>mb.bf\<close> is the index of the slot; a pointer
    that may be \<^verbatim>\<open>NULL\<close> is an \<open>option\<close>.
  \<^item> The process-wide singletons \<^verbatim>\<open>mb\<close>, \<^verbatim>\<open>mm\<close>, \<^verbatim>\<open>mp[2]\<close>, \<^verbatim>\<open>mr\<close> are fields of
    one state record that every function takes and returns.
  \<^item> C identifiers keep their names; a leading underscore is dropped (Isabelle names
    start with a letter) and struct fields carry the struct's prefix.
  \<^item> Constants and macros of headers that are not part of the sources
    (\<^verbatim>\<open>EPSILON\<close>, \<^verbatim>\<open>MIN_LINE_LENGTH\<close>, \<^verbatim>\<open>MP_BUFFER_SIZE\<close>, \<^verbatim>\<open>MP_MAX_LOOKBACK_DEPTH\<close>,
    the \<^verbatim>\<open>cfg\<close> settings) are fields of a configuration record, a parameter of
    every function that reads them.
\<close>

subsection \<open>Enumerations and status codes\<close>

datatype mpBufferState =
  MP_BUFFER_EMPTY | MP_BUFFER_LOADING | MP_BUFFER_QUEUED | MP_BUFFER_PENDING | MP_BUFFER_RUNNING

datatype mpMoveType =
  MP_TYPE_NULL | MP_TYPE_ACCEL | MP_TYPE_CRUISE | MP_TYPE_DECEL | MP_TYPE_LINE
  | MP_TYPE_ARC | MP_TYPE_DWELL | MP_TYPE_START | MP_TYPE_STOP | MP_TYPE_END

datatype mpMoveState =
  MP_STATE_NEW | MP_STATE_RUNNING_1 | MP_STATE_RUNNING_2 | MP_STATE_FINALIZE | MP_STATE_END


datatype status =
  TG_OK | TG_ERR | TG_EAGAIN | TG_NOOP | TG_COMPLETE | TG_ZERO_LENGTH_MOVE | TG_BUFFER_FULL_FATAL

subsection \<open>Build constants and settings\<close>

record config =
  cfg_linear_jerk_max :: real
  cfg_min_segment_len :: real
  cfg_min_segment_time :: real
  EPSILON :: real
  MIN_LINE_LENGTH :: real
  MP_BUFFER_SIZE :: nat
  MP_MAX_LOOKBACK_DEPTH :: nat
  PATH_EXACT_STOP :: nat

text \<open>
  Modelled from the spec: \<^verbatim>\<open>AXES\<close> is defined in a header that is not part of the
  sources. The spec fixes it per build, "typically 6: X,Y,Z,A,B,C", and
  \<^verbatim>\<open>_mp_get_angular_jerk_factor\<close> reads exactly the six axes X..C.
\<close>

definition AXES :: nat where
  "AXES = 6"

text \<open>
  Modelled from the spec: \<^verbatim>\<open>ONE_MINUTE_OF_MICROSECONDS\<close> is \<open>60 \<sqdot> 10\<^sup>6\<close> and
  \<^verbatim>\<open>uSec(min) = round(min \<sqdot> 60 \<sqdot> 10\<^sup>6)\<close>; both macros live in a header outside
  the sources. C's \<^verbatim>\<open>round\<close> rounds halves away from zero.
\<close>

definition ONE_MINUTE_OF_MICROSECONDS :: real where
  "ONE_MINUTE_OF_MICROSECONDS = 60000000"

definition c_round :: "real \<Rightarrow> real" where
  "c_round x = (if 0 \<le> x then of_int \<lfloor>x + 1 / 2\<rfloor> else of_int \<lceil>x - 1 / 2\<rceil>)"

definition uSec :: "real \<Rightarrow> real" where
  "uSec a = c_round (a * ONE_MINUTE_OF_MICROSECONDS)"

text \<open>
  Modelled from the spec: \<^verbatim>\<open>cubert\<close> (the cached scalar is the cube root of the
  jerk) and \<^verbatim>\<open>square\<close> are macros of a header outside the sources.
\<close>

definition cubert :: "real \<Rightarrow> real" where
  "cubert x = root 3 x"

definition square :: "real \<Rightarrow> real" where
  "square x = x * x"

subsection \<open>Data structures\<close>

record mpBufferArc =
  a_theta :: real
  a_radius :: real
  a_angular_travel :: real
  a_linear_travel :: real
  a_axis_1 :: nat
  a_axis_2 :: nat
  a_axis_linear :: nat

record mpBuffer =
  bf_nx :: nat
  bf_pv :: nat
  bf_target :: "real list"
  bf_unit_vec :: "real list"
  bf_a :: mpBufferArc
  bf_buffer_state :: mpBufferState
  bf_move_type :: mpMoveType
  bf_move_state :: mpMoveState
  bf_replannable :: bool
  bf_time :: real
  bf_length :: real
  bf_start_velocity :: real
  bf_end_velocity :: real
  bf_request_velocity :: real

record mpBufferPool =
  mb_w :: nat
  mb_q :: nat
  mb_r :: nat
  mb_bf :: "mpBuffer list"

record mpMoveMasterSingleton =
  mm_position :: "real list"
  mm_target :: "real list"
  mm_unit_vec :: "real list"
  mm_ang_jerk_vec :: "real list"
  mm_linear_jerk_div2 :: real
  mm_linear_jerk_rad3 :: real

record mpMovePlanner =
  m_path_mode :: nat
  m_head :: "nat option"
  m_body :: "nat option"
  m_tail :: "nat option"
  m_length :: real
  m_head_length :: real
  m_body_length :: real
  m_tail_length :: real
  m_initial_velocity_req :: real
  m_initial_velocity :: real
  m_target_velocity :: real
  m_cruise_velocity :: real
  m_final_velocity :: real

text \<open>
  The runtime singleton. \<^verbatim>\<open>run_move\<close> (a function pointer chosen by the
  dispatcher) is left out: the runners below are called directly.
  \<^verbatim>\<open>segment_count\<close> is a \<^verbatim>\<open>uint32_t\<close>.
\<close>

record mpMoveRuntimeSingleton =
  mr_run_flag :: bool
  mr_position :: "real list"
  mr_target :: "real list"
  mr_length :: real
  mr_time :: real
  mr_microseconds :: real
  mr_elapsed_time :: real
  mr_midpoint_velocity :: real
  mr_midpoint_acceleration :: real
  mr_segments :: real
  mr_segment_count :: "32 word"
  mr_segment_time :: real
  mr_segment_length :: real
  mr_segment_velocity :: real
  mr_segment_theta :: real
  mr_center_1 :: real
  mr_center_2 :: real

text \<open>What \<^verbatim>\<open>memset(.., 0, ..)\<close> leaves in each structure.\<close>

definition zero_vec :: "real list" where
  "zero_vec = replicate AXES 0"

definition zero_arc :: mpBufferArc where
  "zero_arc = \<lparr>a_theta = 0, a_radius = 0, a_angular_travel = 0, a_linear_travel = 0,
     a_axis_1 = 0, a_axis_2 = 0, a_axis_linear = 0\<rparr>"

definition zero_buffer :: mpBuffer where
  "zero_buffer = \<lparr>bf_nx = 0, bf_pv = 0, bf_target = zero_vec, bf_unit_vec = zero_vec,
     bf_a = zero_arc, bf_buffer_state = MP_BUFFER_EMPTY, bf_move_type = MP_TYPE_NULL,
     bf_move_state = MP_STATE_NEW, bf_replannable = False, bf_time = 0, bf_length = 0,
     bf_start_velocity = 0, bf_end_velocity = 0, bf_request_velocity = 0\<rparr>"

definition zero_mm :: mpMoveMasterSingleton where
  "zero_mm = \<lparr>mm_position = zero_vec, mm_target = zero_vec, mm_unit_vec = zero_vec,
     mm_ang_jerk_vec = zero_vec, mm_linear_jerk_div2 = 0, mm_linear_jerk_rad3 = 0\<rparr>"

definition zero_planner :: mpMovePlanner where
  "zero_planner = \<lparr>m_path_mode = 0, m_head = None, m_body = None, m_tail = None,
     m_length = 0, m_head_length = 0, m_body_length = 0, m_tail_length = 0,
     m_initial_velocity_req = 0, m_initial_velocity = 0, m_target_velocity = 0,
     m_cruise_velocity = 0, m_final_velocity = 0\<rparr>"

definition zero_mr :: mpMoveRuntimeSingleton where
  "zero_mr = \<lparr>mr_run_flag = False, mr_position = zero_vec, mr_target = zero_vec,
     mr_length = 0, mr_time = 0, mr_microseconds = 0, mr_elapsed_time = 0,
     mr_midpoint_velocity = 0, mr_midpoint_acceleration = 0, mr_segments = 0,
     mr_segment_count = 0, mr_segment_time = 0, mr_segment_length = 0,
     mr_segment_velocity = 0, mr_segment_theta = 0, mr_center_1 = 0, mr_center_2 = 0\<rparr>"

subsection \<open>The buffer pool\<close>

text \<open>
  Modelled from the spec: \<^verbatim>\<open>_mp_bump\<close> is a macro of planner.h, which is not part of
  the sources; the spec says that the \<^verbatim>\<open>nx\<close> pointers close the ring, so the
  successor of the last index is index 0.
\<close>

definition mp_bump :: "config \<Rightarrow> nat \<Rightarrow> nat" where
  "mp_bump cfg i = (if i < MP_BUFFER_SIZE cfg - 1 then i + 1 else 0)"

text \<open>
  \<^verbatim>\<open>_mp_init_buffers\<close>: the loop carries \<^verbatim>\<open>pv\<close>, the index of the slot set up last,
  starting at the last slot of the array.
\<close>

definition init_ring_step :: "config \<Rightarrow> nat \<times> mpBuffer list \<Rightarrow> nat \<Rightarrow> nat \<times> mpBuffer list" where
  "init_ring_step cfg acc i =
     (case acc of (pv, bf) \<Rightarrow> (i, bf[i := (bf ! i)\<lparr>bf_nx := mp_bump cfg i, bf_pv := pv\<rparr>]))"

definition mp_init_buffers :: "config \<Rightarrow> mpBufferPool" where
  "mp_init_buffers cfg =
     \<lparr>mb_w = 0, mb_q = 0, mb_r = 0,
      mb_bf = snd (foldl (init_ring_step cfg)
                (MP_BUFFER_SIZE cfg - 1, replicate (MP_BUFFER_SIZE cfg) zero_buffer)
                [0..<MP_BUFFER_SIZE cfg])\<rparr>"

fun check_from :: "mpBuffer list \<Rightarrow> nat \<Rightarrow> nat \<Rightarrow> bool" where
  "check_from bf w 0 = True"
| "check_from bf w (Suc n) =
     (if bf_buffer_state (bf ! w) \<noteq> MP_BUFFER_EMPTY then False
      else check_from bf (bf_nx (bf ! w)) n)"

definition mp_check_for_write_buffers :: "mpBufferPool \<Rightarrow> nat \<Rightarrow> bool" where
  "mp_check_for_write_buffers mb count = check_from (mb_bf mb) (mb_w mb) count"

definition mp_get_write_buffer :: "mpBufferPool \<Rightarrow> nat option \<times> mpBufferPool" where
  "mp_get_write_buffer mb =
     (if bf_buffer_state (mb_bf mb ! mb_w mb) = MP_BUFFER_EMPTY then
        let w = mb_w mb;
            nx = bf_nx (mb_bf mb ! w);
            pv = bf_pv (mb_bf mb ! w)
        in (Some w,
            mb\<lparr>mb_bf := (mb_bf mb)[w := zero_buffer\<lparr>bf_nx := nx, bf_pv := pv,
                                       bf_buffer_state := MP_BUFFER_LOADING\<rparr>],
               mb_w := nx\<rparr>)
      else (None, mb))"

definition mp_unget_write_buffer :: "mpBufferPool \<Rightarrow> mpBufferPool" where
  "mp_unget_write_buffer mb =
     (let w = bf_pv (mb_bf mb ! mb_w mb)
      in mb\<lparr>mb_w := w,
            mb_bf := (mb_bf mb)[w := (mb_bf mb ! w)\<lparr>bf_buffer_state := MP_BUFFER_EMPTY\<rparr>]\<rparr>)"

definition mp_queue_write_buffer :: "mpMoveType \<Rightarrow> mpBufferPool \<Rightarrow> mpBufferPool" where
  "mp_queue_write_buffer move_type mb =
     (let q = mb_q mb
      in mb\<lparr>mb_bf := (mb_bf mb)[q := (mb_bf mb ! q)\<lparr>bf_move_type := move_type,
                                     bf_move_state := MP_STATE_NEW,
                                     bf_buffer_state := MP_BUFFER_QUEUED\<rparr>],
            mb_q := bf_nx (mb_bf mb ! q)\<rparr>)"

definition mp_get_run_buffer :: "mpBufferPool \<Rightarrow> nat option \<times> mpBufferPool" where
  "mp_get_run_buffer mb =
     (let r = mb_r mb;
          mb1 = (if bf_buffer_state (mb_bf mb ! r) = MP_BUFFER_QUEUED
                    \<or> bf_buffer_state (mb_bf mb ! r) = MP_BUFFER_PENDING
                 then mb\<lparr>mb_bf := (mb_bf mb)[r := (mb_bf mb ! r)
                                       \<lparr>bf_buffer_state := MP_BUFFER_RUNNING\<rparr>]\<rparr>
                 else mb)
      in if bf_buffer_state (mb_bf mb1 ! r) = MP_BUFFER_RUNNING then (Some r, mb1)
         else (None, mb1))"

definition mp_clear_buffer :: "nat \<Rightarrow> mpBufferPool \<Rightarrow> mpBufferPool" where
  "mp_clear_buffer b mb =
     (let nx = bf_nx (mb_bf mb ! b);
          pv = bf_pv (mb_bf mb ! b)
      in mb\<lparr>mb_bf := (mb_bf mb)[b := zero_buffer\<lparr>bf_nx := nx, bf_pv := pv\<rparr>]\<rparr>)"

definition mp_finalize_run_buffer :: "mpBufferPool \<Rightarrow> mpBufferPool" where
  "mp_finalize_run_buffer mb =
     (let mb1 = mp_clear_buffer (mb_r mb) mb;
          r = mb_r mb1;
          mb2 = mb1\<lparr>mb_bf := (mb_bf mb1)[r := (mb_bf mb1 ! r)
                                  \<lparr>bf_buffer_state := MP_BUFFER_EMPTY\<rparr>]\<rparr>;
          r' = bf_nx (mb_bf mb2 ! r);
          mb3 = mb2\<lparr>mb_r := r'\<rparr>
      in if bf_buffer_state (mb_bf mb3 ! r') = MP_BUFFER_QUEUED
         then mb3\<lparr>mb_bf := (mb_bf mb3)[r' := (mb_bf mb3 ! r')
                                  \<lparr>bf_buffer_state := MP_BUFFER_PENDING\<rparr>]\<rparr>
         else mb3)"

definition mp_get_prev_buffer_implicit :: "mpBufferPool \<Rightarrow> nat" where
  "mp_get_prev_buffer_implicit mb = bf_pv (mb_bf mb ! mb_w mb)"

definition mp_get_prev_buffer :: "mpBufferPool \<Rightarrow> nat \<Rightarrow> nat" where
  "mp_get_prev_buffer mb b = bf_pv (mb_bf mb ! b)"

text \<open>The six buffer-pool operations as one step function, to run them in any order.\<close>

datatype pool_op =
  Get_write_buffer | Unget_write_buffer | Queue_write_buffer mpMoveType
  | Get_run_buffer | Finalize_run_buffer | Clear_buffer nat

fun pool_step :: "mpBufferPool \<Rightarrow> pool_op \<Rightarrow> mpBufferPool" where
  "pool_step mb Get_write_buffer = snd (mp_get_write_buffer mb)"
| "pool_step mb Unget_write_buffer = mp_unget_write_buffer mb"
| "pool_step mb (Queue_write_buffer t) = mp_queue_write_buffer t mb"
| "pool_step mb Get_run_buffer = snd (mp_get_run_buffer mb)"
| "pool_step mb Finalize_run_buffer = mp_finalize_run_buffer mb"
| "pool_step mb (Clear_buffer b) = mp_clear_buffer b mb"

definition ring_links :: "mpBufferPool \<Rightarrow> (nat \<times> nat) list" where
  "ring_links mb = map (\<lambda>b. (bf_nx b, bf_pv b)) (mb_bf mb)"

subsection \<open>The planner state\<close>

text \<open>
  \<open>mq\<close> is the motor queue as the planner sees it: the lines handed to
  \<^verbatim>\<open>ik_kinematics\<close> and \<^verbatim>\<open>mq_queue_line\<close>, each as its travel vector and its
  duration in microseconds, in the order queued. \<open>traps\<close> collects the messages of
  the \<^verbatim>\<open>TRAP\<close> macros.
\<close>

record planner =
  mb :: mpBufferPool
  mm :: mpMoveMasterSingleton
  mp0 :: mpMovePlanner
  mp1 :: mpMovePlanner
  mr :: mpMoveRuntimeSingleton
  mq :: "(real list \<times> real) list"
  traps :: "string list"

definition TRAP :: "string \<Rightarrow> planner \<Rightarrow> planner" where
  "TRAP msg s = s\<lparr>traps := traps s @ [msg]\<rparr>"

definition mp_get :: "planner \<Rightarrow> nat \<Rightarrow> mpMovePlanner" where
  "mp_get s k = (if k = 0 then mp0 s else mp1 s)"

definition mp_set :: "nat \<Rightarrow> mpMovePlanner \<Rightarrow> planner \<Rightarrow> planner" where
  "mp_set k m s = (if k = 0 then s\<lparr>mp0 := m\<rparr> else s\<lparr>mp1 := m\<rparr>)"

definition set_bf :: "nat \<Rightarrow> (mpBuffer \<Rightarrow> mpBuffer) \<Rightarrow> planner \<Rightarrow> planner" where
  "set_bf b f s = s\<lparr>mb := (mb s)\<lparr>mb_bf := (mb_bf (mb s))[b := f (mb_bf (mb s) ! b)]\<rparr>\<rparr>"

definition get_bf :: "planner \<Rightarrow> nat \<Rightarrow> mpBuffer" where
  "get_bf s b = mb_bf (mb s) ! b"

definition mp_init :: "config \<Rightarrow> planner" where
  "mp_init cfg = \<lparr>mb = mp_init_buffers cfg, mm = zero_mm, mp0 = zero_planner,
     mp1 = zero_planner, mr = zero_mr, mq = [], traps = []\<rparr>"

subsection \<open>Simple helpers\<close>

text \<open>A loop \<^verbatim>\<open>for (i=0; i < AXES; i++)\<close> over a value it updates.\<close>

definition for_axes :: "(nat \<Rightarrow> 'a \<Rightarrow> 'a) \<Rightarrow> 'a \<Rightarrow> 'a" where
  "for_axes body x = foldl (\<lambda>acc i. body i acc) x [0..<AXES]"

definition mp_copy_vector :: "real list \<Rightarrow> real list \<Rightarrow> nat \<Rightarrow> real list" where
  "mp_copy_vector dest src n = foldl (\<lambda>d i. d[i := src ! i]) dest [0..<n]"

definition mp_get_axis_vector_length :: "real list \<Rightarrow> real list \<Rightarrow> real" where
  "mp_get_axis_vector_length target position =
     sqrt (for_axes (\<lambda>i len. len + square (target ! i - position ! i)) 0)"

definition mp_clear_planner :: mpMovePlanner where
  "mp_clear_planner = zero_planner"

definition mp_set_mm_position :: "real list \<Rightarrow> planner \<Rightarrow> planner" where
  "mp_set_mm_position target s =
     s\<lparr>mm := (mm s)\<lparr>mm_position := for_axes (\<lambda>i p. p[i := target ! i]) (mm_position (mm s))\<rparr>\<rparr>"

definition mp_set_mr_position :: "real list \<Rightarrow> planner \<Rightarrow> planner" where
  "mp_set_mr_position target s =
     s\<lparr>mr := (mr s)\<lparr>mr_position := for_axes (\<lambda>i p. p[i := target ! i]) (mr_position (mr s))\<rparr>\<rparr>"

definition mp_get_unit_vector :: "real list \<Rightarrow> real list \<Rightarrow> real list \<Rightarrow> real list" where
  "mp_get_unit_vector unit target position =
     (let len = mp_get_axis_vector_length target position
      in for_axes (\<lambda>i u. u[i := (target ! i - position ! i) / len]) unit)"

text \<open>\<^verbatim>\<open>mp_set_position\<close>, used by external callers such as G92.\<close>

definition mp_set_position :: "real list \<Rightarrow> planner \<Rightarrow> status \<times> planner" where
  "mp_set_position position s =
     (let s1 = s\<lparr>mm := (mm s)\<lparr>mm_position :=
                  for_axes (\<lambda>i p. p[i := position ! i]) (mm_position (mm s))\<rparr>\<rparr>
      in (TG_OK, mp_set_mr_position (mm_position (mm s1)) s1))"

subsection \<open>Queued stop, start and end; dwell; line; arc\<close>

text \<open>
  \<^verbatim>\<open>mp_queued_stop\<close>, \<^verbatim>\<open>mp_queued_start\<close> and \<^verbatim>\<open>mp_queued_end\<close> are declared
  \<^verbatim>\<open>void\<close>: they hand no status to their caller. Their models return \<open>None\<close> in the
  place where the other producers return \<open>Some\<close> status code.
\<close>

definition mp_queued_stop :: "planner \<Rightarrow> status option \<times> planner" where
  "mp_queued_stop s =
     (case mp_get_write_buffer (mb s) of
        (None, mb1) \<Rightarrow> (None, TRAP ''Failed to get buffer in mp_queued_stop()'' (s\<lparr>mb := mb1\<rparr>))
      | (Some b, mb1) \<Rightarrow> (None, s\<lparr>mb := mp_queue_write_buffer MP_TYPE_STOP mb1\<rparr>))"

definition mp_queued_start :: "planner \<Rightarrow> status option \<times> planner" where
  "mp_queued_start s =
     (case mp_get_write_buffer (mb s) of
        (None, mb1) \<Rightarrow> (None, TRAP ''Failed to get buffer in mp_queued_start()'' (s\<lparr>mb := mb1\<rparr>))
      | (Some b, mb1) \<Rightarrow> (None, s\<lparr>mb := mp_queue_write_buffer MP_TYPE_START mb1\<rparr>))"

definition mp_queued_end :: "planner \<Rightarrow> status option \<times> planner" where
  "mp_queued_end s =
     (case mp_get_write_buffer (mb s) of
        (None, mb1) \<Rightarrow> (None, TRAP ''Failed to get buffer in mp_queued_end()'' (s\<lparr>mb := mb1\<rparr>))
      | (Some b, mb1) \<Rightarrow> (None, s\<lparr>mb := mp_queue_write_buffer MP_TYPE_END mb1\<rparr>))"

definition mp_dwell :: "real \<Rightarrow> planner \<Rightarrow> status \<times> planner" where
  "mp_dwell seconds s =
     (case mp_get_write_buffer (mb s) of
        (None, mb1) \<Rightarrow>
          (TG_BUFFER_FULL_FATAL, TRAP ''Failed to get buffer in mp_dwell()'' (s\<lparr>mb := mb1\<rparr>))
      | (Some b, mb1) \<Rightarrow>
          (let s1 = set_bf b (\<lambda>x. x\<lparr>bf_time := seconds\<rparr>) (s\<lparr>mb := mb1\<rparr>)
           in (TG_OK, s1\<lparr>mb := mp_queue_write_buffer MP_TYPE_DWELL (mb s1)\<rparr>)))"

definition mp_line :: "config \<Rightarrow> real list \<Rightarrow> real \<Rightarrow> planner \<Rightarrow> status \<times> planner" where
  "mp_line cfg target minutes s =
     (if minutes < EPSILON cfg then (TG_ZERO_LENGTH_MOVE, s)
      else case mp_get_write_buffer (mb s) of
        (None, mb1) \<Rightarrow>
          (TG_BUFFER_FULL_FATAL, TRAP ''Failed to get buffer in mp_line()'' (s\<lparr>mb := mb1\<rparr>))
      | (Some b, mb1) \<Rightarrow>
          (let s1 = set_bf b (\<lambda>x. x\<lparr>bf_time := minutes\<rparr>) (s\<lparr>mb := mb1\<rparr>);
               s2 = set_bf b (\<lambda>x. x\<lparr>bf_target := mp_copy_vector (bf_target x) target AXES\<rparr>) s1;
               s3 = set_bf b (\<lambda>x. x\<lparr>bf_length :=
                       mp_get_axis_vector_length target (mr_position (mr s2))\<rparr>) s2
           in if bf_length (get_bf s3 b) < MIN_LINE_LENGTH cfg
              then (TG_ZERO_LENGTH_MOVE, s3\<lparr>mb := mp_unget_write_buffer (mb s3)\<rparr>)
              else
                (let s4 = set_bf b (\<lambda>x. x\<lparr>bf_request_velocity := bf_length x / bf_time x\<rparr>) s3;
                     s5 = s4\<lparr>mb := mp_queue_write_buffer MP_TYPE_LINE (mb s4)\<rparr>
                 in (TG_OK, mp_set_mm_position (bf_target (get_bf s5 b)) s5))))"

text \<open>
  \<^verbatim>\<open>mp_arc\<close>. \<^verbatim>\<open>hypot(x, y)\<close> is \<open>sqrt (x\<^sup>2 + y\<^sup>2)\<close>. The local \<^verbatim>\<open>length\<close> computed
  from the offsets \<^verbatim>\<open>i, j, k\<close> is never used (the unit vector code that read it is
  commented out), so it does not appear in the model.
\<close>

definition mp_arc ::
  "config \<Rightarrow> real list \<Rightarrow> real \<Rightarrow> real \<Rightarrow> real \<Rightarrow> real \<Rightarrow> real \<Rightarrow> real \<Rightarrow> real
     \<Rightarrow> nat \<Rightarrow> nat \<Rightarrow> nat \<Rightarrow> real \<Rightarrow> planner \<Rightarrow> status \<times> planner" where
  "mp_arc cfg target i j k theta radius angular_travel linear_travel
          axis_1 axis_2 axis_linear minutes s =
     (case mp_get_write_buffer (mb s) of
        (None, mb1) \<Rightarrow>
          (TG_BUFFER_FULL_FATAL, TRAP ''Failed to get buffer in mp_arc()'' (s\<lparr>mb := mb1\<rparr>))
      | (Some b, mb1) \<Rightarrow>
          (let s1 = set_bf b (\<lambda>x. x\<lparr>bf_length :=
                       sqrt ((angular_travel * radius)\<^sup>2 + \<bar>linear_travel\<bar>\<^sup>2)\<rparr>) (s\<lparr>mb := mb1\<rparr>)
           in if bf_length (get_bf s1 b) < cfg_min_segment_len cfg
              then (TG_ZERO_LENGTH_MOVE, s1\<lparr>mb := mp_unget_write_buffer (mb s1)\<rparr>)
              else
                (let s2 = set_bf b (\<lambda>x. x\<lparr>bf_target := mp_copy_vector (bf_target x) target AXES\<rparr>) s1;
                     s3 = set_bf b (\<lambda>x. x\<lparr>bf_time := minutes,
                            bf_a := \<lparr>a_theta = theta, a_radius = radius,
                                     a_angular_travel = angular_travel,
                                     a_linear_travel = linear_travel,
                                     a_axis_1 = axis_1, a_axis_2 = axis_2,
                                     a_axis_linear = axis_linear\<rparr>\<rparr>) s2;
                     s4 = set_bf b (\<lambda>x. x\<lparr>bf_start_velocity := bf_length x / bf_time x\<rparr>) s3;
                     s5 = set_bf b (\<lambda>x. x\<lparr>bf_end_velocity := bf_start_velocity x\<rparr>) s4;
                     s6 = mp_set_mm_position (bf_target (get_bf s5 b)) s5
                 in (TG_OK, s6\<lparr>mb := mp_queue_write_buffer MP_TYPE_ARC (mb s6)\<rparr>))))"

subsection \<open>Jerk relations and the angular jerk factor\<close>

definition mp_get_length :: "config \<Rightarrow> real \<Rightarrow> real \<Rightarrow> real" where
  "mp_get_length cfg Vi Vf =
     (let deltaV = \<bar>Vf - Vi\<bar> in deltaV * sqrt (deltaV / cfg_linear_jerk_max cfg))"

text \<open>\<^verbatim>\<open>pow(L, 0.6666667)\<close>: the exponent is the literal of the source, not \<open>2/3\<close>.\<close>

definition mp_get_velocity :: "mpMoveMasterSingleton \<Rightarrow> real \<Rightarrow> real \<Rightarrow> real" where
  "mp_get_velocity m V L = mm_linear_jerk_rad3 m * (L powr (6666667 / 10000000)) + V"

text \<open>The axis indices \<^verbatim>\<open>X, Y, Z, A, B, C\<close> are 0 to 5.\<close>

text \<open>
  \<^verbatim>\<open>acos\<close> of \<^verbatim>\<open>math.h\<close>: the arc cosine of an argument in \<open>[-1, 1]\<close>, and NaN
  (\<open>None\<close>) outside. \<^verbatim>\<open>_mp_get_angular_jerk_factor\<close> passes the dot product to it as it
  is, without a clamp; the halving and \<^verbatim>\<open>cos\<close> hand a NaN on.
\<close>

definition c_acos :: "real \<Rightarrow> real option" where
  "c_acos x = (if x < - 1 \<or> 1 < x then None else Some (arccos x))"

definition mp_get_angular_jerk_factor :: "mpMoveMasterSingleton \<Rightarrow> mpBuffer \<Rightarrow> real option" where
  "mp_get_angular_jerk_factor m p =
     (let cosine = mm_unit_vec m ! 0 * bf_unit_vec p ! 0 +
                   mm_unit_vec m ! 1 * bf_unit_vec p ! 1 +
                   mm_unit_vec m ! 2 * bf_unit_vec p ! 2 +
                   mm_unit_vec m ! 3 * bf_unit_vec p ! 3 +
                   mm_unit_vec m ! 4 * bf_unit_vec p ! 4 +
                   mm_unit_vec m ! 5 * bf_unit_vec p ! 5
      in map_option (\<lambda>a. cos (a / 2)) (c_acos cosine))"

text \<open>
  Modelled from the spec: the macro \<^verbatim>\<open>min\<close> that \<^verbatim>\<open>mp_aline\<close> applies to the requested
  initial velocity is defined in \<^verbatim>\<open>util.h\<close>, which is not part of the sources; the spec
  calls its use a clamp to \<open>Vt\<close>. It is taken as the comparison macro
  \<^verbatim>\<open>((a) < (b) ? (a) : (b))\<close>: a comparison with NaN is false, so a NaN first argument
  gives the second.
\<close>

definition c_min :: "real option \<Rightarrow> real \<Rightarrow> real" where
  "c_min a b = (case a of None \<Rightarrow> b | Some x \<Rightarrow> if x < b then x else b)"

definition mp_get_move_type :: "config \<Rightarrow> mpBuffer \<Rightarrow> mpMoveType" where
  "mp_get_move_type cfg b =
     (if bf_length b < MIN_LINE_LENGTH cfg then MP_TYPE_NULL
      else if \<bar>bf_start_velocity b - bf_end_velocity b\<bar> < EPSILON cfg then MP_TYPE_CRUISE
      else if bf_start_velocity b < bf_end_velocity b then MP_TYPE_ACCEL
      else MP_TYPE_DECEL)"

subsection \<open>Region computation\<close>

text \<open>
  The head-tail iteration of \<^verbatim>\<open>_mp_compute_regions\<close>, a \<^verbatim>\<open>do .. while\<close> loop with the
  counter \<open>i\<close>; the flag returned says whether the "Iteration error" trap fired.
\<close>

function ht_iterate ::
  "config \<Rightarrow> mpMoveMasterSingleton \<Rightarrow> mpMovePlanner \<Rightarrow> nat \<Rightarrow> mpMovePlanner \<times> bool" where
  "ht_iterate cfg mmv m i =
     (let deltaVh = \<bar>m_initial_velocity m - m_cruise_velocity m\<bar>;
          m1 = m\<lparr>m_head_length := m_length m *
                  (deltaVh / (deltaVh + \<bar>m_cruise_velocity m - m_final_velocity m\<bar>))\<rparr>;
          m2 = m1\<lparr>m_cruise_velocity :=
                  mp_get_velocity mmv (m_initial_velocity m1) (m_head_length m1)\<rparr>;
          m3 = m2\<lparr>m_head_length :=
                  mp_get_length cfg (m_cruise_velocity m2) (m_initial_velocity m2)\<rparr>;
          m4 = m3\<lparr>m_tail_length :=
                  mp_get_length cfg (m_cruise_velocity m3) (m_final_velocity m3)\<rparr>;
          tmp_length = m_body_length m4;
          m5 = m4\<lparr>m_body_length := m_length m4 - m_head_length m4 - m_tail_length m4\<rparr>
      in if i + 1 > 100 then (m5, True)
         else if \<bar>tmp_length - m_body_length m5\<bar> > EPSILON cfg
              then ht_iterate cfg mmv m5 (i + 1)
              else (m5, False))"
  by pat_completeness auto
termination
  apply (relation "measure (\<lambda>(cfg, mmv, m, i). 101 - i)")
   apply simp
  apply simp
  apply arith
  done

declare ht_iterate.simps [simp del]

text \<open>
  \<^verbatim>\<open>_mp_compute_regions\<close>, in the order of the source: the setup and the zero case, the
  HBT case, the single region cases (\<open>compute_regions_single\<close>) and the HT case
  (\<open>compute_regions_ht\<close>). The result is the number of regions, the planning struct and
  the messages of the traps that fired.
\<close>

definition compute_regions_ht ::
  "config \<Rightarrow> mpMoveMasterSingleton \<Rightarrow> mpMovePlanner \<Rightarrow> nat \<times> mpMovePlanner \<times> string list" where
  "compute_regions_ht cfg mmv m5 =
     (case ht_iterate cfg mmv m5 0 of (m6, iteration_error) \<Rightarrow>
        (let t1 = (if iteration_error then [''Iteration error''] else []);
             t2 = (if m_body_length m6 > 1 / 100 then [''Region error''] else []);
             m7 = m6\<lparr>m_body_length := 0\<rparr>;
             m8 = (if m_head_length m7 < EPSILON cfg then m7\<lparr>m_head_length := 0\<rparr> else m7);
             m9 = (if m_tail_length m8 < EPSILON cfg then m8\<lparr>m_tail_length := 0\<rparr> else m8)
         in (2, m9, t1 @ t2)))"

definition compute_regions_single ::
  "config \<Rightarrow> mpMoveMasterSingleton \<Rightarrow> real \<Rightarrow> real \<Rightarrow> real \<Rightarrow> mpMovePlanner
     \<Rightarrow> nat \<times> mpMovePlanner \<times> string list" where
  "compute_regions_single cfg mmv Vir Vt Vf m4 =
     (let m5 = m4\<lparr>m_body_length := 0\<rparr>
      in if Vf < Vir \<and> m_length m5 < m_tail_length m5 then
           (let m6 = m5\<lparr>m_head_length := 0, m_tail_length := m_length m5\<rparr>;
                m7 = m6\<lparr>m_initial_velocity := mp_get_velocity mmv Vf (m_tail_length m6)\<rparr>
            in (1, m7\<lparr>m_cruise_velocity := m_initial_velocity m7\<rparr>, []))
         else if Vf > Vir \<and> m_length m5 < m_head_length m5 then
           (let m6 = m5\<lparr>m_head_length := m_length m5, m_tail_length := 0,
                         m_initial_velocity := m_initial_velocity_req m5\<rparr>;
                m7 = m6\<lparr>m_cruise_velocity := mp_get_velocity mmv Vir (m_head_length m6)\<rparr>
            in (1, m7\<lparr>m_final_velocity := m_cruise_velocity m7\<rparr>, []))
         else if \<bar>Vf - Vir\<bar> < EPSILON cfg \<and> \<bar>Vf - Vt\<bar> < EPSILON cfg then
           (1, m5\<lparr>m_head_length := 0, m_tail_length := 0, m_body_length := m_length m5\<rparr>, [])
         else compute_regions_ht cfg mmv m5)"

definition mp_compute_regions ::
  "config \<Rightarrow> mpMoveMasterSingleton \<Rightarrow> real \<Rightarrow> real \<Rightarrow> real \<Rightarrow> mpMovePlanner
     \<Rightarrow> nat \<times> mpMovePlanner \<times> string list" where
  "mp_compute_regions cfg mmv Vir Vt Vf m0 =
     (let m1 = m0\<lparr>m_initial_velocity_req := Vir, m_initial_velocity := Vir,
                  m_target_velocity := Vt, m_cruise_velocity := Vt,
                  m_final_velocity := Vf,
                  m_head_length := 0, m_body_length := 0, m_tail_length := 0\<rparr>
      in if m_length m1 < MIN_LINE_LENGTH cfg
         then (0, m1, [''Line too short in _mp_compute_regions''])
         else
          (let m2 = m1\<lparr>m_head_length := mp_get_length cfg Vir Vt\<rparr>;
               m3 = m2\<lparr>m_tail_length := mp_get_length cfg Vt Vf\<rparr>;
               m4 = m3\<lparr>m_body_length := m_length m3 - m_head_length m3 - m_tail_length m3\<rparr>
           in if m_body_length m4 > 0 then
                (let m5 = (if m_head_length m4 < MIN_LINE_LENGTH cfg
                           then m4\<lparr>m_body_length := m_body_length m4 + m_head_length m4,
                                   m_head_length := 0\<rparr>
                           else m4);
                     m6 = (if m_tail_length m5 < MIN_LINE_LENGTH cfg
                           then m5\<lparr>m_body_length := m_body_length m5 + m_tail_length m5,
                                   m_tail_length := 0\<rparr>
                           else m5)
                 in (3, m6, []))
              else compute_regions_single cfg mmv Vir Vt Vf m4))"

text \<open>\<^verbatim>\<open>_mp_compute_regions\<close> applied to the planning struct \<^verbatim>\<open>mp[k]\<close> of the state.\<close>

definition compute_regions_at ::
  "config \<Rightarrow> real \<Rightarrow> real \<Rightarrow> real \<Rightarrow> nat \<Rightarrow> planner \<Rightarrow> nat \<times> planner" where
  "compute_regions_at cfg Vir Vt Vf k s =
     (case mp_compute_regions cfg (mm s) Vir Vt Vf (mp_get s k) of
        (n, m, msgs) \<Rightarrow> (n, mp_set k m (s\<lparr>traps := traps s @ msgs\<rparr>)))"

subsection \<open>Queueing the regions of a move\<close>

text \<open>
  One pass of the loop over the axes in \<^verbatim>\<open>_mp_queue_buffer\<close>: copy the unit vector
  entry, advance \<^verbatim>\<open>mm.position\<close>, store it as the buffer's target.
\<close>

definition queue_buffer_axis :: "nat \<Rightarrow> real \<Rightarrow> nat \<Rightarrow> planner \<Rightarrow> planner" where
  "queue_buffer_axis b len i t =
     (let t1 = set_bf b (\<lambda>x. x\<lparr>bf_unit_vec := (bf_unit_vec x)[i := mm_unit_vec (mm t) ! i]\<rparr>) t;
          t2 = t1\<lparr>mm := (mm t1)\<lparr>mm_position := (mm_position (mm t1))
                 [i := mm_position (mm t1) ! i + len * bf_unit_vec (get_bf t1 b) ! i]\<rparr>\<rparr>
      in set_bf b (\<lambda>x. x\<lparr>bf_target := (bf_target x)[i := mm_position (mm t2) ! i]\<rparr>) t2)"

definition mp_queue_buffer ::
  "config \<Rightarrow> real \<Rightarrow> real \<Rightarrow> real \<Rightarrow> real \<Rightarrow> planner \<Rightarrow> nat option \<times> planner" where
  "mp_queue_buffer cfg Vs Ve Vr len s =
     (case mp_get_write_buffer (mb s) of
        (None, mb1) \<Rightarrow> (None, s\<lparr>mb := mb1\<rparr>)
      | (Some b, mb1) \<Rightarrow>
          (let s1 = set_bf b (\<lambda>x. x\<lparr>bf_start_velocity := Vs, bf_end_velocity := Ve,
                                  bf_request_velocity := Vr, bf_length := len\<rparr>) (s\<lparr>mb := mb1\<rparr>);
               s2 = for_axes (queue_buffer_axis b len) s1;
               s3 = set_bf b (\<lambda>x. x\<lparr>bf_replannable := True\<rparr>) s2
           in (Some b,
               s3\<lparr>mb := mp_queue_write_buffer (mp_get_move_type cfg (get_bf s3 b)) (mb s3)\<rparr>)))"

definition mp_queue_move :: "config \<Rightarrow> nat \<Rightarrow> planner \<Rightarrow> status \<times> planner" where
  "mp_queue_move cfg k s =
     (case mp_queue_buffer cfg (m_initial_velocity (mp_get s k)) (m_cruise_velocity (mp_get s k))
             (m_initial_velocity_req (mp_get s k)) (m_head_length (mp_get s k)) s of
        (h, s1) \<Rightarrow>
          (let s2 = mp_set k ((mp_get s1 k)\<lparr>m_head := h\<rparr>) s1
           in if h = None then (TG_BUFFER_FULL_FATAL, s2)
              else
               (case mp_queue_buffer cfg (m_cruise_velocity (mp_get s2 k))
                       (m_cruise_velocity (mp_get s2 k)) (m_target_velocity (mp_get s2 k))
                       (m_body_length (mp_get s2 k)) s2 of
                  (b, s3) \<Rightarrow>
                    (let s4 = mp_set k ((mp_get s3 k)\<lparr>m_body := b\<rparr>) s3
                     in if b = None then (TG_BUFFER_FULL_FATAL, s4)
                        else
                         (case mp_queue_buffer cfg (m_cruise_velocity (mp_get s4 k))
                                 (m_final_velocity (mp_get s4 k))
                                 (m_target_velocity (mp_get s4 k))
                                 (m_tail_length (mp_get s4 k)) s4 of
                            (t, s5) \<Rightarrow>
                              (let s6 = mp_set k ((mp_get s5 k)\<lparr>m_tail := t\<rparr>) s5
                               in if t = None then (TG_BUFFER_FULL_FATAL, s6)
                                  else (TG_OK, s6)))))))"

subsection \<open>Backward replanning\<close>

text \<open>
  The functions below dereference the \<^verbatim>\<open>head\<close>, \<^verbatim>\<open>body\<close> and \<^verbatim>\<open>tail\<close> pointers of a
  planning struct. Dereferencing \<^verbatim>\<open>NULL\<close> is undefined in C; the model returns \<open>None\<close>
  there. The loop counters are \<^verbatim>\<open>uint8_t\<close>; they are natural numbers here, which is
  the same as long as \<^verbatim>\<open>MP_MAX_LOOKBACK_DEPTH\<close> is below 255.
\<close>

definition mp_update_move :: "config \<Rightarrow> nat \<Rightarrow> nat \<Rightarrow> planner \<Rightarrow> planner option" where
  "mp_update_move cfg pk mk s =
     (let p = mp_get s pk; m = mp_get s mk
      in case (m_head p, m_body p, m_tail p) of
           (Some h, Some b, Some t) \<Rightarrow>
             (let s1 = set_bf h (\<lambda>x. x\<lparr>bf_start_velocity := m_initial_velocity p,
                                     bf_end_velocity := m_cruise_velocity p,
                                     bf_request_velocity := m_initial_velocity_req p,
                                     bf_length := m_head_length p\<rparr>) s;
                  s2 = set_bf h (\<lambda>x. x\<lparr>bf_move_type := mp_get_move_type cfg x\<rparr>) s1;
                  s3 = set_bf b (\<lambda>x. x\<lparr>bf_start_velocity := m_cruise_velocity p,
                                     bf_end_velocity := m_cruise_velocity p,
                                     bf_request_velocity := m_target_velocity p,
                                     bf_length := m_body_length p\<rparr>) s2;
                  s4 = set_bf b (\<lambda>x. x\<lparr>bf_move_type := mp_get_move_type cfg x\<rparr>) s3;
                  s5 = set_bf t (\<lambda>x. x\<lparr>bf_start_velocity := m_cruise_velocity p,
                                     bf_end_velocity := m_final_velocity p,
                                     bf_request_velocity := m_final_velocity p,
                                     bf_length := m_tail_length p\<rparr>) s4;
                  s6 = set_bf t (\<lambda>x. x\<lparr>bf_move_type := mp_get_move_type cfg x\<rparr>) s5
              in if \<bar>bf_start_velocity (get_bf s6 h) - m_initial_velocity_req p\<bar> < EPSILON cfg
                    \<and> \<bar>bf_start_velocity (get_bf s6 b) - m_target_velocity p\<bar> < EPSILON cfg
                    \<and> \<bar>bf_end_velocity (get_bf s6 t) - m_initial_velocity_req m\<bar> < EPSILON cfg
                 then Some (set_bf t (\<lambda>x. x\<lparr>bf_replannable := False\<rparr>)
                             (set_bf b (\<lambda>x. x\<lparr>bf_replannable := False\<rparr>)
                               (set_bf h (\<lambda>x. x\<lparr>bf_replannable := False\<rparr>) s6)))
                 else Some s6)
         | _ \<Rightarrow> None)"

definition mp_make_previous_move :: "nat \<Rightarrow> nat \<Rightarrow> planner \<Rightarrow> (status \<times> planner) option" where
  "mp_make_previous_move pk mk s =
     (case m_head (mp_get s mk) of
        None \<Rightarrow> None
      | Some mh \<Rightarrow>
          (let t = mp_get_prev_buffer (mb s) mh;
               b = mp_get_prev_buffer (mb s) t;
               h = mp_get_prev_buffer (mb s) b;
               p1 = mp_clear_planner\<lparr>m_tail := Some t, m_body := Some b, m_head := Some h\<rparr>
           in if \<not> bf_replannable (get_bf s t) \<or> \<not> bf_replannable (get_bf s b)
              then Some (TG_COMPLETE, mp_set pk p1 s)
              else
               (let p2 = p1\<lparr>m_initial_velocity_req := bf_request_velocity (get_bf s h),
                            m_initial_velocity := bf_start_velocity (get_bf s h),
                            m_target_velocity := bf_request_velocity (get_bf s b),
                            m_cruise_velocity := bf_start_velocity (get_bf s b),
                            m_final_velocity := bf_end_velocity (get_bf s t),
                            m_head_length := bf_length (get_bf s h),
                            m_body_length := bf_length (get_bf s b),
                            m_tail_length := bf_length (get_bf s t)\<rparr>
                in Some (TG_OK, mp_set pk
                     (p2\<lparr>m_length := m_head_length p2 + m_body_length p2 + m_tail_length p2\<rparr>) s))))"

text \<open>
  The \<^verbatim>\<open>do .. while\<close> loop of \<^verbatim>\<open>_mp_set_braking_velocity\<close> on the planning struct
  \<^verbatim>\<open>p\<close>; the flag returned says whether the lookback trap fired.
\<close>

function braking_walk ::
  "config \<Rightarrow> mpBuffer list \<Rightarrow> mpMovePlanner \<Rightarrow> nat \<Rightarrow> (mpMovePlanner \<times> bool) option" where
  "braking_walk cfg bfs p i =
     (case m_head p of
        None \<Rightarrow> None
      | Some ph \<Rightarrow>
          (let t = bf_pv (bfs ! ph);
               b = bf_pv (bfs ! t);
               h = bf_pv (bfs ! b);
               p1 = p\<lparr>m_tail := Some t, m_body := Some b, m_head := Some h,
                      m_length := m_length p + bf_length (bfs ! h) + bf_length (bfs ! b)
                                  + bf_length (bfs ! t)\<rparr>
           in if i + 1 > MP_MAX_LOOKBACK_DEPTH cfg then Some (p1, True)
              else if bf_replannable (bfs ! bf_pv (bfs ! h))
                   then braking_walk cfg bfs p1 (i + 1)
                   else Some (p1, False)))"
  by pat_completeness auto
termination
  apply (relation "measure (\<lambda>(cfg, bfs, p, i). MP_MAX_LOOKBACK_DEPTH cfg + 1 - i)")
   apply simp
  apply simp
  done

declare braking_walk.simps [simp del]

definition mp_set_braking_velocity :: "config \<Rightarrow> nat \<Rightarrow> nat \<Rightarrow> planner \<Rightarrow> planner option" where
  "mp_set_braking_velocity cfg pk mk s =
     (let m = mp_get s mk;
          p0 = mp_clear_planner\<lparr>m_head := m_head m, m_body := m_body m, m_tail := m_tail m,
                 m_length := m_length m, m_initial_velocity_req := m_initial_velocity_req m\<rparr>
      in case braking_walk cfg (mb_bf (mb s)) p0 0 of
           None \<Rightarrow> None
         | Some (p1, lookback_error) \<Rightarrow>
             (let s1 = (if lookback_error
                        then TRAP ''Lookback error in _mp_set_braking_velocity'' s else s)
              in Some (mp_set pk
                   (p1\<lparr>m_initial_velocity_req :=
                         min (mp_get_velocity (mm s1) 0 (m_length (mp_get s1 mk)))
                             (m_initial_velocity_req p1)\<rparr>) s1)))"

text \<open>
  The \<^verbatim>\<open>while\<close> loop of \<^verbatim>\<open>_mp_backplan\<close>. The pointers \<^verbatim>\<open>p\<close> and \<^verbatim>\<open>m\<close> are the indices
  \<open>pk\<close> and \<open>mk\<close> into \<^verbatim>\<open>mp[2]\<close>; the shuffle swaps them.
\<close>

function backplan_walk :: "config \<Rightarrow> planner \<Rightarrow> nat \<Rightarrow> nat \<Rightarrow> nat \<Rightarrow> planner option" where
  "backplan_walk cfg s pk mk i =
     (case mp_make_previous_move pk mk s of
        None \<Rightarrow> None
      | Some (st, s1) \<Rightarrow>
          if st = TG_COMPLETE then Some s1
          else
           (case mp_update_move cfg pk mk
                   (snd (compute_regions_at cfg (m_initial_velocity_req (mp_get s1 pk))
                           (m_target_velocity (mp_get s1 pk))
                           (m_initial_velocity (mp_get s1 mk)) pk s1)) of
              None \<Rightarrow> None
            | Some s3 \<Rightarrow>
                if i + 1 > MP_MAX_LOOKBACK_DEPTH cfg
                then Some (TRAP ''Lookback error in _mp_backplan'' s3)
                else backplan_walk cfg s3 mk pk (i + 1)))"
  by pat_completeness auto
termination
  apply (relation "measure (\<lambda>(cfg, s, pk, mk, i). MP_MAX_LOOKBACK_DEPTH cfg + 1 - i)")
   apply simp
  apply simp
  done

declare backplan_walk.simps [simp del]

definition mp_backplan :: "config \<Rightarrow> nat \<Rightarrow> planner \<Rightarrow> planner option" where
  "mp_backplan cfg mk s =
     (if m_path_mode (mp_get s mk) = PATH_EXACT_STOP cfg then
        (case mp_make_previous_move 1 mk s of
           None \<Rightarrow> None
         | Some (st, s1) \<Rightarrow>
             (case (m_head (mp_get s1 1), m_body (mp_get s1 1), m_tail (mp_get s1 1)) of
                (Some h, Some b, Some t) \<Rightarrow>
                  Some (set_bf t (\<lambda>x. x\<lparr>bf_replannable := False\<rparr>)
                         (set_bf b (\<lambda>x. x\<lparr>bf_replannable := False\<rparr>)
                           (set_bf h (\<lambda>x. x\<lparr>bf_replannable := False\<rparr>) s1)))
              | _ \<Rightarrow> None))
      else
        (case mp_set_braking_velocity cfg 1 mk s of
           None \<Rightarrow> None
         | Some s1 \<Rightarrow> backplan_walk cfg s1 1 mk 0))"

subsection \<open>The acceleration-managed line\<close>

text \<open>
  \<^verbatim>\<open>mp_aline\<close>. \<open>path_control_mode\<close> is what \<^verbatim>\<open>cm_get_path_control_mode()\<close> of the
  canonical machine returns. \<^verbatim>\<open>ritorno(x)\<close> returns the status of \<open>x\<close> from the
  calling function unless it is \<^verbatim>\<open>TG_OK\<close>. The planning struct \<^verbatim>\<open>m\<close> is \<^verbatim>\<open>mp[0]\<close>.
  \<open>aline_plan\<close> is the body of the function after its two zero-length checks, from the
  line that sets the target velocity to the end; \<open>aline_after_arc\<close> and
  \<open>aline_after_line\<close> are the ends of its two branches, from the call of
  \<^verbatim>\<open>_mp_compute_regions\<close> on. After a queued line the source assigns
  \<^verbatim>\<open>m->initial_velocity_req\<close> twice, first the product of the previous request velocity
  and the angular jerk factor, then \<^verbatim>\<open>min\<close> of it and the target velocity; the product
  is NaN when the factor is, so the two assignments are one update here.
\<close>

definition aline_after_arc :: "config \<Rightarrow> planner \<Rightarrow> (status \<times> planner) option" where
  "aline_after_arc cfg s7 =
     (let s8 = snd (compute_regions_at cfg (m_initial_velocity_req (mp_get s7 0))
                      (m_target_velocity (mp_get s7 0)) 0 0 s7)
      in case mp_queue_move cfg 0 s8 of
           (st, s9) \<Rightarrow> if st \<noteq> TG_OK then Some (st, s9) else Some (TG_OK, s9))"

definition aline_after_line :: "config \<Rightarrow> planner \<Rightarrow> (status \<times> planner) option" where
  "aline_after_line cfg s8 =
     (case compute_regions_at cfg (m_initial_velocity_req (mp_get s8 0))
             (m_target_velocity (mp_get s8 0)) 0 0 s8 of
        (n, s9) \<Rightarrow>
          if n = 0 then Some (TG_OK, s9)
          else
           (case mp_queue_move cfg 0 s9 of
              (st, s10) \<Rightarrow>
                if st \<noteq> TG_OK then Some (st, s10)
                else (case mp_backplan cfg 0 s10 of
                        None \<Rightarrow> None
                      | Some s11 \<Rightarrow> Some (TG_OK, s11))))"

definition aline_plan ::
  "config \<Rightarrow> nat \<Rightarrow> real \<Rightarrow> planner \<Rightarrow> (status \<times> planner) option" where
  "aline_plan cfg path_control_mode minutes s3 =
     (let s4 = mp_set 0 ((mp_get s3 0)\<lparr>m_target_velocity :=
                 m_length (mp_get s3 0) / minutes\<rparr>) s3;
          s5 = s4\<lparr>mm := (mm s4)\<lparr>mm_unit_vec := mp_get_unit_vector (mm_unit_vec (mm s4))
                               (mm_target (mm s4)) (mm_position (mm s4))\<rparr>\<rparr>;
          s6 = s5\<lparr>mm := (mm s5)\<lparr>mm_linear_jerk_div2 := cfg_linear_jerk_max cfg / 2,
                               mm_linear_jerk_rad3 := cubert (cfg_linear_jerk_max cfg)\<rparr>\<rparr>;
          t = mp_get_prev_buffer_implicit (mb s6)
      in if bf_move_type (get_bf s6 t) = MP_TYPE_ARC
            \<and> bf_buffer_state (get_bf s6 t) \<noteq> MP_BUFFER_EMPTY
         then
          aline_after_arc cfg (mp_set 0 ((mp_get s6 0)\<lparr>m_initial_velocity_req :=
                                 bf_end_velocity (get_bf s6 t)\<rparr>) s6)
         else
          (let s7 = mp_set 0 ((mp_get s6 0)\<lparr>m_path_mode := path_control_mode\<rparr>) s6
           in aline_after_line cfg
                (if bf_buffer_state (get_bf s7 t) \<noteq> MP_BUFFER_QUEUED
                 then mp_set 0 ((mp_get s7 0)\<lparr>m_path_mode := PATH_EXACT_STOP cfg,
                                   m_initial_velocity_req := 0\<rparr>) s7
                 else
                  mp_set 0 ((mp_get s7 0)\<lparr>m_initial_velocity_req :=
                    c_min (map_option (\<lambda>f. bf_request_velocity (get_bf s7 t) * f)
                             (mp_get_angular_jerk_factor (mm s7) (get_bf s7 t)))
                          (m_target_velocity (mp_get s7 0))\<rparr>) s7)))"

text \<open>
  The block "setup initial move values" of \<^verbatim>\<open>mp_aline\<close>: clear the planning struct, copy
  the target into \<^verbatim>\<open>mm.target\<close>, compute the length of the move.
\<close>

definition aline_setup :: "real list \<Rightarrow> planner \<Rightarrow> planner" where
  "aline_setup target s =
     (let s1 = mp_set 0 mp_clear_planner s;
          s2 = s1\<lparr>mm := (mm s1)\<lparr>mm_target := mp_copy_vector (mm_target (mm s1)) target AXES\<rparr>\<rparr>
      in mp_set 0 ((mp_get s2 0)\<lparr>m_length :=
           mp_get_axis_vector_length (mm_target (mm s2)) (mm_position (mm s2))\<rparr>) s2)"

definition mp_aline ::
  "config \<Rightarrow> nat \<Rightarrow> real list \<Rightarrow> real \<Rightarrow> planner \<Rightarrow> (status \<times> planner) option" where
  "mp_aline cfg path_control_mode target minutes s =
     (if minutes < EPSILON cfg then Some (TG_ZERO_LENGTH_MOVE, s)
      else
       (let s3 = aline_setup target s
        in if m_length (mp_get s3 0) < MIN_LINE_LENGTH cfg then Some (TG_ZERO_LENGTH_MOVE, s3)
           else aline_plan cfg path_control_mode minutes s3))"

subsection \<open>The dispatch vector\<close>




subsection \<open>Run routines\<close>

text \<open>
  Every runner first asks \<^verbatim>\<open>mq_test_motor_buffer()\<close> whether the motor queue has room;
  \<open>room\<close> is the answer at this invocation. \<open>b\<close> is the run buffer. A line handed to
  \<^verbatim>\<open>ik_kinematics\<close> and \<^verbatim>\<open>mq_queue_line\<close> is appended to \<open>mq\<close>. The local array
  \<^verbatim>\<open>travel\<close> is assigned at every index before it is read. A cast of a \<^verbatim>\<open>double\<close> to
  \<^verbatim>\<open>uint32_t\<close> or \<^verbatim>\<open>uint16_t\<close> drops the fraction; the model reduces a value outside the
  type's range modulo its size, where C leaves the result open.
\<close>

definition travel_to :: "real list \<Rightarrow> real list \<Rightarrow> real list" where
  "travel_to target position =
     for_axes (\<lambda>i tr. tr[i := target ! i - position ! i]) zero_vec"

definition queue_line :: "real list \<Rightarrow> real \<Rightarrow> planner \<Rightarrow> planner" where
  "queue_line travel microseconds s = s\<lparr>mq := mq s @ [(travel, microseconds)]\<rparr>"

definition mp_aline_run_segment :: "nat \<Rightarrow> planner \<Rightarrow> status \<times> planner" where
  "mp_aline_run_segment b s =
     (let s1 = for_axes (\<lambda>i t. set_bf b (\<lambda>x. x\<lparr>bf_target := (bf_target x)
                   [i := mr_position (mr t) ! i
                         + bf_unit_vec x ! i * mr_segment_velocity (mr t) * mr_segment_time (mr t)]\<rparr>) t) s;
          s2 = queue_line (travel_to (bf_target (get_bf s1 b)) (mr_position (mr s1)))
                 (mr_microseconds (mr s1)) s1;
          s3 = s2\<lparr>mr := (mr s2)\<lparr>mr_elapsed_time := mr_elapsed_time (mr s2) + mr_segment_time (mr s2)\<rparr>\<rparr>;
          s4 = mp_set_mr_position (bf_target (get_bf s3 b)) s3;
          s5 = s4\<lparr>mr := (mr s4)\<lparr>mr_segment_count := mr_segment_count (mr s4) - 1\<rparr>\<rparr>
      in if mr_segment_count (mr s5) > 0 then (TG_EAGAIN, s5) else (TG_OK, s5))"

definition mp_aline_run_finalize :: "config \<Rightarrow> nat \<Rightarrow> planner \<Rightarrow> planner" where
  "mp_aline_run_finalize cfg b s =
     (let s1 = s\<lparr>mr := (mr s)\<lparr>mr_length :=
                  mp_get_axis_vector_length (mr_target (mr s)) (mr_position (mr s))\<rparr>\<rparr>
      in if mr_length (mr s1) < MIN_LINE_LENGTH cfg \<or> bf_end_velocity (get_bf s1 b) < EPSILON cfg
         then s1
         else
          (let s2 = s1\<lparr>mr := (mr s1)\<lparr>mr_time := mr_length (mr s1) / bf_end_velocity (get_bf s1 b)\<rparr>\<rparr>;
               s3 = s2\<lparr>mr := (mr s2)\<lparr>mr_microseconds := uSec (mr_time (mr s2))\<rparr>\<rparr>;
               s4 = queue_line (travel_to (mr_target (mr s3)) (mr_position (mr s3)))
                      (mr_microseconds (mr s3)) s3
           in mp_set_mr_position (mr_target (mr s4)) s4))"

text \<open>
  The initialisation block of \<^verbatim>\<open>_mp_run_accel\<close> and \<^verbatim>\<open>_mp_run_decel\<close> (the two
  functions have the same block, up to the texts of their two traps, which are parameters). The result
  \<open>Some st\<close> is a \<^verbatim>\<open>return (st)\<close> from inside the block; \<open>None\<close> falls through to the
  code after it.
\<close>

definition aline_run_init ::
  "config \<Rightarrow> string \<Rightarrow> string \<Rightarrow> nat \<Rightarrow> planner \<Rightarrow> status option \<times> planner" where
  "aline_run_init cfg trap_midpoint trap_segments b s =
     (if bf_move_state (get_bf s b) = MP_STATE_NEW then
        (let s1 = set_bf b (\<lambda>x. x\<lparr>bf_replannable := False\<rparr>) s
         in if bf_length (get_bf s1 b) < MIN_LINE_LENGTH cfg then (Some TG_OK, s1)
            else
             (let s2 = s1\<lparr>mr := (mr s1)\<lparr>mr_midpoint_velocity :=
                         (bf_start_velocity (get_bf s1 b) + bf_end_velocity (get_bf s1 b)) / 2\<rparr>\<rparr>;
                  s3 = (if mr_midpoint_velocity (mr s2) = 0
                        then TRAP trap_midpoint s2 else s2);
                  s4 = s3\<lparr>mr := (mr s3)\<lparr>mr_time :=
                         bf_length (get_bf s3 b) / mr_midpoint_velocity (mr s3)\<rparr>\<rparr>;
                  s5 = s4\<lparr>mr := (mr s4)\<lparr>mr_midpoint_acceleration :=
                         mr_time (mr s4) * mm_linear_jerk_div2 (mm s4)\<rparr>\<rparr>;
                  s6 = s5\<lparr>mr := (mr s5)\<lparr>mr_target :=
                         for_axes (\<lambda>i t. t[i := bf_target (get_bf s5 b) ! i]) (mr_target (mr s5))\<rparr>\<rparr>;
                  s7 = s6\<lparr>mr := (mr s6)\<lparr>mr_segments :=
                         c_round (c_round (ONE_MINUTE_OF_MICROSECONDS
                                     * (mr_time (mr s6) / cfg_min_segment_time cfg)) / 2)\<rparr>\<rparr>
              in if (word_of_int \<lfloor>mr_segments (mr s7)\<rfloor> :: 16 word) = 0
                 then (Some TG_OK, TRAP trap_segments s7)
                 else
                  (let s8 = s7\<lparr>mr := (mr s7)\<lparr>mr_segment_time :=
                              mr_time (mr s7) / (2 * mr_segments (mr s7))\<rparr>\<rparr>;
                       s9 = s8\<lparr>mr := (mr s8)\<lparr>mr_elapsed_time := mr_segment_time (mr s8) / 2,
                              mr_microseconds := uSec (mr_segment_time (mr s8)),
                              mr_segment_count := word_of_int \<lfloor>mr_segments (mr s8)\<rfloor>\<rparr>\<rparr>
                   in (None, set_bf b (\<lambda>x. x\<lparr>bf_move_state := MP_STATE_RUNNING_1\<rparr>) s9))))
      else (None, s))"

definition mp_run_accel :: "config \<Rightarrow> bool \<Rightarrow> nat \<Rightarrow> planner \<Rightarrow> status \<times> planner" where
  "mp_run_accel cfg room b s =
     (if \<not> room then (TG_EAGAIN, s)
      else case aline_run_init cfg ''Accel Midpoint Velocity'' ''Acceleration Segments'' b s of
        (Some st, s1) \<Rightarrow> (st, s1)
      | (None, s1) \<Rightarrow>
          if bf_move_state (get_bf s1 b) = MP_STATE_RUNNING_1 then
            (let s2 = s1\<lparr>mr := (mr s1)\<lparr>mr_segment_velocity := bf_start_velocity (get_bf s1 b)
                          + mm_linear_jerk_div2 (mm s1) * square (mr_elapsed_time (mr s1))\<rparr>\<rparr>
             in case mp_aline_run_segment b s2 of
                  (st, s3) \<Rightarrow>
                    if st \<noteq> TG_OK then (st, s3)
                    else
                     (let s4 = s3\<lparr>mr := (mr s3)\<lparr>mr_segment_count :=
                                   word_of_int \<lfloor>mr_segments (mr s3)\<rfloor>,
                                 mr_elapsed_time := mr_segment_time (mr s3) / 2\<rparr>\<rparr>
                      in (TG_EAGAIN, set_bf b (\<lambda>x. x\<lparr>bf_move_state := MP_STATE_RUNNING_2\<rparr>) s4)))
          else if bf_move_state (get_bf s1 b) = MP_STATE_RUNNING_2 then
            (if mr_segment_count (mr s1) > 1 then
               mp_aline_run_segment b
                 (s1\<lparr>mr := (mr s1)\<lparr>mr_segment_velocity := mr_midpoint_velocity (mr s1)
                          + mr_elapsed_time (mr s1) * mr_midpoint_acceleration (mr s1)
                          - mm_linear_jerk_div2 (mm s1) * square (mr_elapsed_time (mr s1))\<rparr>\<rparr>)
             else (TG_OK, mp_aline_run_finalize cfg b s1))
          else (TG_ERR, s1))"

definition mp_run_decel :: "config \<Rightarrow> bool \<Rightarrow> nat \<Rightarrow> planner \<Rightarrow> status \<times> planner" where
  "mp_run_decel cfg room b s =
     (if \<not> room then (TG_EAGAIN, s)
      else case aline_run_init cfg ''Decel Midpoint Velocity'' ''Deceleration Segments'' b s of
        (Some st, s1) \<Rightarrow> (st, s1)
      | (None, s1) \<Rightarrow>
          if bf_move_state (get_bf s1 b) = MP_STATE_RUNNING_1 then
            (let s2 = s1\<lparr>mr := (mr s1)\<lparr>mr_segment_velocity := bf_start_velocity (get_bf s1 b)
                          - mm_linear_jerk_div2 (mm s1) * square (mr_elapsed_time (mr s1))\<rparr>\<rparr>
             in case mp_aline_run_segment b s2 of
                  (st, s3) \<Rightarrow>
                    if st \<noteq> TG_OK then (st, s3)
                    else
                     (let s4 = s3\<lparr>mr := (mr s3)\<lparr>mr_segment_count :=
                                   word_of_int \<lfloor>mr_segments (mr s3)\<rfloor>,
                                 mr_elapsed_time := mr_segment_time (mr s3) / 2\<rparr>\<rparr>
                      in (TG_EAGAIN, set_bf b (\<lambda>x. x\<lparr>bf_move_state := MP_STATE_RUNNING_2\<rparr>) s4)))
          else if bf_move_state (get_bf s1 b) = MP_STATE_RUNNING_2 then
            (if mr_segment_count (mr s1) > 1 then
               mp_aline_run_segment b
                 (s1\<lparr>mr := (mr s1)\<lparr>mr_segment_velocity := mr_midpoint_velocity (mr s1)
                          - mr_elapsed_time (mr s1) * mr_midpoint_acceleration (mr s1)
                          + mm_linear_jerk_div2 (mm s1) * square (mr_elapsed_time (mr s1))\<rparr>\<rparr>)
             else (TG_OK, mp_aline_run_finalize cfg b s1))
          else (TG_ERR, s1))"


text \<open>The block of \<^verbatim>\<open>_mp_run_arc\<close> that computes and queues one arc segment.\<close>

definition arc_segment :: "nat \<Rightarrow> planner \<Rightarrow> planner" where
  "arc_segment b s1 =
     (let s2 = set_bf b (\<lambda>x. x\<lparr>bf_a := (bf_a x)\<lparr>a_theta :=
                  a_theta (bf_a x) + mr_segment_theta (mr s1)\<rparr>\<rparr>) s1;
          a = bf_a (get_bf s2 b);
          s3 = s2\<lparr>mr := (mr s2)\<lparr>mr_target := (mr_target (mr s2))
                  [a_axis_1 a := mr_center_1 (mr s2) + sin (a_theta a) * a_radius a]\<rparr>\<rparr>;
          s4 = s3\<lparr>mr := (mr s3)\<lparr>mr_target := (mr_target (mr s3))
                  [a_axis_2 a := mr_center_2 (mr s3) + cos (a_theta a) * a_radius a]\<rparr>\<rparr>;
          s5 = s4\<lparr>mr := (mr s4)\<lparr>mr_target := (mr_target (mr s4))
                  [a_axis_linear a := mr_target (mr s4) ! a_axis_linear a
                                      + mr_segment_length (mr s4)]\<rparr>\<rparr>;
          s6 = queue_line (travel_to (mr_target (mr s5)) (mr_position (mr s5)))
                 (mr_microseconds (mr s5)) s5;
          s7 = mp_set_mr_position (mr_target (mr s6)) s6
      in s7\<lparr>mr := (mr s7)\<lparr>mr_segment_count := mr_segment_count (mr s7) - 1\<rparr>\<rparr>)"


subsection \<open>Well-formed rings\<close>

text \<open>
  The ring as \<^verbatim>\<open>_mp_init_buffers\<close> links it: slot \<open>i\<close> points forward to \<open>i + 1\<close> and
  back to \<open>i - 1\<close>, wrapping at the ends, and the three pool pointers are slots.
\<close>

definition ring_ok :: "mpBufferPool \<Rightarrow> bool" where
  "ring_ok pool =
     (let n = length (mb_bf pool)
      in mb_w pool < n \<and> mb_q pool < n \<and> mb_r pool < n \<and>
         ring_links pool =
           map (\<lambda>i. (if i < n - 1 then i + 1 else 0, if i = 0 then n - 1 else i - 1)) [0..<n])"

subsection \<open>Typed regions\<close>

text \<open>
  A buffer whose move type is the one \<^verbatim>\<open>_mp_get_move_type\<close> computes from its length and
  velocities, as \<^verbatim>\<open>_mp_queue_buffer\<close> and \<^verbatim>\<open>_mp_update_move\<close> leave every region they
  write.
\<close>

definition typed :: "config \<Rightarrow> mpBuffer \<Rightarrow> bool" where
  "typed cfg x = (bf_move_type x = mp_get_move_type cfg x)"

subsection \<open>Unit vectors\<close>

text \<open>A direction vector over all \<^verbatim>\<open>AXES\<close> of length one.\<close>

definition is_unit_vec :: "real list \<Rightarrow> bool" where
  "is_unit_vec v = (length v = AXES \<and> sum_list (map (\<lambda>x. x * x) v) = 1)"

subsection \<open>Frame of the axis loop\<close>

text \<open>
  \<open>axis_frame b s t\<close>: the state \<open>t\<close> differs from \<open>s\<close> at most in the unit vector and
  the target of slot \<open>b\<close> and in \<^verbatim>\<open>mm.position\<close>. This is what the loop over the axes in
  \<^verbatim>\<open>_mp_queue_buffer\<close> may change.
\<close>

definition axis_frame :: "nat \<Rightarrow> planner \<Rightarrow> planner \<Rightarrow> bool" where
  "axis_frame b s t =
     (\<exists>u g p. t = s\<lparr>mb := (mb s)\<lparr>mb_bf := (mb_bf (mb s))
                         [b := (mb_bf (mb s) ! b)\<lparr>bf_unit_vec := u, bf_target := g\<rparr>]\<rparr>,
                     mm := (mm s)\<lparr>mm_position := p\<rparr>\<rparr>)"

section \<open>Example configuration and states\<close>

text \<open>
  A configuration with a jerk of \<open>10\<^sup>6\<close> mm per cubic minute (its cube root is 100), a ring of
  eight buffers, and the planner's cached jerk terms for it.
\<close>

definition cfg_ex :: config where
  "cfg_ex = \<lparr>cfg_linear_jerk_max = 1000000, cfg_min_segment_len = 1 / 100,
     cfg_min_segment_time = 1 / 12000, EPSILON = 1 / 10000, MIN_LINE_LENGTH = 3 / 100,
     MP_BUFFER_SIZE = 8, MP_MAX_LOOKBACK_DEPTH = 4, PATH_EXACT_STOP = 0\<rparr>"

definition mm_ex :: mpMoveMasterSingleton where
  "mm_ex = zero_mm\<lparr>mm_linear_jerk_div2 := 500000, mm_linear_jerk_rad3 := 100\<rparr>"

text \<open>Directions along +X, -X and +Y, as the planner's current and a buffer's unit vector.\<close>

definition mm_along_x :: mpMoveMasterSingleton where
  "mm_along_x = zero_mm\<lparr>mm_unit_vec := [1, 0, 0, 0, 0, 0]\<rparr>"

definition bf_along_x :: mpBuffer where
  "bf_along_x = zero_buffer\<lparr>bf_unit_vec := [1, 0, 0, 0, 0, 0]\<rparr>"

definition bf_against_x :: mpBuffer where
  "bf_against_x = zero_buffer\<lparr>bf_unit_vec := [- 1, 0, 0, 0, 0, 0]\<rparr>"

definition bf_along_y :: mpBuffer where
  "bf_along_y = zero_buffer\<lparr>bf_unit_vec := [0, 1, 0, 0, 0, 0]\<rparr>"

text \<open>
  The direction \<open>(1, 1, 1, 0, 0, 0)\<close> as \<^verbatim>\<open>_mp_get_unit_vector\<close> computes it in doubles:
  the length is \<open>sqrt 3\<close> rounded, 1.7320508075688772, and each quotient rounds to
  0.5773502691896258, which is \<open>5200308914369309 / 2\<^sup>5\<^sup>3\<close>.
\<close>

definition mm_diagonal :: mpMoveMasterSingleton where
  "mm_diagonal = zero_mm\<lparr>mm_unit_vec :=
     [5200308914369309 / 2 ^ 53, 5200308914369309 / 2 ^ 53, 5200308914369309 / 2 ^ 53, 0, 0, 0]\<rparr>"

definition bf_diagonal :: mpBuffer where
  "bf_diagonal = zero_buffer\<lparr>bf_unit_vec :=
     [5200308914369309 / 2 ^ 53, 5200308914369309 / 2 ^ 53, 5200308914369309 / 2 ^ 53, 0, 0, 0]\<rparr>"

text \<open>
  The ring with a dwell of zero seconds queued in each of its eight buffers (the state
  after eight calls of \<^verbatim>\<open>mp_dwell(0)\<close> on the initial state), and that ring after the
  dispatcher has run and released the first dwell: one buffer is free.
\<close>

definition full_ring :: planner where
  "full_ring = (mp_init cfg_ex)\<lparr>mb := (mb (mp_init cfg_ex))\<lparr>mb_bf :=
     map (\<lambda>b. b\<lparr>bf_buffer_state := MP_BUFFER_QUEUED, bf_move_type := MP_TYPE_DWELL\<rparr>)
       (mb_bf (mb (mp_init cfg_ex)))\<rparr>\<rparr>"

definition one_free :: planner where
  "one_free = full_ring\<lparr>mb := mp_finalize_run_buffer (snd (mp_get_run_buffer (mb full_ring)))\<rparr>"

text \<open>The initial state after \<^verbatim>\<open>mp_set_position\<close> to 1 mm on the X axis.\<close>

definition at_x1 :: planner where
  "at_x1 = snd (mp_set_position [1, 0, 0, 0, 0, 0] (mp_init cfg_ex))"



text \<open>
  Two moves of 2 mm each along X in the queue, as two calls of \<^verbatim>\<open>mp_aline\<close> at
  10000 mm/min leave them before the second one replans: the first move in slots 0 to 2
  (head 1 mm, no body, tail 1 mm), the newest in slots 3 to 5 (tail only), all six regions
  replannable. \<^verbatim>\<open>mp[0]\<close> is the planning struct of the newest move, with a requested
  initial velocity of 10000 mm/min. Only the fields that the braking pass reads are filled
  in.
\<close>

definition region_ex :: "mpMoveType \<Rightarrow> real \<Rightarrow> mpBuffer \<Rightarrow> mpBuffer" where
  "region_ex ty len x =
     x\<lparr>bf_buffer_state := MP_BUFFER_QUEUED, bf_move_type := ty, bf_replannable := True,
       bf_length := len\<rparr>"

definition brake_ex :: planner where
  "brake_ex =
     (set_bf 5 (region_ex MP_TYPE_DECEL 2) (set_bf 4 (region_ex MP_TYPE_NULL 0)
       (set_bf 3 (region_ex MP_TYPE_NULL 0) (set_bf 2 (region_ex MP_TYPE_DECEL 1)
         (set_bf 1 (region_ex MP_TYPE_NULL 0) (set_bf 0 (region_ex MP_TYPE_ACCEL 1)
           (mp_init cfg_ex)))))))
     \<lparr>mm := mm_ex,
      mp0 := zero_planner\<lparr>m_path_mode := 2, m_head := Some 3, m_body := Some 4,
               m_tail := Some 5, m_length := 2, m_tail_length := 2,
               m_initial_velocity_req := 10000, m_target_velocity := 10000\<rparr>\<rparr>"

text \<open>The state after the braking pass on it, with \<^verbatim>\<open>mp[1]\<close> as the scratch struct.\<close>

definition braked :: planner where
  "braked = the (mp_set_braking_velocity cfg_ex 1 0 brake_ex)"

text \<open>
  The same arc run at 56.25 mm/min (3 mm in 4/75 min), queued on the initial state and
  not yet picked up; then a line of 2.5625 mm along X from the end of the arc, requested
  at 156.25 mm/min.
\<close>

definition arc_queued :: planner where
  "arc_queued =
     snd (mp_arc cfg_ex [10 * sin (3 / 10), 10 * cos (3 / 10) - 10, 0, 0, 0, 0]
            0 (- 10) 0 0 10 (3 / 10) 0 0 1 2 (4 / 75) (mp_init cfg_ex))"

definition line_after_arc :: planner where
  "line_after_arc =
     snd (the (mp_aline cfg_ex 2 [10 * sin (3 / 10) + 41 / 16, 10 * cos (3 / 10) - 10, 0, 0, 0, 0]
                 (41 / 2500) arc_queued))"


section \<open>Auxiliary facts\<close>

subsection \<open>The ring links\<close>

lemma map_update_same: "f y = f (xs ! k) \<Longrightarrow> map f (xs[k := y]) = map f xs"
  by (metis list_update_beyond list_update_id map_update not_le_imp_less nth_map length_map)

lemma links_get_write: "ring_links (snd (mp_get_write_buffer pool)) = ring_links pool"
  by (simp add: mp_get_write_buffer_def ring_links_def Let_def map_update_same)

lemma links_unget: "ring_links (mp_unget_write_buffer pool) = ring_links pool"
  by (simp add: mp_unget_write_buffer_def ring_links_def Let_def map_update_same)

lemma links_queue: "ring_links (mp_queue_write_buffer t pool) = ring_links pool"
  by (simp add: mp_queue_write_buffer_def ring_links_def Let_def map_update_same)

lemma links_get_run: "ring_links (snd (mp_get_run_buffer pool)) = ring_links pool"
  by (simp add: mp_get_run_buffer_def ring_links_def Let_def map_update_same)

lemma links_clear: "ring_links (mp_clear_buffer b pool) = ring_links pool"
  by (simp add: mp_clear_buffer_def ring_links_def Let_def map_update_same)

lemma links_finalize: "ring_links (mp_finalize_run_buffer pool) = ring_links pool"
  using links_clear [of "mb_r pool" pool]
  by (simp add: mp_finalize_run_buffer_def ring_links_def Let_def map_update_same)

lemma links_step: "ring_links (pool_step pool op) = ring_links pool"
  by (cases op) (simp_all add: links_get_write links_unget links_queue links_get_run
      links_clear links_finalize)

lemma links_steps: "ring_links (foldl pool_step pool ops) = ring_links pool"
  by (induction ops arbitrary: pool) (simp_all add: links_step)

lemma init_ring_fold:
  "n \<le> N \<Longrightarrow>
   foldl (init_ring_step cfg) (N - 1, replicate N zero_buffer) [0..<n] =
     ((if n = 0 then N - 1 else n - 1),
      map (\<lambda>i. if i < n
                then zero_buffer\<lparr>bf_nx := mp_bump cfg i, bf_pv := (if i = 0 then N - 1 else i - 1)\<rparr>
                else zero_buffer) [0..<N])"
proof (induction n)
  case 0
  show ?case by (simp add: map_replicate_trivial)
next
  case (Suc n)
  then have ih: "foldl (init_ring_step cfg) (N - 1, replicate N zero_buffer) [0..<n] =
     ((if n = 0 then N - 1 else n - 1),
      map (\<lambda>i. if i < n
                then zero_buffer\<lparr>bf_nx := mp_bump cfg i, bf_pv := (if i = 0 then N - 1 else i - 1)\<rparr>
                else zero_buffer) [0..<N])" and n: "n < N"
    by simp_all
  have "foldl (init_ring_step cfg) (N - 1, replicate N zero_buffer) [0..<Suc n] =
        init_ring_step cfg (foldl (init_ring_step cfg) (N - 1, replicate N zero_buffer) [0..<n]) n"
    by simp
  also have "\<dots> = init_ring_step cfg ((if n = 0 then N - 1 else n - 1),
      map (\<lambda>i. if i < n
                then zero_buffer\<lparr>bf_nx := mp_bump cfg i, bf_pv := (if i = 0 then N - 1 else i - 1)\<rparr>
                else zero_buffer) [0..<N]) n"
    by (simp only: ih)
  also have "\<dots> = (n, map (\<lambda>i. if i < Suc n
                then zero_buffer\<lparr>bf_nx := mp_bump cfg i, bf_pv := (if i = 0 then N - 1 else i - 1)\<rparr>
                else zero_buffer) [0..<N])"
    using n unfolding init_ring_step_def
    by (auto intro!: nth_equalityI simp: nth_list_update)
  finally show ?case by simp
qed

lemma init_bf:
  "mb_bf (mp_init_buffers cfg) =
     map (\<lambda>i. zero_buffer\<lparr>bf_nx := mp_bump cfg i,
                bf_pv := (if i = 0 then MP_BUFFER_SIZE cfg - 1 else i - 1)\<rparr>) [0..<MP_BUFFER_SIZE cfg]"
  using init_ring_fold [of "MP_BUFFER_SIZE cfg" "MP_BUFFER_SIZE cfg" cfg]
  by (simp add: mp_init_buffers_def)

lemma init_ring_ok: "0 < MP_BUFFER_SIZE cfg \<Longrightarrow> ring_ok (mp_init_buffers cfg)"
  by (simp add: ring_ok_def Let_def init_bf ring_links_def mp_bump_def) (simp add: mp_init_buffers_def)

lemma ring_ok_nx:
  assumes "ring_ok pool" "i < length (mb_bf pool)"
  shows "bf_nx (mb_bf pool ! i) = (if i < length (mb_bf pool) - 1 then i + 1 else 0)"
    and "bf_pv (mb_bf pool ! i) = (if i = 0 then length (mb_bf pool) - 1 else i - 1)"
proof -
  let ?n = "length (mb_bf pool)"
  let ?f = "\<lambda>i. (if i < ?n - 1 then i + 1 else 0, if i = 0 then ?n - 1 else i - 1)"
  have a: "ring_links pool = map ?f [0..<?n]"
    using assms(1) by (simp add: ring_ok_def Let_def)
  have b: "ring_links pool ! i = (bf_nx (mb_bf pool ! i), bf_pv (mb_bf pool ! i))"
    using assms(2) by (simp add: ring_links_def)
  have c0: "[0..<?n] ! i = i"
    using assms(2) by simp
  have "map ?f [0..<?n] ! i = ?f ([0..<?n] ! i)"
    using assms(2) by (intro nth_map) simp
  then have c: "map ?f [0..<?n] ! i = ?f i"
    by (simp only: c0)
  have "(bf_nx (mb_bf pool ! i), bf_pv (mb_bf pool ! i)) = ?f i"
    using a b c by metis
  then show "bf_nx (mb_bf pool ! i) = (if i < ?n - 1 then i + 1 else 0)"
    and "bf_pv (mb_bf pool ! i) = (if i = 0 then ?n - 1 else i - 1)"
    by simp_all
qed

lemma ring_ok_pv_nx:
  assumes "ring_ok pool" "i < length (mb_bf pool)"
  shows "bf_nx (mb_bf pool ! i) < length (mb_bf pool)"
    and "bf_pv (mb_bf pool ! (bf_nx (mb_bf pool ! i))) = i"
proof -
  show lt: "bf_nx (mb_bf pool ! i) < length (mb_bf pool)"
    using assms by (auto simp: ring_ok_nx(1))
  show "bf_pv (mb_bf pool ! (bf_nx (mb_bf pool ! i))) = i"
    using assms lt by (simp add: ring_ok_nx(2)) (auto simp: ring_ok_nx(1))
qed

lemma get_write_full:
  "bf_buffer_state (mb_bf pool ! mb_w pool) \<noteq> MP_BUFFER_EMPTY \<Longrightarrow>
   mp_get_write_buffer pool = (None, pool)"
  by (simp add: mp_get_write_buffer_def)

lemma mp_line_zero_length:
  assumes ok: "ring_ok (mb s)"
    and z: "fst (mp_line cfg target minutes s) = TG_ZERO_LENGTH_MOVE"
  shows "map bf_buffer_state (mb_bf (mb (snd (mp_line cfg target minutes s))))
           = map bf_buffer_state (mb_bf (mb s))"
    and "mb_w (mb (snd (mp_line cfg target minutes s))) = mb_w (mb s)"
    and "mb_q (mb (snd (mp_line cfg target minutes s))) = mb_q (mb s)"
    and "mb_r (mb (snd (mp_line cfg target minutes s))) = mb_r (mb s)"
    and "mm (snd (mp_line cfg target minutes s)) = mm s"
proof -
  let ?w = "mb_w (mb s)"
  have w: "?w < length (mb_bf (mb s))"
    using ok by (simp add: ring_ok_def Let_def)
  note nx = ring_ok_pv_nx [OF ok w]
  have *: "map bf_buffer_state (mb_bf (mb (snd (mp_line cfg target minutes s))))
           = map bf_buffer_state (mb_bf (mb s))
     \<and> mb_w (mb (snd (mp_line cfg target minutes s))) = mb_w (mb s)
     \<and> mb_q (mb (snd (mp_line cfg target minutes s))) = mb_q (mb s)
     \<and> mb_r (mb (snd (mp_line cfg target minutes s))) = mb_r (mb s)
     \<and> mm (snd (mp_line cfg target minutes s)) = mm s"
    using z w nx
    by (auto simp: mp_line_def mp_get_write_buffer_def Let_def set_bf_def get_bf_def
        mp_unget_write_buffer_def TRAP_def nth_list_update intro!: nth_equalityI
        split: if_splits)
  then show "map bf_buffer_state (mb_bf (mb (snd (mp_line cfg target minutes s))))
           = map bf_buffer_state (mb_bf (mb s))"
    and "mb_w (mb (snd (mp_line cfg target minutes s))) = mb_w (mb s)"
    and "mb_q (mb (snd (mp_line cfg target minutes s))) = mb_q (mb s)"
    and "mb_r (mb (snd (mp_line cfg target minutes s))) = mb_r (mb s)"
    and "mm (snd (mp_line cfg target minutes s)) = mm s"
    by simp_all
qed

subsection \<open>Loops over the axes\<close>

lemma upt_AXES: "[0..<AXES] = [0, 1, 2, 3, 4, 5]"
  by (simp add: AXES_def upt_rec)

lemma for_axes_unroll:
  "for_axes body x = body 5 (body 4 (body 3 (body 2 (body 1 (body 0 x)))))"
  by (simp add: for_axes_def upt_AXES)

lemma get_set_bf: "b < length (mb_bf (mb s)) \<Longrightarrow> get_bf (set_bf b f s) b = f (get_bf s b)"
  by (simp add: get_bf_def set_bf_def)

lemma copy_vector_AXES:
  "mp_copy_vector dest src AXES =
     dest[0 := src ! 0, 1 := src ! 1, 2 := src ! 2, 3 := src ! 3, 4 := src ! 4, 5 := src ! 5]"
  by (simp add: mp_copy_vector_def upt_AXES)

subsection \<open>The angular jerk factor and the jerk relations\<close>

lemma list6:
  assumes "length (v :: 'a list) = 6"
  obtains a b c d e f where "v = [a, b, c, d, e, f]"
proof -
  from assms obtain a v1 where "v = a # v1" "length v1 = 5"
    by (cases v) auto
  moreover then obtain b v2 where "v1 = b # v2" "length v2 = 4"
    by (cases v1) auto
  moreover then obtain c v3 where "v2 = c # v3" "length v3 = 3"
    by (cases v2) auto
  moreover then obtain d v4 where "v3 = d # v4" "length v4 = 2"
    by (cases v3) auto
  moreover then obtain e v5 where "v4 = e # v5" "length v5 = 1"
    by (cases v4) auto
  moreover then obtain f where "v5 = [f]"
    by (cases v5) auto
  ultimately show ?thesis
    using that by simp
qed

lemma dot_bounds:
  fixes a :: real
  assumes "a*a + b*b + c*c + d*d + e*e + f*f = 1"
      and "a'*a' + b'*b' + c'*c' + d'*d' + e'*e' + f'*f' = 1"
  shows "a*a' + b*b' + c*c' + d*d' + e*e' + f*f' \<le> 1"
    and "- 1 \<le> a*a' + b*b' + c*c' + d*d' + e*e' + f*f'"
proof -
  have p: "2 * x * y \<le> x * x + y * y" for x y :: real
    using sum_squares_bound [of x y] by (simp add: power2_eq_square)
  have q: "- (x * x + y * y) \<le> 2 * x * y" for x y :: real
    using sum_squares_bound [of x "- y"] by (simp add: power2_eq_square)
  show "a*a' + b*b' + c*c' + d*d' + e*e' + f*f' \<le> 1"
    using assms p [of a a'] p [of b b'] p [of c c'] p [of d d'] p [of e e'] p [of f f']
    by linarith
  show "- 1 \<le> a*a' + b*b' + c*c' + d*d' + e*e' + f*f'"
    using assms q [of a a'] q [of b b'] q [of c c'] q [of d d'] q [of e e'] q [of f f']
    by linarith
qed

lemma ajf_main:
  assumes u: "is_unit_vec (mm_unit_vec m)" and v: "is_unit_vec (bf_unit_vec p)"
  shows "\<exists>x. mp_get_angular_jerk_factor m p = Some x \<and> 0 \<le> x \<and> x \<le> 1"
    and "bf_unit_vec p = mm_unit_vec m \<Longrightarrow> mp_get_angular_jerk_factor m p = Some 1"
    and "bf_unit_vec p = map uminus (mm_unit_vec m) \<Longrightarrow> mp_get_angular_jerk_factor m p = Some 0"
proof -
  from u obtain a b c d e f where U: "mm_unit_vec m = [a, b, c, d, e, f]"
    by (auto simp: is_unit_vec_def AXES_def elim: list6)
  from v obtain a' b' c' d' e' f' where V: "bf_unit_vec p = [a', b', c', d', e', f']"
    by (auto simp: is_unit_vec_def AXES_def elim: list6)
  have nu: "a*a + b*b + c*c + d*d + e*e + f*f = 1"
    using u by (simp add: is_unit_vec_def U)
  have nv: "a'*a' + b'*b' + c'*c' + d'*d' + e'*e' + f'*f' = 1"
    using v by (simp add: is_unit_vec_def V)
  let ?c = "a*a' + b*b' + c*c' + d*d' + e*e' + f*f'"
  have c1: "?c \<le> 1" and c2: "- 1 \<le> ?c"
    using dot_bounds [OF nu nv] by simp_all
  have ajf: "mp_get_angular_jerk_factor m p = Some (cos (arccos ?c / 2))"
    using c1 c2 by (simp add: mp_get_angular_jerk_factor_def c_acos_def U V)
  have "0 \<le> arccos ?c" and "arccos ?c \<le> pi"
    using c1 c2 by (simp_all add: arccos_lbound arccos_ubound)
  then have "0 \<le> cos (arccos ?c / 2)"
    by (intro cos_ge_zero) simp_all
  then show "\<exists>x. mp_get_angular_jerk_factor m p = Some x \<and> 0 \<le> x \<and> x \<le> 1"
    unfolding ajf by simp
  show "mp_get_angular_jerk_factor m p = Some 1" if "bf_unit_vec p = mm_unit_vec m"
  proof -
    have "?c = 1" using that nu U V by simp
    then show ?thesis unfolding ajf by simp
  qed
  show "mp_get_angular_jerk_factor m p = Some 0" if "bf_unit_vec p = map uminus (mm_unit_vec m)"
  proof -
    have "?c = - 1" using that nu U V by simp
    then show ?thesis unfolding ajf by simp
  qed
qed

lemma ajf_axis_examples:
  "mp_get_angular_jerk_factor mm_along_x bf_along_x = Some 1"
  "mp_get_angular_jerk_factor mm_along_x bf_against_x = Some 0"
  "\<exists>x. mp_get_angular_jerk_factor mm_along_x bf_along_y = Some x \<and> 0 \<le> x \<and> x \<le> 1"
proof -
  have m: "is_unit_vec (mm_unit_vec mm_along_x)"
    by (simp add: is_unit_vec_def mm_along_x_def zero_mm_def AXES_def)
  have a: "is_unit_vec (bf_unit_vec bf_along_x)"
    by (simp add: is_unit_vec_def bf_along_x_def zero_buffer_def AXES_def)
  have b: "is_unit_vec (bf_unit_vec bf_against_x)"
    by (simp add: is_unit_vec_def bf_against_x_def zero_buffer_def AXES_def)
  have c: "is_unit_vec (bf_unit_vec bf_along_y)"
    by (simp add: is_unit_vec_def bf_along_y_def zero_buffer_def AXES_def)
  show "mp_get_angular_jerk_factor mm_along_x bf_along_x = Some 1"
    by (rule ajf_main(2) [OF m a])
       (simp add: bf_along_x_def mm_along_x_def zero_buffer_def zero_mm_def)
  show "mp_get_angular_jerk_factor mm_along_x bf_against_x = Some 0"
    by (rule ajf_main(3) [OF m b])
       (simp add: bf_against_x_def mm_along_x_def zero_buffer_def zero_mm_def)
  show "\<exists>x. mp_get_angular_jerk_factor mm_along_x bf_along_y = Some x \<and> 0 \<le> x \<and> x \<le> 1"
    by (rule ajf_main(1) [OF m c])
qed

lemma ajf_nan:
  assumes "1 < mm_unit_vec m ! 0 * bf_unit_vec p ! 0 + mm_unit_vec m ! 1 * bf_unit_vec p ! 1 +
               mm_unit_vec m ! 2 * bf_unit_vec p ! 2 + mm_unit_vec m ! 3 * bf_unit_vec p ! 3 +
               mm_unit_vec m ! 4 * bf_unit_vec p ! 4 + mm_unit_vec m ! 5 * bf_unit_vec p ! 5"
  shows "mp_get_angular_jerk_factor m p = None"
  using assms by (simp add: mp_get_angular_jerk_factor_def c_acos_def)

lemma roundtrip_formula:
  assumes J: "0 < cfg_linear_jerk_max cfg"
      and r: "mm_linear_jerk_rad3 m = cubert (cfg_linear_jerk_max cfg)"
      and le: "Vi \<le> Vf"
  shows "mp_get_velocity m Vi (mp_get_length cfg Vi Vf) =
           Vi + (Vf - Vi) * mp_get_length cfg Vi Vf powr (1 / 30000000)"
proof (cases "Vi = Vf")
  case True
  then show ?thesis
    by (simp add: mp_get_velocity_def mp_get_length_def)
next
  case False
  define d where "d = Vf - Vi"
  define Jm where "Jm = cfg_linear_jerk_max cfg"
  have d: "0 < d" using le False by (simp add: d_def)
  have Jp: "0 < Jm" using J by (simp add: Jm_def)
  have L: "mp_get_length cfg Vi Vf = d * sqrt (d / Jm)"
    using d by (simp add: mp_get_length_def d_def Jm_def Let_def)
  have Lpos: "0 < d * sqrt (d / Jm)"
    using d Jp by simp
  have sq: "sqrt (d / Jm) = (d / Jm) powr (1 / 2)"
    using d Jp by (simp add: powr_half_sqrt)
  have L23: "(d * sqrt (d / Jm)) powr (2 / 3) = d / Jm powr (1 / 3)"
  proof -
    have "(d * sqrt (d / Jm)) powr (2 / 3) = d powr (2 / 3) * ((d / Jm) powr (1 / 2)) powr (2 / 3)"
      using d Jp by (simp add: sq powr_mult)
    also have "\<dots> = d powr (2 / 3) * (d / Jm) powr (1 / 3)"
      by (simp add: powr_powr)
    also have "\<dots> = d powr (2 / 3) * (d powr (1 / 3) / Jm powr (1 / 3))"
      using d Jp by (simp add: powr_divide)
    also have "\<dots> = d powr (2 / 3 + 1 / 3) / Jm powr (1 / 3)"
      by (simp only: powr_add times_divide_eq_right)
    also have "\<dots> = d / Jm powr (1 / 3)"
      using d by simp
    finally show ?thesis .
  qed
  have rt: "cubert Jm = Jm powr (1 / 3)"
    using Jp by (simp add: cubert_def root_powr_inverse)
  have ex: "(6666667 / 10000000 :: real) = 2 / 3 + 1 / 30000000"
    by simp
  have "(d * sqrt (d / Jm)) powr (6666667 / 10000000)
          = (d * sqrt (d / Jm)) powr (2 / 3 + 1 / 30000000)"
    by (simp only: ex)
  also have "\<dots> = (d * sqrt (d / Jm)) powr (2 / 3) * (d * sqrt (d / Jm)) powr (1 / 30000000)"
    by (simp only: powr_add)
  finally have e: "(d * sqrt (d / Jm)) powr (6666667 / 10000000)
          = d / Jm powr (1 / 3) * (d * sqrt (d / Jm)) powr (1 / 30000000)"
    by (simp only: L23)
  have "0 < Jm powr (1 / 3)"
    using Jp by simp
  then have "cubert Jm * (d * sqrt (d / Jm)) powr (6666667 / 10000000)
      = d * (d * sqrt (d / Jm)) powr (1 / 30000000)"
    by (simp only: e rt) simp
  then show ?thesis
    by (simp only: mp_get_velocity_def L r d_def [symmetric] Jm_def [symmetric])
qed

subsection \<open>The arc runner\<close>




lemma arc_segment_target:
  assumes b: "b < length (mb_bf (mb s))"
    and ax: "a_axis_1 (bf_a (get_bf s b)) < length (mr_target (mr s))"
            "a_axis_2 (bf_a (get_bf s b)) < length (mr_target (mr s))"
            "a_axis_1 (bf_a (get_bf s b)) \<noteq> a_axis_2 (bf_a (get_bf s b))"
            "a_axis_1 (bf_a (get_bf s b)) \<noteq> a_axis_linear (bf_a (get_bf s b))"
            "a_axis_2 (bf_a (get_bf s b)) \<noteq> a_axis_linear (bf_a (get_bf s b))"
  shows "mr_target (mr (arc_segment b s)) ! a_axis_1 (bf_a (get_bf s b)) =
           mr_center_1 (mr s) + sin (a_theta (bf_a (get_bf s b)) + mr_segment_theta (mr s)) * a_radius (bf_a (get_bf s b))"
    and "mr_target (mr (arc_segment b s)) ! a_axis_2 (bf_a (get_bf s b)) =
           mr_center_2 (mr s) + cos (a_theta (bf_a (get_bf s b)) + mr_segment_theta (mr s)) * a_radius (bf_a (get_bf s b))"
  using assms
  by (simp_all add: arc_segment_def Let_def get_bf_def set_bf_def queue_line_def mp_set_mr_position_def)



subsection \<open>Queueing a region buffer\<close>

lemma axis_frame_refl: "axis_frame b s s"
  unfolding axis_frame_def
  by (rule exI [of _ "bf_unit_vec (mb_bf (mb s) ! b)"], rule exI [of _ "bf_target (mb_bf (mb s) ! b)"],
      rule exI [of _ "mm_position (mm s)"]) simp

lemma axis_frame_step:
  assumes "axis_frame b s t"
  shows "axis_frame b s (queue_buffer_axis b len i t)"
proof -
  from assms obtain u g p where
    t: "t = s\<lparr>mb := (mb s)\<lparr>mb_bf := (mb_bf (mb s))
                         [b := (mb_bf (mb s) ! b)\<lparr>bf_unit_vec := u, bf_target := g\<rparr>]\<rparr>,
                mm := (mm s)\<lparr>mm_position := p\<rparr>\<rparr>"
    unfolding axis_frame_def by blast
  show ?thesis
  proof (cases "b < length (mb_bf (mb s))")
    case True
    define ua where "ua = u[i := mm_unit_vec (mm s) ! i]"
    define pa where "pa = p[i := p ! i + len * ua ! i]"
    define ga where "ga = g[i := pa ! i]"
    have "queue_buffer_axis b len i t =
            s\<lparr>mb := (mb s)\<lparr>mb_bf := (mb_bf (mb s))
                         [b := (mb_bf (mb s) ! b)\<lparr>bf_unit_vec := ua, bf_target := ga\<rparr>]\<rparr>,
              mm := (mm s)\<lparr>mm_position := pa\<rparr>\<rparr>"
      using True
      by (simp add: t queue_buffer_axis_def Let_def set_bf_def get_bf_def ua_def pa_def ga_def)
    then show ?thesis
      unfolding axis_frame_def by blast
  next
    case False
    define pa where "pa = p[i := p ! i + len * bf_unit_vec (mb_bf (mb s) ! b) ! i]"
    have lu: "(mb_bf (mb s))[b := y] = mb_bf (mb s)" for y
      by (rule list_update_beyond) (use False in simp)
    have "queue_buffer_axis b len i t =
            s\<lparr>mb := (mb s)\<lparr>mb_bf := (mb_bf (mb s))
                         [b := (mb_bf (mb s) ! b)\<lparr>bf_unit_vec := u, bf_target := g\<rparr>]\<rparr>,
              mm := (mm s)\<lparr>mm_position := pa\<rparr>\<rparr>"
      by (simp add: t queue_buffer_axis_def Let_def set_bf_def get_bf_def pa_def lu)
    then show ?thesis
      unfolding axis_frame_def by blast
  qed
qed

lemma axis_frame_foldl:
  "axis_frame b s t \<Longrightarrow> axis_frame b s (foldl (\<lambda>acc i. queue_buffer_axis b len i acc) t is)"
  by (induction "is" arbitrary: t) (simp_all add: axis_frame_step)

lemma axis_frame_for_axes: "axis_frame b s (for_axes (queue_buffer_axis b len) s)"
  unfolding for_axes_def by (rule axis_frame_foldl) (rule axis_frame_refl)

lemma queue_buffer_none:
  "bf_buffer_state (mb_bf (mb s) ! mb_w (mb s)) \<noteq> MP_BUFFER_EMPTY \<Longrightarrow>
   mp_queue_buffer cfg Vs Ve Vr len s = (None, s)"
  by (simp add: mp_queue_buffer_def mp_get_write_buffer_def)

lemma queue_buffer_some:
  assumes e: "bf_buffer_state (mb_bf (mb s) ! mb_w (mb s)) = MP_BUFFER_EMPTY"
      and w: "mb_w (mb s) < length (mb_bf (mb s))"
      and q: "mb_q (mb s) = mb_w (mb s)"
  shows "fst (mp_queue_buffer cfg Vs Ve Vr len s) = Some (mb_w (mb s))"
    and "mb_w (mb (snd (mp_queue_buffer cfg Vs Ve Vr len s))) = bf_nx (mb_bf (mb s) ! mb_w (mb s))"
    and "mb_q (mb (snd (mp_queue_buffer cfg Vs Ve Vr len s))) = bf_nx (mb_bf (mb s) ! mb_w (mb s))"
    and "mb_r (mb (snd (mp_queue_buffer cfg Vs Ve Vr len s))) = mb_r (mb s)"
    and "length (mb_bf (mb (snd (mp_queue_buffer cfg Vs Ve Vr len s)))) = length (mb_bf (mb s))"
    and "ring_links (mb (snd (mp_queue_buffer cfg Vs Ve Vr len s))) = ring_links (mb s)"
    and "bf_buffer_state (mb_bf (mb (snd (mp_queue_buffer cfg Vs Ve Vr len s))) ! mb_w (mb s))
           = MP_BUFFER_QUEUED"
    and "bf_length (mb_bf (mb (snd (mp_queue_buffer cfg Vs Ve Vr len s))) ! mb_w (mb s)) = len"
    and "bf_start_velocity (mb_bf (mb (snd (mp_queue_buffer cfg Vs Ve Vr len s))) ! mb_w (mb s)) = Vs"
    and "bf_end_velocity (mb_bf (mb (snd (mp_queue_buffer cfg Vs Ve Vr len s))) ! mb_w (mb s)) = Ve"
    and "j \<noteq> mb_w (mb s) \<Longrightarrow>
           mb_bf (mb (snd (mp_queue_buffer cfg Vs Ve Vr len s))) ! j = mb_bf (mb s) ! j"
    and "mp0 (snd (mp_queue_buffer cfg Vs Ve Vr len s)) = mp0 s"
    and "mp1 (snd (mp_queue_buffer cfg Vs Ve Vr len s)) = mp1 s"
    and "bf_move_type (mb_bf (mb (snd (mp_queue_buffer cfg Vs Ve Vr len s))) ! mb_w (mb s))
           = mp_get_move_type cfg
               (mb_bf (mb (snd (mp_queue_buffer cfg Vs Ve Vr len s))) ! mb_w (mb s))"
    and "bf_move_state (mb_bf (mb (snd (mp_queue_buffer cfg Vs Ve Vr len s))) ! mb_w (mb s))
           = MP_STATE_NEW"
    and "bf_replannable (mb_bf (mb (snd (mp_queue_buffer cfg Vs Ve Vr len s))) ! mb_w (mb s))"
    and "mr (snd (mp_queue_buffer cfg Vs Ve Vr len s)) = mr s"
    and "mq (snd (mp_queue_buffer cfg Vs Ve Vr len s)) = mq s"
proof -
  let ?w = "mb_w (mb s)"
  let ?s1 = "set_bf ?w (\<lambda>x. x\<lparr>bf_start_velocity := Vs, bf_end_velocity := Ve,
                                  bf_request_velocity := Vr, bf_length := len\<rparr>)
               (s\<lparr>mb := snd (mp_get_write_buffer (mb s))\<rparr>)"
  obtain u g p where
    f: "for_axes (queue_buffer_axis ?w len) ?s1 =
          ?s1\<lparr>mb := (mb ?s1)\<lparr>mb_bf := (mb_bf (mb ?s1))
                         [?w := (mb_bf (mb ?s1) ! ?w)\<lparr>bf_unit_vec := u, bf_target := g\<rparr>]\<rparr>,
                mm := (mm ?s1)\<lparr>mm_position := p\<rparr>\<rparr>"
    using axis_frame_for_axes [of ?w ?s1 len] unfolding axis_frame_def by blast
  have gw: "mp_get_write_buffer (mb s) = (Some ?w, snd (mp_get_write_buffer (mb s)))"
    using e by (simp add: mp_get_write_buffer_def Let_def)
  have qb: "mp_queue_buffer cfg Vs Ve Vr len s =
     (let s2 = for_axes (queue_buffer_axis ?w len) ?s1;
          s3 = set_bf ?w (\<lambda>x. x\<lparr>bf_replannable := True\<rparr>) s2
      in (Some ?w, s3\<lparr>mb := mp_queue_write_buffer (mp_get_move_type cfg (get_bf s3 ?w)) (mb s3)\<rparr>))"
    by (subst mp_queue_buffer_def, subst gw) simp
  show "fst (mp_queue_buffer cfg Vs Ve Vr len s) = Some (mb_w (mb s))"
    and "mb_w (mb (snd (mp_queue_buffer cfg Vs Ve Vr len s))) = bf_nx (mb_bf (mb s) ! mb_w (mb s))"
    and "mb_q (mb (snd (mp_queue_buffer cfg Vs Ve Vr len s))) = bf_nx (mb_bf (mb s) ! mb_w (mb s))"
    and "mb_r (mb (snd (mp_queue_buffer cfg Vs Ve Vr len s))) = mb_r (mb s)"
    and "length (mb_bf (mb (snd (mp_queue_buffer cfg Vs Ve Vr len s)))) = length (mb_bf (mb s))"
    and "ring_links (mb (snd (mp_queue_buffer cfg Vs Ve Vr len s))) = ring_links (mb s)"
    and "bf_buffer_state (mb_bf (mb (snd (mp_queue_buffer cfg Vs Ve Vr len s))) ! mb_w (mb s))
           = MP_BUFFER_QUEUED"
    and "bf_length (mb_bf (mb (snd (mp_queue_buffer cfg Vs Ve Vr len s))) ! mb_w (mb s)) = len"
    and "bf_start_velocity (mb_bf (mb (snd (mp_queue_buffer cfg Vs Ve Vr len s))) ! mb_w (mb s)) = Vs"
    and "bf_end_velocity (mb_bf (mb (snd (mp_queue_buffer cfg Vs Ve Vr len s))) ! mb_w (mb s)) = Ve"
    and "j \<noteq> mb_w (mb s) \<Longrightarrow>
           mb_bf (mb (snd (mp_queue_buffer cfg Vs Ve Vr len s))) ! j = mb_bf (mb s) ! j"
    and "mp0 (snd (mp_queue_buffer cfg Vs Ve Vr len s)) = mp0 s"
    and "mp1 (snd (mp_queue_buffer cfg Vs Ve Vr len s)) = mp1 s"
    and "bf_move_type (mb_bf (mb (snd (mp_queue_buffer cfg Vs Ve Vr len s))) ! mb_w (mb s))
           = mp_get_move_type cfg
               (mb_bf (mb (snd (mp_queue_buffer cfg Vs Ve Vr len s))) ! mb_w (mb s))"
    and "bf_move_state (mb_bf (mb (snd (mp_queue_buffer cfg Vs Ve Vr len s))) ! mb_w (mb s))
           = MP_STATE_NEW"
    and "bf_replannable (mb_bf (mb (snd (mp_queue_buffer cfg Vs Ve Vr len s))) ! mb_w (mb s))"
    and "mr (snd (mp_queue_buffer cfg Vs Ve Vr len s)) = mr s"
    and "mq (snd (mp_queue_buffer cfg Vs Ve Vr len s)) = mq s"
    using e w q unfolding qb Let_def f
    by (simp_all add: mp_get_write_buffer_def set_bf_def get_bf_def Let_def
        mp_queue_write_buffer_def ring_links_def map_update_same mp_get_move_type_def)
qed

subsection \<open>Queueing the three regions\<close>

lemma mb_mp_set [simp]: "mb (mp_set k m s) = mb s"
  by (simp add: mp_set_def)

lemma mp_get_mp_set [simp]: "mp_get (mp_set k m s) k = m"
  by (simp add: mp_set_def mp_get_def)

lemma queue_move_unfold:
  "mp_queue_move cfg k s =
     (let r1 = mp_queue_buffer cfg (m_initial_velocity (mp_get s k)) (m_cruise_velocity (mp_get s k))
                 (m_initial_velocity_req (mp_get s k)) (m_head_length (mp_get s k)) s;
          s2 = mp_set k ((mp_get (snd r1) k)\<lparr>m_head := fst r1\<rparr>) (snd r1)
      in if fst r1 = None then (TG_BUFFER_FULL_FATAL, s2)
         else
          (let r3 = mp_queue_buffer cfg (m_cruise_velocity (mp_get s2 k))
                       (m_cruise_velocity (mp_get s2 k)) (m_target_velocity (mp_get s2 k))
                       (m_body_length (mp_get s2 k)) s2;
               s4 = mp_set k ((mp_get (snd r3) k)\<lparr>m_body := fst r3\<rparr>) (snd r3)
           in if fst r3 = None then (TG_BUFFER_FULL_FATAL, s4)
              else
               (let r5 = mp_queue_buffer cfg (m_cruise_velocity (mp_get s4 k))
                            (m_final_velocity (mp_get s4 k)) (m_target_velocity (mp_get s4 k))
                            (m_tail_length (mp_get s4 k)) s4;
                    s6 = mp_set k ((mp_get (snd r5) k)\<lparr>m_tail := fst r5\<rparr>) (snd r5)
                in if fst r5 = None then (TG_BUFFER_FULL_FATAL, s6) else (TG_OK, s6))))"
  by (simp add: mp_queue_move_def Let_def split: prod.splits)

lemma queue_move_status:
  "fst (mp_queue_move cfg k s) = TG_OK \<or> fst (mp_queue_move cfg k s) = TG_BUFFER_FULL_FATAL"
  by (simp add: queue_move_unfold Let_def)

lemma queue_buffer_inv:
  assumes ok: "ring_ok (mb s)" and q: "mb_q (mb s) = mb_w (mb s)"
  shows "ring_ok (mb (snd (mp_queue_buffer cfg Vs Ve Vr len s)))"
    and "mb_q (mb (snd (mp_queue_buffer cfg Vs Ve Vr len s)))
           = mb_w (mb (snd (mp_queue_buffer cfg Vs Ve Vr len s)))"
proof -
  have w: "mb_w (mb s) < length (mb_bf (mb s))"
    using ok by (simp add: ring_ok_def Let_def)
  show "ring_ok (mb (snd (mp_queue_buffer cfg Vs Ve Vr len s)))"
  proof (cases "bf_buffer_state (mb_bf (mb s) ! mb_w (mb s)) = MP_BUFFER_EMPTY")
    case True
    note qb = queue_buffer_some [OF True w q]
    show ?thesis
      using ok ring_ok_pv_nx(1) [OF ok w]
      by (simp add: ring_ok_def Let_def qb(2,3,4,5,6))
  next
    case False
    then show ?thesis using ok by (simp add: queue_buffer_none)
  qed
  show "mb_q (mb (snd (mp_queue_buffer cfg Vs Ve Vr len s)))
           = mb_w (mb (snd (mp_queue_buffer cfg Vs Ve Vr len s)))"
  proof (cases "bf_buffer_state (mb_bf (mb s) ! mb_w (mb s)) = MP_BUFFER_EMPTY")
    case True
    note qb = queue_buffer_some [OF True w q]
    show ?thesis by (simp add: qb(2,3))
  next
    case False
    then show ?thesis using q by (simp add: queue_buffer_none)
  qed
qed

lemma queue_buffer_fst:
  "fst (mp_queue_buffer cfg Vs Ve Vr len s) = None \<longleftrightarrow>
     bf_buffer_state (mb_bf (mb s) ! mb_w (mb s)) \<noteq> MP_BUFFER_EMPTY"
  by (simp add: mp_queue_buffer_def mp_get_write_buffer_def Let_def)

lemma queue_buffer_keeps_queued:
  assumes ok: "ring_ok (mb s)" and q: "mb_q (mb s) = mb_w (mb s)"
      and j: "bf_buffer_state (mb_bf (mb s) ! j) = MP_BUFFER_QUEUED"
  shows "bf_buffer_state (mb_bf (mb (snd (mp_queue_buffer cfg Vs Ve Vr len s))) ! j) = MP_BUFFER_QUEUED"
proof (cases "bf_buffer_state (mb_bf (mb s) ! mb_w (mb s)) = MP_BUFFER_EMPTY")
  case True
  have w: "mb_w (mb s) < length (mb_bf (mb s))"
    using ok by (simp add: ring_ok_def Let_def)
  have "j \<noteq> mb_w (mb s)" using True j by auto
  then show ?thesis
    using queue_buffer_some(11) [OF True w q] j by simp
next
  case False
  then show ?thesis using j by (simp add: queue_buffer_none)
qed

lemma queue_move_full:
  assumes ok: "ring_ok (mb s)" and q: "mb_q (mb s) = mb_w (mb s)"
      and full: "fst (mp_queue_move cfg k s) = TG_BUFFER_FULL_FATAL"
  shows "if bf_buffer_state (mb_bf (mb s) ! mb_w (mb s)) = MP_BUFFER_EMPTY
         then bf_buffer_state (mb_bf (mb (snd (mp_queue_move cfg k s))) ! mb_w (mb s)) = MP_BUFFER_QUEUED
         else mb (snd (mp_queue_move cfg k s)) = mb s"
proof (cases "bf_buffer_state (mb_bf (mb s) ! mb_w (mb s)) = MP_BUFFER_EMPTY")
  case False
  then show ?thesis
    by (simp add: queue_move_unfold Let_def queue_buffer_none)
next
  case True
  have w: "mb_w (mb s) < length (mb_bf (mb s))"
    using ok by (simp add: ring_ok_def Let_def)
  define r1 where "r1 = mp_queue_buffer cfg (m_initial_velocity (mp_get s k)) (m_cruise_velocity (mp_get s k))
                 (m_initial_velocity_req (mp_get s k)) (m_head_length (mp_get s k)) s"
  define s2 where "s2 = mp_set k ((mp_get (snd r1) k)\<lparr>m_head := fst r1\<rparr>) (snd r1)"
  define r3 where "r3 = mp_queue_buffer cfg (m_cruise_velocity (mp_get s2 k))
                       (m_cruise_velocity (mp_get s2 k)) (m_target_velocity (mp_get s2 k))
                       (m_body_length (mp_get s2 k)) s2"
  define s4 where "s4 = mp_set k ((mp_get (snd r3) k)\<lparr>m_body := fst r3\<rparr>) (snd r3)"
  define r5 where "r5 = mp_queue_buffer cfg (m_cruise_velocity (mp_get s4 k))
                            (m_final_velocity (mp_get s4 k)) (m_target_velocity (mp_get s4 k))
                            (m_tail_length (mp_get s4 k)) s4"
  define s6 where "s6 = mp_set k ((mp_get (snd r5) k)\<lparr>m_tail := fst r5\<rparr>) (snd r5)"
  have qm: "mp_queue_move cfg k s =
     (if fst r1 = None then (TG_BUFFER_FULL_FATAL, s2)
      else if fst r3 = None then (TG_BUFFER_FULL_FATAL, s4)
      else if fst r5 = None then (TG_BUFFER_FULL_FATAL, s6) else (TG_OK, s6))"
    unfolding r1_def s2_def r3_def s4_def r5_def s6_def
    by (simp add: queue_move_unfold Let_def)
  have r1: "fst r1 \<noteq> None"
    using True by (simp add: r1_def queue_buffer_fst)
  have q2: "bf_buffer_state (mb_bf (mb s2) ! mb_w (mb s)) = MP_BUFFER_QUEUED"
    using queue_buffer_some(7) [OF True w q] by (simp add: s2_def r1_def)
  have ok2: "ring_ok (mb s2)" and qw2: "mb_q (mb s2) = mb_w (mb s2)"
    using queue_buffer_inv [OF ok q] by (simp_all add: s2_def r1_def)
  have q4: "bf_buffer_state (mb_bf (mb s4) ! mb_w (mb s)) = MP_BUFFER_QUEUED"
    using queue_buffer_keeps_queued [OF ok2 qw2 q2] by (simp add: s4_def r3_def)
  have ok4: "ring_ok (mb s4)" and qw4: "mb_q (mb s4) = mb_w (mb s4)"
    using queue_buffer_inv [OF ok2 qw2] by (simp_all add: s4_def r3_def)
  have q6: "bf_buffer_state (mb_bf (mb s6) ! mb_w (mb s)) = MP_BUFFER_QUEUED"
    using queue_buffer_keeps_queued [OF ok4 qw4 q4] by (simp add: s6_def r5_def)
  show ?thesis
    using True full r1 q4 q6 by (simp add: qm split: if_splits)
qed

subsection \<open>The statuses of the line producers\<close>

lemma queue_move_status_pair:
  "mp_queue_move cfg k s = (st, s') \<Longrightarrow> st = TG_OK \<or> st = TG_BUFFER_FULL_FATAL"
  using queue_move_status [of cfg k s] by simp

lemma mb_compute_regions_at [simp]: "mb (snd (compute_regions_at cfg Vir Vt Vf k s)) = mb s"
  by (simp add: compute_regions_at_def split: prod.splits)

lemma compute_regions_at_pair:
  "compute_regions_at cfg Vir Vt Vf k s = (n, s') \<Longrightarrow> mb s' = mb s"
  using mb_compute_regions_at [of cfg Vir Vt Vf k s] by simp

lemma queue_move_full_rule:
  assumes "mp_queue_move cfg k t = (TG_BUFFER_FULL_FATAL, s')" and "mb t = mb s"
      and "ring_ok (mb s)" and "mb_q (mb s) = mb_w (mb s)"
  shows "if bf_buffer_state (mb_bf (mb s) ! mb_w (mb s)) = MP_BUFFER_EMPTY
         then bf_buffer_state (mb_bf (mb s') ! mb_w (mb s)) = MP_BUFFER_QUEUED
         else mb s' = mb s"
proof -
  have "ring_ok (mb t)" and "mb_q (mb t) = mb_w (mb t)"
    and "fst (mp_queue_move cfg k t) = TG_BUFFER_FULL_FATAL"
    and "snd (mp_queue_move cfg k t) = s'"
    using assms by simp_all
  from queue_move_full [OF this(1,2,3)] this(4) assms(2) show ?thesis
    by (auto split: if_splits)
qed

lemma aline_after_arc_status:
  "aline_after_arc cfg s = Some (st, s') \<Longrightarrow> st = TG_OK \<or> st = TG_BUFFER_FULL_FATAL"
  by (auto simp: aline_after_arc_def Let_def split: if_splits prod.splits
      dest: queue_move_status_pair)

lemma aline_after_line_status:
  "aline_after_line cfg s = Some (st, s') \<Longrightarrow> st = TG_OK \<or> st = TG_BUFFER_FULL_FATAL"
  by (auto simp: aline_after_line_def Let_def split: if_splits prod.splits option.splits
      dest: queue_move_status_pair)

lemma aline_plan_status:
  "aline_plan cfg pcm minutes s = Some (st, s') \<Longrightarrow> st = TG_OK \<or> st = TG_BUFFER_FULL_FATAL"
  by (auto simp: aline_plan_def Let_def split: if_splits
      dest: aline_after_arc_status aline_after_line_status)

lemma aline_after_arc_full:
  "aline_after_arc cfg t = Some (TG_BUFFER_FULL_FATAL, s') \<Longrightarrow>
   \<exists>u. mb u = mb t \<and> mp_queue_move cfg 0 u = (TG_BUFFER_FULL_FATAL, s')"
  by (auto simp: aline_after_arc_def Let_def split: if_splits prod.splits
      intro!: exI [of _ "snd (compute_regions_at cfg (m_initial_velocity_req (mp_get t 0))
                      (m_target_velocity (mp_get t 0)) 0 0 t)"])

lemma aline_after_line_full:
  assumes "aline_after_line cfg t = Some (TG_BUFFER_FULL_FATAL, s')"
  shows "\<exists>u. mb u = mb t \<and> mp_queue_move cfg 0 u = (TG_BUFFER_FULL_FATAL, s')"
proof -
  obtain n s9 where c: "compute_regions_at cfg (m_initial_velocity_req (mp_get t 0))
             (m_target_velocity (mp_get t 0)) 0 0 t = (n, s9)"
    by (cases "compute_regions_at cfg (m_initial_velocity_req (mp_get t 0))
             (m_target_velocity (mp_get t 0)) 0 0 t") auto
  have m: "mb s9 = mb t"
    using compute_regions_at_pair [OF c] .
  have "mp_queue_move cfg 0 s9 = (TG_BUFFER_FULL_FATAL, s')"
    using assms
    by (auto simp: aline_after_line_def c split: if_splits prod.splits option.splits)
  with m show ?thesis by blast
qed

lemma aline_plan_full_source:
  "aline_plan cfg pcm minutes t = Some (TG_BUFFER_FULL_FATAL, s') \<Longrightarrow>
   \<exists>u. mb u = mb t \<and> mp_queue_move cfg 0 u = (TG_BUFFER_FULL_FATAL, s')"
  by (auto simp: aline_plan_def Let_def split: if_splits
      dest!: aline_after_arc_full aline_after_line_full)

lemma aline_plan_full:
  assumes "aline_plan cfg pcm minutes t = Some (TG_BUFFER_FULL_FATAL, s')" and "mb t = mb s"
      and "ring_ok (mb s)" and "mb_q (mb s) = mb_w (mb s)"
  shows "if bf_buffer_state (mb_bf (mb s) ! mb_w (mb s)) = MP_BUFFER_EMPTY
         then bf_buffer_state (mb_bf (mb s') ! mb_w (mb s)) = MP_BUFFER_QUEUED
         else mb s' = mb s"
proof -
  from aline_plan_full_source [OF assms(1)] obtain u where
    u: "mb u = mb t" "mp_queue_move cfg 0 u = (TG_BUFFER_FULL_FATAL, s')"
    by blast
  show ?thesis
    by (rule queue_move_full_rule [OF u(2) _ assms(3,4)]) (simp add: u(1) assms(2))
qed

lemma aline_setup_frame:
  "mb (aline_setup target s) = mb s"
  "mm_position (mm (aline_setup target s)) = mm_position (mm s)"
  "mm_unit_vec (mm (aline_setup target s)) = mm_unit_vec (mm s)"
  "mm_target (mm (aline_setup target s)) = mp_copy_vector (mm_target (mm s)) target AXES"
  "mr (aline_setup target s) = mr s"
  "mq (aline_setup target s) = mq s"
  "traps (aline_setup target s) = traps s"
  "mp1 (aline_setup target s) = mp1 s"
  by (simp_all add: aline_setup_def Let_def mp_set_def)

lemma mp_aline_zero_length:
  assumes "mp_aline cfg pcm target minutes s = Some (TG_ZERO_LENGTH_MOVE, s')"
  shows "mb s' = mb s" and "mm_position (mm s') = mm_position (mm s)"
    and "mm_unit_vec (mm s') = mm_unit_vec (mm s)"
    and "mr s' = mr s" and "mq s' = mq s"
  using assms
  by (auto simp: mp_aline_def Let_def aline_setup_frame split: if_splits dest: aline_plan_status)

lemma mp_aline_full:
  assumes "mp_aline cfg pcm target minutes s = Some (TG_BUFFER_FULL_FATAL, s')"
      and "ring_ok (mb s)" and "mb_q (mb s) = mb_w (mb s)"
  shows "if bf_buffer_state (mb_bf (mb s) ! mb_w (mb s)) = MP_BUFFER_EMPTY
         then bf_buffer_state (mb_bf (mb s') ! mb_w (mb s)) = MP_BUFFER_QUEUED
         else mb s' = mb s"
proof -
  have "aline_plan cfg pcm minutes (aline_setup target s) = Some (TG_BUFFER_FULL_FATAL, s')"
    using assms(1) by (simp add: mp_aline_def Let_def split: if_splits)
  then show ?thesis
    by (rule aline_plan_full [OF _ _ assms(2,3)]) (simp add: aline_setup_frame)
qed

subsection \<open>The example states\<close>

lemma upt8: "[0..<8] = [0, 1, 2, 3, 4, 5, 6, 7]"
  by (simp add: upt_rec)

lemma zero_vec_list: "zero_vec = [0, 0, 0, 0, 0, 0]"
  by (simp add: zero_vec_def AXES_def numeral_eq_Suc)

lemma ring_ok_transfer:
  assumes "ring_ok p" and l: "ring_links p' = ring_links p"
      and "mb_w p' < length (mb_bf p)" "mb_q p' < length (mb_bf p)" "mb_r p' < length (mb_bf p)"
  shows "ring_ok p'"
proof -
  have "length (ring_links p') = length (ring_links p)"
    by (simp only: l)
  then have len: "length (mb_bf p') = length (mb_bf p)"
    by (simp add: ring_links_def)
  show ?thesis
    using assms unfolding ring_ok_def Let_def len by simp
qed

lemma zero_buffer_sel [simp]:
  "bf_buffer_state zero_buffer = MP_BUFFER_EMPTY"
  "bf_move_type zero_buffer = MP_TYPE_NULL"
  "bf_move_state zero_buffer = MP_STATE_NEW"
  "bf_replannable zero_buffer = False"
  "bf_request_velocity zero_buffer = 0"
  "bf_end_velocity zero_buffer = 0"
  "bf_start_velocity zero_buffer = 0"
  "bf_length zero_buffer = 0"
  "bf_time zero_buffer = 0"
  "bf_unit_vec zero_buffer = [0, 0, 0, 0, 0, 0]"
  "bf_target zero_buffer = [0, 0, 0, 0, 0, 0]"
  by (simp_all add: zero_buffer_def zero_vec_list)

lemma init_ex_bf:
  "mb_bf (mp_init_buffers cfg_ex) =
     [zero_buffer\<lparr>bf_nx := 1, bf_pv := 7\<rparr>, zero_buffer\<lparr>bf_nx := 2, bf_pv := 0\<rparr>,
      zero_buffer\<lparr>bf_nx := 3, bf_pv := 1\<rparr>, zero_buffer\<lparr>bf_nx := 4, bf_pv := 2\<rparr>,
      zero_buffer\<lparr>bf_nx := 5, bf_pv := 3\<rparr>, zero_buffer\<lparr>bf_nx := 6, bf_pv := 4\<rparr>,
      zero_buffer\<lparr>bf_nx := 7, bf_pv := 5\<rparr>, zero_buffer\<lparr>bf_nx := 0, bf_pv := 6\<rparr>]"
  by (simp add: init_bf cfg_ex_def upt8 mp_bump_def)

lemma init_ex_ptrs:
  "mb_w (mp_init_buffers cfg_ex) = 0" "mb_q (mp_init_buffers cfg_ex) = 0"
  "mb_r (mp_init_buffers cfg_ex) = 0"
  by (simp_all add: mp_init_buffers_def)

lemma init_ex_ok: "ring_ok (mb (mp_init cfg_ex))"
  by (simp add: mp_init_def init_ring_ok cfg_ex_def)

lemma full_ring_pool:
  "mb_w (mb full_ring) = 0" "mb_q (mb full_ring) = 0" "mb_r (mb full_ring) = 0"
  "mb_bf (mb full_ring) =
     map (\<lambda>b. b\<lparr>bf_buffer_state := MP_BUFFER_QUEUED, bf_move_type := MP_TYPE_DWELL\<rparr>)
       (mb_bf (mp_init_buffers cfg_ex))"
  by (simp_all add: full_ring_def mp_init_def init_ex_ptrs)

lemma full_ring_w: "bf_buffer_state (mb_bf (mb full_ring) ! mb_w (mb full_ring)) = MP_BUFFER_QUEUED"
  by (simp add: full_ring_pool init_ex_bf)

lemma one_free_pool:
  "mb_w (mb one_free) = 0" "mb_q (mb one_free) = 0" "mb_r (mb one_free) = 1"
  "length (mb_bf (mb one_free)) = 8"
  "bf_buffer_state (mb_bf (mb one_free) ! 0) = MP_BUFFER_EMPTY"
  "bf_nx (mb_bf (mb one_free) ! 0) = 1"
  "bf_pv (mb_bf (mb one_free) ! 0) = 7"
  "bf_buffer_state (mb_bf (mb one_free) ! 1) = MP_BUFFER_PENDING"
  "bf_buffer_state (mb_bf (mb one_free) ! 7) = MP_BUFFER_QUEUED"
  "bf_move_type (mb_bf (mb one_free) ! 7) = MP_TYPE_DWELL"
  "bf_request_velocity (mb_bf (mb one_free) ! 7) = 0"
  by (simp_all add: one_free_def mp_finalize_run_buffer_def mp_get_run_buffer_def
      mp_clear_buffer_def Let_def full_ring_pool init_ex_bf)

lemma one_free_ok: "ring_ok (mb one_free)"
proof -
  have "ring_links (mb one_free) = ring_links (mb full_ring)"
    by (simp add: one_free_def links_finalize links_get_run)
  moreover have "ring_links (mb full_ring) = ring_links (mb (mp_init cfg_ex))"
    by (simp add: ring_links_def full_ring_pool mp_init_def comp_def)
  ultimately have l: "ring_links (mb one_free) = ring_links (mb (mp_init cfg_ex))"
    by simp
  have n: "length (mb_bf (mb (mp_init cfg_ex))) = 8"
    by (simp add: mp_init_def init_ex_bf)
  show ?thesis
    by (rule ring_ok_transfer [OF init_ex_ok l]) (simp_all add: n one_free_pool)
qed

subsection \<open>An acceleration-managed line with fewer than three free buffers\<close>

lemma compute_regions_ht_count: "fst (compute_regions_ht cfg mmv m) = 2"
  by (simp add: compute_regions_ht_def Let_def split: prod.splits)

lemma compute_regions_single_count: "0 < fst (compute_regions_single cfg mmv Vir Vt Vf m)"
  by (simp add: compute_regions_single_def Let_def compute_regions_ht_count)

lemma compute_regions_count:
  "fst (mp_compute_regions cfg mmv Vir Vt Vf m) = 0 \<longleftrightarrow> m_length m < MIN_LINE_LENGTH cfg"
  by (simp add: mp_compute_regions_def Let_def compute_regions_single_count)

lemma compute_regions_at_count:
  "fst (compute_regions_at cfg Vir Vt Vf k s) = 0 \<longleftrightarrow> m_length (mp_get s k) < MIN_LINE_LENGTH cfg"
proof -
  have "fst (compute_regions_at cfg Vir Vt Vf k s)
          = fst (mp_compute_regions cfg (mm s) Vir Vt Vf (mp_get s k))"
    by (cases "mp_compute_regions cfg (mm s) Vir Vt Vf (mp_get s k)")
       (simp add: compute_regions_at_def)
  then show ?thesis
    by (simp only: compute_regions_count)
qed

lemma queue_move_partial:
  assumes ok: "ring_ok (mb s)" and q: "mb_q (mb s) = mb_w (mb s)"
      and e: "bf_buffer_state (mb_bf (mb s) ! mb_w (mb s)) = MP_BUFFER_EMPTY"
      and n: "bf_buffer_state (mb_bf (mb s) ! bf_nx (mb_bf (mb s) ! mb_w (mb s))) \<noteq> MP_BUFFER_EMPTY"
  shows "fst (mp_queue_move cfg k s) = TG_BUFFER_FULL_FATAL"
proof -
  have w: "mb_w (mb s) < length (mb_bf (mb s))"
    using ok by (simp add: ring_ok_def Let_def)
  define r1 where "r1 = mp_queue_buffer cfg (m_initial_velocity (mp_get s k)) (m_cruise_velocity (mp_get s k))
                 (m_initial_velocity_req (mp_get s k)) (m_head_length (mp_get s k)) s"
  define s2 where "s2 = mp_set k ((mp_get (snd r1) k)\<lparr>m_head := fst r1\<rparr>) (snd r1)"
  have ne: "bf_nx (mb_bf (mb s) ! mb_w (mb s)) \<noteq> mb_w (mb s)"
    using e n by auto
  have w2: "mb_w (mb s2) = bf_nx (mb_bf (mb s) ! mb_w (mb s))"
    using queue_buffer_some(2) [OF e w q] by (simp add: s2_def r1_def)
  have "mb_bf (mb s2) ! bf_nx (mb_bf (mb s) ! mb_w (mb s))
          = mb_bf (mb s) ! bf_nx (mb_bf (mb s) ! mb_w (mb s))"
    using queue_buffer_some(11) [OF e w q ne] by (simp add: s2_def r1_def)
  then have "bf_buffer_state (mb_bf (mb s2) ! mb_w (mb s2)) \<noteq> MP_BUFFER_EMPTY"
    using n by (simp add: w2)
  then have "fst (mp_queue_buffer cfg Vs Ve Vr len s2) = None" for Vs Ve Vr len
    by (simp add: queue_buffer_fst)
  then show ?thesis
    unfolding queue_move_unfold Let_def r1_def [symmetric] s2_def [symmetric]
    by simp
qed

lemma aline_after_line_one_free:
  assumes ok: "ring_ok (mb s)" and q: "mb_q (mb s) = mb_w (mb s)"
      and e: "bf_buffer_state (mb_bf (mb s) ! mb_w (mb s)) = MP_BUFFER_EMPTY"
      and n: "bf_buffer_state (mb_bf (mb s) ! bf_nx (mb_bf (mb s) ! mb_w (mb s))) \<noteq> MP_BUFFER_EMPTY"
      and l: "\<not> m_length (mp_get s 0) < MIN_LINE_LENGTH cfg"
  shows "\<exists>s'. aline_after_line cfg s = Some (TG_BUFFER_FULL_FATAL, s')"
proof -
  obtain c s9 where c: "compute_regions_at cfg (m_initial_velocity_req (mp_get s 0))
             (m_target_velocity (mp_get s 0)) 0 0 s = (c, s9)"
    by (cases "compute_regions_at cfg (m_initial_velocity_req (mp_get s 0))
             (m_target_velocity (mp_get s 0)) 0 0 s") auto
  have m: "mb s9 = mb s"
    using compute_regions_at_pair [OF c] .
  have c0: "c \<noteq> 0"
    using compute_regions_at_count [of cfg "m_initial_velocity_req (mp_get s 0)"
        "m_target_velocity (mp_get s 0)" 0 0 s] l by (simp add: c)
  have "fst (mp_queue_move cfg 0 s9) = TG_BUFFER_FULL_FATAL"
    by (rule queue_move_partial) (simp_all add: m ok q e n)
  then show ?thesis
    using c0 by (cases "mp_queue_move cfg 0 s9") (simp add: aline_after_line_def c)
qed

lemma aline_after_arc_one_free:
  assumes ok: "ring_ok (mb s)" and q: "mb_q (mb s) = mb_w (mb s)"
      and e: "bf_buffer_state (mb_bf (mb s) ! mb_w (mb s)) = MP_BUFFER_EMPTY"
      and n: "bf_buffer_state (mb_bf (mb s) ! bf_nx (mb_bf (mb s) ! mb_w (mb s))) \<noteq> MP_BUFFER_EMPTY"
  shows "\<exists>s'. aline_after_arc cfg s = Some (TG_BUFFER_FULL_FATAL, s')"
proof -
  have "fst (mp_queue_move cfg 0 (snd (compute_regions_at cfg (m_initial_velocity_req (mp_get s 0))
                      (m_target_velocity (mp_get s 0)) 0 0 s))) = TG_BUFFER_FULL_FATAL"
    by (rule queue_move_partial) (simp_all add: ok q e n)
  then show ?thesis
    by (cases "mp_queue_move cfg 0 (snd (compute_regions_at cfg (m_initial_velocity_req (mp_get s 0))
                      (m_target_velocity (mp_get s 0)) 0 0 s))")
       (simp add: aline_after_arc_def Let_def)
qed

lemma m_length_mp_set [simp]:
  "m_length (mp_get (s\<lparr>mm := x\<rparr>) k) = m_length (mp_get s k)"
  by (simp add: mp_get_def)

lemma aline_plan_one_free:
  assumes ok: "ring_ok (mb s)" and q: "mb_q (mb s) = mb_w (mb s)"
      and e: "bf_buffer_state (mb_bf (mb s) ! mb_w (mb s)) = MP_BUFFER_EMPTY"
      and n: "bf_buffer_state (mb_bf (mb s) ! bf_nx (mb_bf (mb s) ! mb_w (mb s))) \<noteq> MP_BUFFER_EMPTY"
      and l: "\<not> m_length (mp_get s 0) < MIN_LINE_LENGTH cfg"
  shows "\<exists>s'. aline_plan cfg pcm minutes s = Some (TG_BUFFER_FULL_FATAL, s')"
  unfolding aline_plan_def Let_def
  by (auto intro!: aline_after_arc_one_free aline_after_line_one_free simp: ok q e n l)

lemma mp_aline_one_free:
  assumes ok: "ring_ok (mb s)" and q: "mb_q (mb s) = mb_w (mb s)"
      and e: "bf_buffer_state (mb_bf (mb s) ! mb_w (mb s)) = MP_BUFFER_EMPTY"
      and n: "bf_buffer_state (mb_bf (mb s) ! bf_nx (mb_bf (mb s) ! mb_w (mb s))) \<noteq> MP_BUFFER_EMPTY"
      and t: "\<not> minutes < EPSILON cfg"
      and l: "\<not> mp_get_axis_vector_length (mp_copy_vector (mm_target (mm s)) target AXES)
                  (mm_position (mm s)) < MIN_LINE_LENGTH cfg"
  shows "\<exists>s'. mp_aline cfg pcm target minutes s = Some (TG_BUFFER_FULL_FATAL, s')"
proof -
  have len: "m_length (mp_get (aline_setup target s) 0) =
          mp_get_axis_vector_length (mp_copy_vector (mm_target (mm s)) target AXES) (mm_position (mm s))"
    by (simp add: aline_setup_def Let_def mp_set_def mp_get_def)
  have "\<exists>s'. aline_plan cfg pcm minutes (aline_setup target s) = Some (TG_BUFFER_FULL_FATAL, s')"
    by (rule aline_plan_one_free) (simp_all add: aline_setup_frame ok q e n len l)
  then show ?thesis
    using t l by (simp add: mp_aline_def Let_def len)
qed

subsection \<open>Producers that find no write buffer\<close>

lemma dwell_full:
  "fst (mp_dwell seconds s) = TG_BUFFER_FULL_FATAL \<Longrightarrow>
   snd (mp_dwell seconds s) = TRAP ''Failed to get buffer in mp_dwell()'' s"
  by (auto simp: mp_dwell_def mp_get_write_buffer_def Let_def split: if_splits)

lemma line_full:
  "fst (mp_line cfg target minutes s) = TG_BUFFER_FULL_FATAL \<Longrightarrow>
   snd (mp_line cfg target minutes s) = TRAP ''Failed to get buffer in mp_line()'' s"
  by (auto simp: mp_line_def mp_get_write_buffer_def Let_def split: if_splits)

lemma arc_full:
  "fst (mp_arc cfg target i j k theta radius angular_travel linear_travel a1 a2 al minutes s)
      = TG_BUFFER_FULL_FATAL \<Longrightarrow>
   snd (mp_arc cfg target i j k theta radius angular_travel linear_travel a1 a2 al minutes s)
      = TRAP ''Failed to get buffer in mp_arc()'' s"
  by (auto simp: mp_arc_def mp_get_write_buffer_def Let_def split: if_splits)

lemma queued_no_buffer:
  assumes "bf_buffer_state (mb_bf (mb s) ! mb_w (mb s)) \<noteq> MP_BUFFER_EMPTY"
  shows "mp_queued_stop s = (None, TRAP ''Failed to get buffer in mp_queued_stop()'' s)"
    and "mp_queued_start s = (None, TRAP ''Failed to get buffer in mp_queued_start()'' s)"
    and "mp_queued_end s = (None, TRAP ''Failed to get buffer in mp_queued_end()'' s)"
  using assms
  by (simp_all add: mp_queued_stop_def mp_queued_start_def mp_queued_end_def get_write_full)

subsection \<open>One invocation of the arc, acceleration and deceleration runners\<close>




lemma run_blocked:
  "mp_run_accel cfg False b s = (TG_EAGAIN, s)" "mp_run_decel cfg False b s = (TG_EAGAIN, s)"
  by (simp_all add: mp_run_accel_def mp_run_decel_def)

subsection \<open>Facts about the example states\<close>

lemma sqrt_9: "sqrt 9 = 3"
  by (rule real_sqrt_unique) simp_all

lemma cubert_ex: "cubert 1000000 = 100"
proof -
  have "root 3 ((100::real) ^ 3) = 100"
    by (rule real_root_power_cancel) simp_all
  then show ?thesis by (simp add: cubert_def)
qed

lemma sqrt_ex:
  "sqrt (1 / 10000) = 1 / 100"
  by (rule real_sqrt_unique; simp add: power2_eq_square)+

lemma init_ex_rest:
  "mm (mp_init cfg_ex) = zero_mm" "mr (mp_init cfg_ex) = zero_mr" "mq (mp_init cfg_ex) = []"
  "mp0 (mp_init cfg_ex) = zero_planner" "traps (mp_init cfg_ex) = []"
  "mb_w (mb (mp_init cfg_ex)) = 0" "mb_q (mb (mp_init cfg_ex)) = 0" "mb_r (mb (mp_init cfg_ex)) = 0"
  "mb_bf (mb (mp_init cfg_ex)) = mb_bf (mp_init_buffers cfg_ex)"
  by (simp_all add: mp_init_def init_ex_ptrs)

lemma cfg_ex_sel [simp]:
  "cfg_linear_jerk_max cfg_ex = 1000000" "cfg_min_segment_len cfg_ex = 1 / 100"
  "cfg_min_segment_time cfg_ex = 1 / 12000" "EPSILON cfg_ex = 1 / 10000"
  "MIN_LINE_LENGTH cfg_ex = 3 / 100" "MP_BUFFER_SIZE cfg_ex = 8"
  "MP_MAX_LOOKBACK_DEPTH cfg_ex = 4" "PATH_EXACT_STOP cfg_ex = 0"
  by (simp_all add: cfg_ex_def)

lemma init_ex_slots:
  "length (mb_bf (mp_init_buffers cfg_ex)) = 8"
  "mb_bf (mp_init_buffers cfg_ex) ! 0 = zero_buffer\<lparr>bf_nx := 1, bf_pv := 7\<rparr>"
  "mb_bf (mp_init_buffers cfg_ex) ! 1 = zero_buffer\<lparr>bf_nx := 2, bf_pv := 0\<rparr>"
  "mb_bf (mp_init_buffers cfg_ex) ! 7 = zero_buffer\<lparr>bf_nx := 0, bf_pv := 6\<rparr>"
  "mb_bf (mp_init_buffers cfg_ex) ! 2 = zero_buffer\<lparr>bf_nx := 3, bf_pv := 1\<rparr>"
  "mb_bf (mp_init_buffers cfg_ex) ! 3 = zero_buffer\<lparr>bf_nx := 4, bf_pv := 2\<rparr>"
  "mb_bf (mp_init_buffers cfg_ex) ! 4 = zero_buffer\<lparr>bf_nx := 5, bf_pv := 3\<rparr>"
  "mb_bf (mp_init_buffers cfg_ex) ! 5 = zero_buffer\<lparr>bf_nx := 6, bf_pv := 4\<rparr>"
  "mb_bf (mp_init_buffers cfg_ex) ! 6 = zero_buffer\<lparr>bf_nx := 7, bf_pv := 5\<rparr>"
  "mb_bf (mp_init_buffers cfg_ex) ! Suc 0 = zero_buffer\<lparr>bf_nx := 2, bf_pv := 0\<rparr>"
  by (simp_all add: init_ex_bf)


lemma at_x1_facts:
  "mm_position (mm at_x1) = [1, 0, 0, 0, 0, 0]"
  "mm_target (mm at_x1) = [0, 0, 0, 0, 0, 0]"
  by (simp_all add: at_x1_def mp_set_position_def Let_def mp_set_mr_position_def for_axes_unroll
      init_ex_rest zero_mm_def zero_vec_list)

lemma full_ring_ok: "ring_ok (mb full_ring)"
proof -
  have l: "ring_links (mb full_ring) = ring_links (mb (mp_init cfg_ex))"
    by (simp add: ring_links_def full_ring_pool mp_init_def comp_def)
  show ?thesis
    by (rule ring_ok_transfer [OF init_ex_ok l])
       (simp_all add: full_ring_pool init_ex_rest init_ex_slots)
qed

lemma one_free_rest:
  "mm one_free = zero_mm" "mp0 one_free = zero_planner"
  by (simp_all add: one_free_def full_ring_def init_ex_rest)

lemma axis_length_x1:
  "mp_get_axis_vector_length (mp_copy_vector [0, 0, 0, 0, 0, 0] [1, 0, 0, 0, 0, 0] AXES)
     [0, 0, 0, 0, 0, 0] = 1"
  "mp_get_axis_vector_length (mp_copy_vector [0, 0, 0, 0, 0, 0] [1, 0, 0, 0, 0, 0] AXES)
     [1, 0, 0, 0, 0, 0] = 0"
  "mp_get_axis_vector_length [0, 0, 0, 0, 0, 0] [0, 0, 0, 0, 0, 0] = 0"
  by (simp_all add: mp_get_axis_vector_length_def copy_vector_AXES for_axes_unroll square_def)


lemma mp_aline_zero_target:
  assumes "mp_aline cfg pcm target minutes s = Some (TG_ZERO_LENGTH_MOVE, s')"
  shows "minutes < EPSILON cfg \<longrightarrow> s' = s"
    and "\<not> minutes < EPSILON cfg \<longrightarrow>
           mm_target (mm s') = mp_copy_vector (mm_target (mm s)) target AXES"
  using assms
  by (auto simp: mp_aline_def Let_def aline_setup_frame split: if_splits dest: aline_plan_status)

lemma aline_setup_length:
  "m_length (mp_get (aline_setup target s) 0) =
     mp_get_axis_vector_length (mp_copy_vector (mm_target (mm s)) target AXES) (mm_position (mm s))"
  by (simp add: aline_setup_def Let_def mp_set_def mp_get_def)

lemma aline_zero_init:
  "mp_aline cfg_ex 2 [0, 0, 0, 0, 0, 0] 1 (mp_init cfg_ex)
     = Some (TG_ZERO_LENGTH_MOVE, aline_setup [0, 0, 0, 0, 0, 0] (mp_init cfg_ex))"
  by (simp add: mp_aline_def Let_def aline_setup_length init_ex_rest zero_mm_def zero_vec_list
      copy_vector_AXES axis_length_x1)

lemma line_zero_init:
  "fst (mp_line cfg_ex [0, 0, 0, 0, 0, 0] 1 (mp_init cfg_ex)) = TG_ZERO_LENGTH_MOVE"
  by (simp add: mp_line_def Let_def mp_get_write_buffer_def init_ex_rest init_ex_slots
      set_bf_def get_bf_def zero_mr_def zero_vec_list axis_length_x1)

lemma aline_zero_at_x1:
  "mp_aline cfg_ex 2 [1, 0, 0, 0, 0, 0] 1 at_x1
     = Some (TG_ZERO_LENGTH_MOVE, aline_setup [1, 0, 0, 0, 0, 0] at_x1)"
  by (simp add: mp_aline_def Let_def aline_setup_length at_x1_facts axis_length_x1)


subsection \<open>The braking pass\<close>

lemma braking_walk_keeps_request:
  "braking_walk cfg bfs p i = Some (p1, e) \<Longrightarrow>
   m_initial_velocity_req p1 = m_initial_velocity_req p"
proof (induction cfg bfs p i rule: braking_walk.induct)
  case (1 cfg bfs p i)
  show ?case
  proof (cases "m_head p")
    case None
    with "1.prems" show ?thesis
      by (subst (asm) braking_walk.simps) simp
  next
    case (Some ph)
    define p' where "p' = p\<lparr>m_tail := Some (bf_pv (bfs ! ph)),
        m_body := Some (bf_pv (bfs ! bf_pv (bfs ! ph))),
        m_head := Some (bf_pv (bfs ! bf_pv (bfs ! bf_pv (bfs ! ph)))),
        m_length := m_length p + bf_length (bfs ! bf_pv (bfs ! bf_pv (bfs ! bf_pv (bfs ! ph))))
                    + bf_length (bfs ! bf_pv (bfs ! bf_pv (bfs ! ph)))
                    + bf_length (bfs ! bf_pv (bfs ! ph))\<rparr>"
    have r: "m_initial_velocity_req p' = m_initial_velocity_req p"
      by (simp add: p'_def)
    have u: "braking_walk cfg bfs p i =
        (if i + 1 > MP_MAX_LOOKBACK_DEPTH cfg then Some (p', True)
         else if bf_replannable (bfs ! bf_pv (bfs ! bf_pv (bfs ! bf_pv (bfs ! bf_pv (bfs ! ph)))))
              then braking_walk cfg bfs p' (i + 1)
              else Some (p', False))"
      by (subst braking_walk.simps) (simp add: Some Let_def p'_def)
    show ?thesis
    proof (cases "i + 1 > MP_MAX_LOOKBACK_DEPTH cfg")
      case True
      with "1.prems" u r show ?thesis by simp
    next
      case False
      note nl = this
      show ?thesis
      proof (cases "bf_replannable (bfs ! bf_pv (bfs ! bf_pv (bfs ! bf_pv (bfs ! bf_pv (bfs ! ph)))))")
        case True
        have w: "braking_walk cfg bfs p' (i + 1) = Some (p1, e)"
          using "1.prems" u nl True by simp
        have "m_initial_velocity_req p1 = m_initial_velocity_req p'"
          by (rule "1.IH" [OF Some refl refl refl p'_def nl True w])
        then show ?thesis using r by simp
      next
        case False
        with "1.prems" u nl r show ?thesis by simp
      qed
    qed
  qed
qed

lemma set_braking_velocity_frame:
  assumes "mp_set_braking_velocity cfg 1 0 s = Some s'"
  shows "mp_get s' 0 = mp_get s 0" and "mb s' = mb s" and "mm s' = mm s"
    and "m_initial_velocity_req (mp_get s' 1)
           = min (mp_get_velocity (mm s) 0 (m_length (mp_get s 0)))
                 (m_initial_velocity_req (mp_get s 0))"
proof -
  define p0 where "p0 = mp_clear_planner\<lparr>m_head := m_head (mp_get s 0),
      m_body := m_body (mp_get s 0), m_tail := m_tail (mp_get s 0),
      m_length := m_length (mp_get s 0),
      m_initial_velocity_req := m_initial_velocity_req (mp_get s 0)\<rparr>"
  obtain p1 e where w: "braking_walk cfg (mb_bf (mb s)) p0 0 = Some (p1, e)"
    using assms by (auto simp: mp_set_braking_velocity_def Let_def p0_def split: option.splits)
  define s1 where "s1 = (if e then TRAP ''Lookback error in _mp_set_braking_velocity'' s else s)"
  have s': "s' = mp_set 1 (p1\<lparr>m_initial_velocity_req :=
               min (mp_get_velocity (mm s1) 0 (m_length (mp_get s1 0)))
                   (m_initial_velocity_req p1)\<rparr>) s1"
    using assms w by (simp add: mp_set_braking_velocity_def Let_def p0_def [symmetric] s1_def)
  have k: "m_initial_velocity_req p1 = m_initial_velocity_req (mp_get s 0)"
    using braking_walk_keeps_request [OF w] by (simp add: p0_def)
  have f: "mp_get s1 0 = mp_get s 0" "mb s1 = mb s" "mm s1 = mm s"
    by (simp_all add: s1_def TRAP_def mp_get_def)
  show "mp_get s' 0 = mp_get s 0"
    using f by (simp add: s' mp_set_def mp_get_def)
  show "mb s' = mb s"
    using f by (simp add: s')
  show "mm s' = mm s"
    using f by (simp add: s' mp_set_def)
  show "m_initial_velocity_req (mp_get s' 1)
           = min (mp_get_velocity (mm s) 0 (m_length (mp_get s 0)))
                 (m_initial_velocity_req (mp_get s 0))"
    by (simp add: s' f k)
qed

lemma make_previous_move_clears:
  "mp_make_previous_move 1 0 (mp_set 1 x s) = mp_make_previous_move 1 0 (mp_set 1 y s)"
  by (simp add: mp_make_previous_move_def mp_set_def mp_get_def get_bf_def Let_def
      split: option.splits)

lemma brake_ex_facts:
  "length (mb_bf (mb brake_ex)) = 8"
  "bf_pv (mb_bf (mb brake_ex) ! 3) = 2"
  "bf_pv (mb_bf (mb brake_ex) ! 2) = 1"
  "bf_pv (mb_bf (mb brake_ex) ! 1) = 0"
  "bf_pv (mb_bf (mb brake_ex) ! 0) = 7"
  "bf_length (mb_bf (mb brake_ex) ! 0) = 1"
  "bf_length (mb_bf (mb brake_ex) ! 1) = 0"
  "bf_length (mb_bf (mb brake_ex) ! 2) = 1"
  "\<not> bf_replannable (mb_bf (mb brake_ex) ! 7)"
  "bf_replannable (mb_bf (mb brake_ex) ! 2)"
  by (simp_all add: brake_ex_def set_bf_def region_ex_def init_ex_rest init_ex_slots)

lemma brake_ex_rest:
  "mm brake_ex = mm_ex" "traps brake_ex = []"
  "mp0 brake_ex = zero_planner\<lparr>m_path_mode := 2, m_head := Some 3, m_body := Some 4,
               m_tail := Some 5, m_length := 2, m_tail_length := 2,
               m_initial_velocity_req := 10000, m_target_velocity := 10000\<rparr>"
  by (simp_all add: brake_ex_def set_bf_def init_ex_rest)

lemma velocity_ex:
  "mp_get_velocity mm_ex 0 4 \<le> 400"
  "mp_get_velocity mm_ex 0 2 \<le> 200"
proof -
  have "(4::real) powr (6666667 / 10000000) \<le> 4 powr 1"
    by (rule powr_mono) simp_all
  then show "mp_get_velocity mm_ex 0 4 \<le> 400"
    by (simp add: mp_get_velocity_def mm_ex_def)
  have "(2::real) powr (6666667 / 10000000) \<le> 2 powr 1"
    by (rule powr_mono) simp_all
  then show "mp_get_velocity mm_ex 0 2 \<le> 200"
    by (simp add: mp_get_velocity_def mm_ex_def)
qed

lemma braking_walk_ex:
  "braking_walk cfg_ex (mb_bf (mb brake_ex))
     (mp_clear_planner\<lparr>m_head := Some 3, m_body := Some 4, m_tail := Some 5,
        m_length := 2, m_initial_velocity_req := 10000\<rparr>) 0
   = Some (mp_clear_planner\<lparr>m_head := Some 0, m_body := Some 1, m_tail := Some 2,
        m_length := 4, m_initial_velocity_req := 10000\<rparr>, False)"
  by (subst braking_walk.simps)
     (simp add: Let_def brake_ex_facts brake_ex_facts [unfolded One_nat_def]
        mp_clear_planner_def zero_planner_def)

lemma braked_eq:
  "mp_set_braking_velocity cfg_ex 1 0 brake_ex =
     Some (mp_set 1 (mp_clear_planner\<lparr>m_head := Some 0, m_body := Some 1, m_tail := Some 2,
        m_length := 4, m_initial_velocity_req := mp_get_velocity mm_ex 0 2\<rparr>) brake_ex)"
proof -
  have m: "min (mp_get_velocity mm_ex 0 2) 10000 = mp_get_velocity mm_ex 0 2"
    using velocity_ex(2) by simp
  have g: "mp_get brake_ex 0 = mp0 brake_ex"
    by (simp add: mp_get_def)
  show ?thesis
    unfolding mp_set_braking_velocity_def g brake_ex_rest(3)
    using braking_walk_ex
    by (simp add: Let_def mp_clear_planner_def zero_planner_def brake_ex_rest m mp_get_def)
qed

subsection \<open>A move queued into three free buffers\<close>

lemma queue_buffer_mp_get:
  assumes "bf_buffer_state (mb_bf (mb s) ! mb_w (mb s)) = MP_BUFFER_EMPTY"
      and "mb_w (mb s) < length (mb_bf (mb s))" and "mb_q (mb s) = mb_w (mb s)"
  shows "mp_get (snd (mp_queue_buffer cfg Vs Ve Vr len s)) k = mp_get s k"
  using queue_buffer_some(12,13) [OF assms] by (simp add: mp_get_def)

lemma queue_move_ok:
  assumes ok: "ring_ok (mb s)" and q: "mb_q (mb s) = mb_w (mb s)"
      and n3: "3 \<le> length (mb_bf (mb s))"
      and h: "h = mb_w (mb s)" and b: "b = bf_nx (mb_bf (mb s) ! h)"
      and t: "t = bf_nx (mb_bf (mb s) ! b)"
      and e0: "bf_buffer_state (mb_bf (mb s) ! h) = MP_BUFFER_EMPTY"
      and e1: "bf_buffer_state (mb_bf (mb s) ! b) = MP_BUFFER_EMPTY"
      and e2: "bf_buffer_state (mb_bf (mb s) ! t) = MP_BUFFER_EMPTY"
      and r: "s' = snd (mp_queue_move cfg k s)"
  shows "fst (mp_queue_move cfg k s) = TG_OK"
    and "mp_get s' k = (mp_get s k)\<lparr>m_head := Some h, m_body := Some b, m_tail := Some t\<rparr>"
    and "bf_length (mb_bf (mb s') ! h) = m_head_length (mp_get s k)"
    and "bf_length (mb_bf (mb s') ! b) = m_body_length (mp_get s k)"
    and "bf_length (mb_bf (mb s') ! t) = m_tail_length (mp_get s k)"
    and "bf_start_velocity (mb_bf (mb s') ! h) = m_initial_velocity (mp_get s k)"
    and "bf_end_velocity (mb_bf (mb s') ! h) = m_cruise_velocity (mp_get s k)"
    and "bf_start_velocity (mb_bf (mb s') ! b) = m_cruise_velocity (mp_get s k)"
    and "bf_end_velocity (mb_bf (mb s') ! b) = m_cruise_velocity (mp_get s k)"
    and "bf_start_velocity (mb_bf (mb s') ! t) = m_cruise_velocity (mp_get s k)"
    and "bf_end_velocity (mb_bf (mb s') ! t) = m_final_velocity (mp_get s k)"
    and "bf_buffer_state (mb_bf (mb s') ! h) = MP_BUFFER_QUEUED"
    and "bf_buffer_state (mb_bf (mb s') ! b) = MP_BUFFER_QUEUED"
    and "bf_buffer_state (mb_bf (mb s') ! t) = MP_BUFFER_QUEUED"
    and "bf_move_type (mb_bf (mb s') ! h) = mp_get_move_type cfg (mb_bf (mb s') ! h)"
    and "bf_move_type (mb_bf (mb s') ! b) = mp_get_move_type cfg (mb_bf (mb s') ! b)"
    and "bf_move_type (mb_bf (mb s') ! t) = mp_get_move_type cfg (mb_bf (mb s') ! t)"
    and "bf_move_state (mb_bf (mb s') ! h) = MP_STATE_NEW"
    and "bf_replannable (mb_bf (mb s') ! h)"
    and "mb_r (mb s') = mb_r (mb s)" and "length (mb_bf (mb s')) = length (mb_bf (mb s))"
    and "mr s' = mr s" and "mq s' = mq s"
    and "j \<noteq> h \<Longrightarrow> j \<noteq> b \<Longrightarrow> j \<noteq> t \<Longrightarrow> mb_bf (mb s') ! j = mb_bf (mb s) ! j"
    and "ring_ok (mb s')"
proof -
  let ?n = "length (mb_bf (mb s))"
  have hl: "h < ?n"
    using ok h by (simp add: ring_ok_def Let_def)
  have bl: "b < ?n"
    using ring_ok_pv_nx(1) [OF ok hl] b by simp
  have tl: "t < ?n"
    using ring_ok_pv_nx(1) [OF ok bl] t by simp
  have bv: "b = (if h < ?n - 1 then h + 1 else 0)"
    using ring_ok_nx(1) [OF ok hl] b by simp
  have tv: "t = (if b < ?n - 1 then b + 1 else 0)"
    using ring_ok_nx(1) [OF ok bl] t by simp
  have d1: "b \<noteq> h" and d2: "t \<noteq> b" and d3: "t \<noteq> h"
    using bv tv n3 hl by (auto split: if_splits)
  define r1 where "r1 = mp_queue_buffer cfg (m_initial_velocity (mp_get s k))
      (m_cruise_velocity (mp_get s k)) (m_initial_velocity_req (mp_get s k))
      (m_head_length (mp_get s k)) s"
  define s2 where "s2 = mp_set k ((mp_get (snd r1) k)\<lparr>m_head := fst r1\<rparr>) (snd r1)"
  define r3 where "r3 = mp_queue_buffer cfg (m_cruise_velocity (mp_get s2 k))
      (m_cruise_velocity (mp_get s2 k)) (m_target_velocity (mp_get s2 k))
      (m_body_length (mp_get s2 k)) s2"
  define s4 where "s4 = mp_set k ((mp_get (snd r3) k)\<lparr>m_body := fst r3\<rparr>) (snd r3)"
  define r5 where "r5 = mp_queue_buffer cfg (m_cruise_velocity (mp_get s4 k))
      (m_final_velocity (mp_get s4 k)) (m_target_velocity (mp_get s4 k))
      (m_tail_length (mp_get s4 k)) s4"
  define s6 where "s6 = mp_set k ((mp_get (snd r5) k)\<lparr>m_tail := fst r5\<rparr>) (snd r5)"
  have u: "mp_queue_move cfg k s =
      (if fst r1 = None then (TG_BUFFER_FULL_FATAL, s2)
       else if fst r3 = None then (TG_BUFFER_FULL_FATAL, s4)
       else if fst r5 = None then (TG_BUFFER_FULL_FATAL, s6) else (TG_OK, s6))"
    unfolding queue_move_unfold [of cfg k s] Let_def r1_def [symmetric] s2_def [symmetric]
      r3_def [symmetric] s4_def [symmetric] r5_def [symmetric] s6_def [symmetric]
    by simp
  \<comment> \<open>the head\<close>
  have e0': "bf_buffer_state (mb_bf (mb s) ! mb_w (mb s)) = MP_BUFFER_EMPTY"
    using e0 h by simp
  have hl': "mb_w (mb s) < length (mb_bf (mb s))"
    using hl h by simp
  note q1 = queue_buffer_some [OF e0' hl' q, where cfg = cfg
      and Vs = "m_initial_velocity (mp_get s k)" and Ve = "m_cruise_velocity (mp_get s k)"
      and Vr = "m_initial_velocity_req (mp_get s k)" and len = "m_head_length (mp_get s k)", folded r1_def h]
  have g1: "mp_get (snd r1) k = mp_get s k"
    unfolding r1_def by (rule queue_buffer_mp_get [OF e0' hl' q])
  have m2: "mp_get s2 k = (mp_get s k)\<lparr>m_head := Some h\<rparr>"
    by (simp add: s2_def g1 q1(1))
  have mb2: "mb s2 = mb (snd r1)"
    by (simp add: s2_def)
  have w2: "mb_w (mb s2) = b" and q2: "mb_q (mb s2) = mb_w (mb s2)"
    and l2: "length (mb_bf (mb s2)) = ?n"
    using q1(2,3,5) b by (simp_all add: mb2)
  have ok2: "ring_ok (mb s2)"
    unfolding mb2 r1_def by (rule queue_buffer_inv(1) [OF ok q])
  have sb2: "mb_bf (mb s2) ! b = mb_bf (mb s) ! b" and st2: "mb_bf (mb s2) ! t = mb_bf (mb s) ! t"
    using q1(11) [of b] q1(11) [of t] d1 d3 by (simp_all add: mb2)
  \<comment> \<open>the body\<close>
  have e1': "bf_buffer_state (mb_bf (mb s2) ! mb_w (mb s2)) = MP_BUFFER_EMPTY"
    using e1 by (simp add: w2 sb2)
  have bl': "mb_w (mb s2) < length (mb_bf (mb s2))"
    using bl by (simp add: w2 l2)
  note q3 = queue_buffer_some [OF e1' bl' q2, where cfg = cfg
      and Vs = "m_cruise_velocity (mp_get s2 k)" and Ve = "m_cruise_velocity (mp_get s2 k)"
      and Vr = "m_target_velocity (mp_get s2 k)" and len = "m_body_length (mp_get s2 k)", folded r3_def, unfolded w2]
  have g3: "mp_get (snd r3) k = mp_get s2 k"
    unfolding r3_def by (rule queue_buffer_mp_get [OF e1' bl' q2])
  have m4: "mp_get s4 k = (mp_get s k)\<lparr>m_head := Some h, m_body := Some b\<rparr>"
    by (simp add: s4_def g3 q3(1) m2)
  have mb4: "mb s4 = mb (snd r3)"
    by (simp add: s4_def)
  have w4: "mb_w (mb s4) = t" and q4: "mb_q (mb s4) = mb_w (mb s4)"
    and l4: "length (mb_bf (mb s4)) = ?n"
    using q3(2,3,5) t by (simp_all add: mb4 sb2 l2)
  have sh4: "mb_bf (mb s4) ! h = mb_bf (mb s2) ! h" and st4: "mb_bf (mb s4) ! t = mb_bf (mb s) ! t"
    using q3(11) [of h] q3(11) [of t] d1 d2 by (simp_all add: mb4 st2)
  \<comment> \<open>the tail\<close>
  have e2': "bf_buffer_state (mb_bf (mb s4) ! mb_w (mb s4)) = MP_BUFFER_EMPTY"
    using e2 by (simp add: w4 st4)
  have tl': "mb_w (mb s4) < length (mb_bf (mb s4))"
    using tl by (simp add: w4 l4)
  note q5 = queue_buffer_some [OF e2' tl' q4, where cfg = cfg
      and Vs = "m_cruise_velocity (mp_get s4 k)" and Ve = "m_final_velocity (mp_get s4 k)"
      and Vr = "m_target_velocity (mp_get s4 k)" and len = "m_tail_length (mp_get s4 k)", folded r5_def, unfolded w4]
  have g5: "mp_get (snd r5) k = mp_get s4 k"
    unfolding r5_def by (rule queue_buffer_mp_get [OF e2' tl' q4])
  have m6: "mp_get s6 k = (mp_get s k)\<lparr>m_head := Some h, m_body := Some b, m_tail := Some t\<rparr>"
    by (simp add: s6_def g5 q5(1) m4)
  have mb6: "mb s6 = mb (snd r5)"
    by (simp add: s6_def)
  have sh6: "mb_bf (mb s6) ! h = mb_bf (mb (snd r1)) ! h"
    using q5(11) [of h] d3 by (simp add: mb6 sh4 mb2)
  have sb6: "mb_bf (mb s6) ! b = mb_bf (mb (snd r3)) ! b"
    using q5(11) [of b] d2 by (simp add: mb6 mb4)
  have res: "mp_queue_move cfg k s = (TG_OK, s6)"
    by (simp add: u q1(1) q3(1) q5(1))
  have s': "s' = s6"
    by (simp add: r res)
  show "fst (mp_queue_move cfg k s) = TG_OK"
    by (simp add: res)
  show "mp_get s' k = (mp_get s k)\<lparr>m_head := Some h, m_body := Some b, m_tail := Some t\<rparr>"
    by (simp add: s' m6)
  show "bf_length (mb_bf (mb s') ! h) = m_head_length (mp_get s k)"
    by (simp add: s' sh6 q1(8))
  show "bf_length (mb_bf (mb s') ! b) = m_body_length (mp_get s k)"
    by (simp add: s' sb6 q3(8) m2)
  show "bf_length (mb_bf (mb s') ! t) = m_tail_length (mp_get s k)"
    by (simp add: s' mb6 q5(8) m4)
  show "bf_start_velocity (mb_bf (mb s') ! h) = m_initial_velocity (mp_get s k)"
    by (simp add: s' sh6 q1(9))
  show "bf_end_velocity (mb_bf (mb s') ! h) = m_cruise_velocity (mp_get s k)"
    by (simp add: s' sh6 q1(10))
  show "bf_start_velocity (mb_bf (mb s') ! b) = m_cruise_velocity (mp_get s k)"
    by (simp add: s' sb6 q3(9) m2)
  show "bf_end_velocity (mb_bf (mb s') ! b) = m_cruise_velocity (mp_get s k)"
    by (simp add: s' sb6 q3(10) m2)
  show "bf_start_velocity (mb_bf (mb s') ! t) = m_cruise_velocity (mp_get s k)"
    by (simp add: s' mb6 q5(9) m4)
  show "bf_end_velocity (mb_bf (mb s') ! t) = m_final_velocity (mp_get s k)"
    by (simp add: s' mb6 q5(10) m4)
  show "bf_buffer_state (mb_bf (mb s') ! h) = MP_BUFFER_QUEUED"
    by (simp add: s' sh6 q1(7))
  show "bf_buffer_state (mb_bf (mb s') ! b) = MP_BUFFER_QUEUED"
    by (simp add: s' sb6 q3(7))
  show "bf_buffer_state (mb_bf (mb s') ! t) = MP_BUFFER_QUEUED"
    by (simp add: s' mb6 q5(7))
  show "bf_move_type (mb_bf (mb s') ! h) = mp_get_move_type cfg (mb_bf (mb s') ! h)"
    using q1(14) by (simp add: s' sh6)
  show "bf_move_type (mb_bf (mb s') ! b) = mp_get_move_type cfg (mb_bf (mb s') ! b)"
    using q3(14) by (simp add: s' sb6)
  show "bf_move_type (mb_bf (mb s') ! t) = mp_get_move_type cfg (mb_bf (mb s') ! t)"
    using q5(14) by (simp add: s' mb6)
  show "bf_move_state (mb_bf (mb s') ! h) = MP_STATE_NEW"
    by (simp add: s' sh6 q1(15))
  show "bf_replannable (mb_bf (mb s') ! h)"
    by (simp add: s' sh6 q1(16))
  show "mb_r (mb s') = mb_r (mb s)"
    by (simp add: s' mb6 q5(4) mb4 q3(4) mb2 q1(4))
  show "length (mb_bf (mb s')) = length (mb_bf (mb s))"
    using q5(5) by (simp add: s' mb6 l4)
  have r2: "mr s2 = mr (snd r1)" "mq s2 = mq (snd r1)"
    and r4: "mr s4 = mr (snd r3)" "mq s4 = mq (snd r3)"
    and r6: "mr s6 = mr (snd r5)" "mq s6 = mq (snd r5)"
    by (simp_all add: s2_def s4_def s6_def mp_set_def)
  show "mr s' = mr s"
    by (simp add: s' r6 q5(17) r4 q3(17) r2 q1(17))
  show "mq s' = mq s"
    by (simp add: s' r6 q5(18) r4 q3(18) r2 q1(18))
  show "mb_bf (mb s') ! j = mb_bf (mb s) ! j" if "j \<noteq> h" "j \<noteq> b" "j \<noteq> t"
    using that q5(11) [of j] q3(11) [of j] q1(11) [of j] by (simp add: s' mb6 mb4 mb2)
  have ok4: "ring_ok (mb s4)"
    unfolding mb4 r3_def by (rule queue_buffer_inv(1) [OF ok2 q2])
  show "ring_ok (mb s')"
    unfolding s' mb6 r5_def by (rule queue_buffer_inv(1) [OF ok4 q4])
qed

subsection \<open>The head-tail case at an example\<close>

lemma sqrt_more:
  "sqrt (1 / 6400) = 1 / 80" "sqrt (1681 / 256) = 41 / 16"
  by (rule real_sqrt_unique; simp add: power2_eq_square)+

lemma length_ex:
  "mp_get_length cfg_ex (225 / 4) (625 / 4) = 1"
  "mp_get_length cfg_ex (625 / 4) (225 / 4) = 1"
  "mp_get_length cfg_ex (625 / 4) 0 = 125 / 64"
  by (simp_all add: mp_get_length_def Let_def sqrt_ex sqrt_more)

lemma velocity_ex2:
  "mm_linear_jerk_rad3 mmv = 100 \<Longrightarrow> mp_get_velocity mmv (225 / 4) 1 = 625 / 4"
  by (simp add: mp_get_velocity_def)

lemma ht_step_ex:
  assumes "mm_linear_jerk_rad3 mmv = 100"
      and "m_initial_velocity m = 225 / 4" "m_cruise_velocity m = 625 / 4"
      and "m_final_velocity m = 0" "m_length m = 41 / 16" and "i < 100"
  shows "ht_iterate cfg_ex mmv m i =
     (if \<bar>m_body_length m + 25 / 64\<bar> > 1 / 10000
      then ht_iterate cfg_ex mmv
             (m\<lparr>m_cruise_velocity := 625 / 4, m_head_length := 1, m_tail_length := 125 / 64,
                m_body_length := - (25 / 64)\<rparr>) (i + 1)
      else (m\<lparr>m_cruise_velocity := 625 / 4, m_head_length := 1, m_tail_length := 125 / 64,
                m_body_length := - (25 / 64)\<rparr>, False))"
  using assms(6)
  by (subst ht_iterate.simps) (simp add: Let_def assms(1-5) velocity_ex2 length_ex)

lemma ht_iterate_ex:
  assumes "mm_linear_jerk_rad3 mmv = 100"
      and "m_initial_velocity m = 225 / 4" "m_cruise_velocity m = 625 / 4"
      and "m_final_velocity m = 0" "m_length m = 41 / 16" "m_body_length m = 0"
  shows "ht_iterate cfg_ex mmv m 0 =
           (m\<lparr>m_cruise_velocity := 625 / 4, m_head_length := 1, m_tail_length := 125 / 64,
                m_body_length := - (25 / 64)\<rparr>, False)"
proof -
  let ?m1 = "m\<lparr>m_cruise_velocity := 625 / 4, m_head_length := 1, m_tail_length := 125 / 64,
                m_body_length := - (25 / 64)\<rparr>"
  have 1: "ht_iterate cfg_ex mmv m 0 = ht_iterate cfg_ex mmv ?m1 1"
    using ht_step_ex [OF assms(1-5), of 0] assms(6) by simp
  have 2: "ht_iterate cfg_ex mmv ?m1 1 = (?m1, False)"
    using ht_step_ex [of mmv ?m1 1] assms by simp
  show ?thesis
    by (simp only: 1 2)
qed

lemma compute_regions_ex:
  assumes r: "mm_linear_jerk_rad3 mmv = 100" and l: "m_length m0 = 41 / 16"
  shows "mp_compute_regions cfg_ex mmv (225 / 4) (625 / 4) 0 m0 =
     (2, m0\<lparr>m_initial_velocity_req := 225 / 4, m_initial_velocity := 225 / 4,
             m_target_velocity := 625 / 4, m_cruise_velocity := 625 / 4, m_final_velocity := 0,
             m_head_length := 1, m_body_length := 0, m_tail_length := 125 / 64\<rparr>, [])"
proof -
  define m5 where "m5 = m0\<lparr>m_initial_velocity_req := 225 / 4, m_initial_velocity := 225 / 4,
             m_target_velocity := 625 / 4, m_cruise_velocity := 625 / 4, m_final_velocity := 0,
             m_head_length := 1, m_tail_length := 125 / 64, m_body_length := 0\<rparr>"
  have h: "ht_iterate cfg_ex mmv m5 0 =
      (m5\<lparr>m_cruise_velocity := 625 / 4, m_head_length := 1, m_tail_length := 125 / 64,
                m_body_length := - (25 / 64)\<rparr>, False)"
    by (rule ht_iterate_ex [OF r]) (simp_all add: m5_def l)
  have ht: "compute_regions_ht cfg_ex mmv m5 = (2, m5, [])"
    by (simp add: compute_regions_ht_def h Let_def) (simp add: m5_def)
  have s: "compute_regions_single cfg_ex mmv (225 / 4) (625 / 4) 0
             (m5\<lparr>m_body_length := 41 / 16 - 1 - 125 / 64\<rparr>) = (2, m5, [])"
    using ht by (simp add: compute_regions_single_def Let_def l m5_def)
  have "mp_compute_regions cfg_ex mmv (225 / 4) (625 / 4) 0 m0 = (2, m5, [])"
    using s by (simp add: mp_compute_regions_def Let_def l length_ex m5_def)
  then show ?thesis
    by (simp add: m5_def)
qed

subsection \<open>A line queued after an arc\<close>

lemma aline_plan_after_arc:
  assumes "bf_move_type (mb_bf (mb s3) ! bf_pv (mb_bf (mb s3) ! mb_w (mb s3))) = MP_TYPE_ARC"
      and "bf_buffer_state (mb_bf (mb s3) ! bf_pv (mb_bf (mb s3) ! mb_w (mb s3))) \<noteq> MP_BUFFER_EMPTY"
  shows "\<exists>s7. aline_plan cfg pcm minutes s3 = aline_after_arc cfg s7 \<and> mb s7 = mb s3 \<and>
           mp_get s7 0 = (mp_get s3 0)\<lparr>m_target_velocity := m_length (mp_get s3 0) / minutes,
              m_initial_velocity_req :=
                bf_end_velocity (mb_bf (mb s3) ! bf_pv (mb_bf (mb s3) ! mb_w (mb s3)))\<rparr> \<and>
           mm_linear_jerk_rad3 (mm s7) = cubert (cfg_linear_jerk_max cfg)"
  unfolding aline_plan_def Let_def
  apply (simp add: assms get_bf_def mp_get_prev_buffer_implicit_def)
  apply (intro exI conjI)
     apply (rule refl)
    apply (simp_all add: mp_set_def mp_get_def)
  done

lemma aline_after_arc_eq:
  "aline_after_arc cfg s7 =
     Some (mp_queue_move cfg 0 (snd (compute_regions_at cfg (m_initial_velocity_req (mp_get s7 0))
                                       (m_target_velocity (mp_get s7 0)) 0 0 s7)))"
  by (cases "mp_queue_move cfg 0 (snd (compute_regions_at cfg (m_initial_velocity_req (mp_get s7 0))
                                       (m_target_velocity (mp_get s7 0)) 0 0 s7))")
     (simp add: aline_after_arc_def Let_def)

lemma arc_queued_pool:
  "mb_w (mb arc_queued) = 1" "mb_q (mb arc_queued) = 1" "mb_r (mb arc_queued) = 0"
  "length (mb_bf (mb arc_queued)) = 8"
  "bf_move_type (mb_bf (mb arc_queued) ! 0) = MP_TYPE_ARC"
  "bf_buffer_state (mb_bf (mb arc_queued) ! 0) = MP_BUFFER_QUEUED"
  "bf_end_velocity (mb_bf (mb arc_queued) ! 0) = 225 / 4"
  "mb_bf (mb arc_queued) ! 1 = zero_buffer\<lparr>bf_nx := 2, bf_pv := 0\<rparr>"
  "mb_bf (mb arc_queued) ! 2 = zero_buffer\<lparr>bf_nx := 3, bf_pv := 1\<rparr>"
  "mb_bf (mb arc_queued) ! 3 = zero_buffer\<lparr>bf_nx := 4, bf_pv := 2\<rparr>"
  "mm_position (mm arc_queued) = [10 * sin (3 / 10), 10 * cos (3 / 10) - 10, 0, 0, 0, 0]"
  "mm_target (mm arc_queued) = [0, 0, 0, 0, 0, 0]"
  by (simp_all add: arc_queued_def mp_arc_def mp_get_write_buffer_def Let_def set_bf_def get_bf_def
      init_ex_rest init_ex_slots sqrt_9 mp_queue_write_buffer_def mp_set_mm_position_def
      mp_unget_write_buffer_def copy_vector_AXES for_axes_unroll zero_mm_def zero_vec_list
      zero_buffer_def)

lemma arc_queued_ok: "ring_ok (mb arc_queued)"
proof -
  have l: "ring_links (mb arc_queued) = ring_links (mb (mp_init cfg_ex))"
    by (simp add: arc_queued_def mp_arc_def mp_get_write_buffer_def Let_def set_bf_def get_bf_def
      init_ex_rest init_ex_slots sqrt_9 mp_queue_write_buffer_def mp_set_mm_position_def
      mp_unget_write_buffer_def ring_links_def map_update_same)
  show ?thesis
    by (rule ring_ok_transfer [OF init_ex_ok l])
       (simp_all add: arc_queued_pool init_ex_rest init_ex_slots)
qed

lemma line_after_arc_eq:
  "mp_aline cfg_ex 2 [10 * sin (3 / 10) + 41 / 16, 10 * cos (3 / 10) - 10, 0, 0, 0, 0]
     (41 / 2500) arc_queued = Some (TG_OK, line_after_arc)"
  "mp_get line_after_arc 0 =
     zero_planner\<lparr>m_length := 41 / 16, m_initial_velocity_req := 225 / 4,
       m_initial_velocity := 225 / 4, m_target_velocity := 625 / 4,
       m_cruise_velocity := 625 / 4, m_final_velocity := 0,
       m_head_length := 1, m_body_length := 0, m_tail_length := 125 / 64,
       m_head := Some 1, m_body := Some 2, m_tail := Some 3\<rparr>"
  "bf_length (mb_bf (mb line_after_arc) ! 1) = 1"
  "bf_length (mb_bf (mb line_after_arc) ! 2) = 0"
  "bf_length (mb_bf (mb line_after_arc) ! 3) = 125 / 64"
  "bf_buffer_state (mb_bf (mb line_after_arc) ! 1) = MP_BUFFER_QUEUED"
  "bf_buffer_state (mb_bf (mb line_after_arc) ! 2) = MP_BUFFER_QUEUED"
  "bf_buffer_state (mb_bf (mb line_after_arc) ! 3) = MP_BUFFER_QUEUED"
  "bf_start_velocity (mb_bf (mb line_after_arc) ! 1) = 225 / 4"
  "bf_end_velocity (mb_bf (mb line_after_arc) ! 1) = 625 / 4"
  "bf_start_velocity (mb_bf (mb line_after_arc) ! 3) = 625 / 4"
  "bf_end_velocity (mb_bf (mb line_after_arc) ! 3) = 0"
proof -
  let ?tgt = "[10 * sin (3 / 10) + 41 / 16, 10 * cos (3 / 10) - 10, 0, 0, 0, 0] :: real list"
  note aq = arc_queued_pool arc_queued_pool(8) [unfolded One_nat_def]
  define s3 where "s3 = aline_setup ?tgt arc_queued"
  have mb3: "mb s3 = mb arc_queued"
    by (simp add: s3_def aline_setup_frame)
  have len: "mp_get_axis_vector_length (mp_copy_vector (mm_target (mm arc_queued)) ?tgt AXES)
               (mm_position (mm arc_queued)) = 41 / 16"
    by (simp add: aq copy_vector_AXES mp_get_axis_vector_length_def for_axes_unroll
        square_def sqrt_more)
  have m3: "mp_get s3 0 = zero_planner\<lparr>m_length := 41 / 16\<rparr>"
    by (simp add: s3_def aline_setup_def Let_def len mp_clear_planner_def mp_set_def mp_get_def)
  have a: "mp_aline cfg_ex 2 ?tgt (41 / 2500) arc_queued = aline_plan cfg_ex 2 (41 / 2500) s3"
    unfolding mp_aline_def Let_def s3_def [symmetric] by (simp add: m3)
  have pv: "bf_pv (mb_bf (mb s3) ! mb_w (mb s3)) = 0"
    by (simp add: mb3 aq)
  obtain s7 where s7: "aline_plan cfg_ex 2 (41 / 2500) s3 = aline_after_arc cfg_ex s7"
      "mb s7 = mb s3"
      "mp_get s7 0 = (mp_get s3 0)\<lparr>m_target_velocity := m_length (mp_get s3 0) / (41 / 2500),
              m_initial_velocity_req :=
                bf_end_velocity (mb_bf (mb s3) ! bf_pv (mb_bf (mb s3) ! mb_w (mb s3)))\<rparr>"
      "mm_linear_jerk_rad3 (mm s7) = cubert (cfg_linear_jerk_max cfg_ex)"
    using aline_plan_after_arc [of s3 cfg_ex 2 "41 / 2500"]
    by (auto simp: pv mb3 aq)
  have m7: "mp_get s7 0 = zero_planner\<lparr>m_length := 41 / 16, m_target_velocity := 625 / 4,
              m_initial_velocity_req := 225 / 4\<rparr>"
    by (simp add: s7(3) m3 pv) (simp add: mb3 aq)
  have r7: "mm_linear_jerk_rad3 (mm s7) = 100"
    by (simp add: s7(4) cubert_ex)
  define s8 where "s8 = snd (compute_regions_at cfg_ex (225 / 4) (625 / 4) 0 0 s7)"
  have mb8: "mb s8 = mb arc_queued"
    by (simp add: s8_def s7(2) mb3)
  have m8: "mp_get s8 0 = zero_planner\<lparr>m_length := 41 / 16, m_initial_velocity_req := 225 / 4,
       m_initial_velocity := 225 / 4, m_target_velocity := 625 / 4,
       m_cruise_velocity := 625 / 4, m_final_velocity := 0,
       m_head_length := 1, m_body_length := 0, m_tail_length := 125 / 64\<rparr>"
    unfolding s8_def compute_regions_at_def
    by (simp add: compute_regions_ex [OF r7] m7)
  have b: "aline_after_arc cfg_ex s7 = Some (mp_queue_move cfg_ex 0 s8)"
    unfolding aline_after_arc_eq s8_def by (simp add: m7)
  have ok8: "ring_ok (mb s8)" and q8: "mb_q (mb s8) = mb_w (mb s8)"
    and n8: "3 \<le> length (mb_bf (mb s8))"
    by (simp_all add: mb8 arc_queued_ok aq)
  note qm = queue_move_ok [OF ok8 q8 n8, where h = 1 and b = 2 and t = 3 and cfg = cfg_ex
      and k = 0 and s' = "snd (mp_queue_move cfg_ex 0 s8)", unfolded mb8 m8]
  have pre: "(1::nat) = mb_w (mb arc_queued)" "(2::nat) = bf_nx (mb_bf (mb arc_queued) ! 1)"
    "(3::nat) = bf_nx (mb_bf (mb arc_queued) ! 2)"
    "bf_buffer_state (mb_bf (mb arc_queued) ! 1) = MP_BUFFER_EMPTY"
    "bf_buffer_state (mb_bf (mb arc_queued) ! 2) = MP_BUFFER_EMPTY"
    "bf_buffer_state (mb_bf (mb arc_queued) ! 3) = MP_BUFFER_EMPTY"
    by (simp_all add: aq)
  note qf = qm [OF pre refl]
  have res: "mp_aline cfg_ex 2 ?tgt (41 / 2500) arc_queued
               = Some (TG_OK, snd (mp_queue_move cfg_ex 0 s8))"
    using qf(1) by (simp only: a s7(1) b) (metis prod.collapse)
  have la: "line_after_arc = snd (mp_queue_move cfg_ex 0 s8)"
    by (simp only: line_after_arc_def res option.sel snd_conv)
  show "mp_aline cfg_ex 2 ?tgt (41 / 2500) arc_queued = Some (TG_OK, line_after_arc)"
    by (simp only: res la)
  show "mp_get line_after_arc 0 =
     zero_planner\<lparr>m_length := 41 / 16, m_initial_velocity_req := 225 / 4,
       m_initial_velocity := 225 / 4, m_target_velocity := 625 / 4,
       m_cruise_velocity := 625 / 4, m_final_velocity := 0,
       m_head_length := 1, m_body_length := 0, m_tail_length := 125 / 64,
       m_head := Some 1, m_body := Some 2, m_tail := Some 3\<rparr>"
    using qf(2) by (simp add: la)
  show "bf_length (mb_bf (mb line_after_arc) ! 1) = 1"
    using qf(3) by (simp add: la)
  show "bf_length (mb_bf (mb line_after_arc) ! 2) = 0"
    using qf(4) by (simp add: la)
  show "bf_length (mb_bf (mb line_after_arc) ! 3) = 125 / 64"
    using qf(5) by (simp add: la)
  show "bf_buffer_state (mb_bf (mb line_after_arc) ! 1) = MP_BUFFER_QUEUED"
    using qf(12) by (simp add: la)
  show "bf_buffer_state (mb_bf (mb line_after_arc) ! 2) = MP_BUFFER_QUEUED"
    using qf(13) by (simp add: la)
  show "bf_buffer_state (mb_bf (mb line_after_arc) ! 3) = MP_BUFFER_QUEUED"
    using qf(14) by (simp add: la)
  show "bf_start_velocity (mb_bf (mb line_after_arc) ! 1) = 225 / 4"
    using qf(6) by (simp add: la)
  show "bf_end_velocity (mb_bf (mb line_after_arc) ! 1) = 625 / 4"
    using qf(7) by (simp add: la)
  show "bf_start_velocity (mb_bf (mb line_after_arc) ! 3) = 625 / 4"
    using qf(10) by (simp add: la)
  show "bf_end_velocity (mb_bf (mb line_after_arc) ! 3) = 0"
    using qf(11) by (simp add: la)
qed

subsection \<open>Regions below the minimum length\<close>



lemma typed_not_short:
  "mp_get_move_type cfg x = MP_TYPE_ACCEL \<or> mp_get_move_type cfg x = MP_TYPE_DECEL \<Longrightarrow>
   \<not> bf_length x < MIN_LINE_LENGTH cfg"
  by (auto simp: mp_get_move_type_def split: if_splits)







lemma set_bf_length [simp]: "length (mb_bf (mb (set_bf k f s))) = length (mb_bf (mb s))"
  by (simp add: set_bf_def)

lemma get_set_bf_any:
  "get_bf (set_bf k f s) j =
     (if j = k \<and> k < length (mb_bf (mb s)) then f (get_bf s j) else get_bf s j)"
  by (cases "k < length (mb_bf (mb s))")
     (simp_all add: get_bf_def set_bf_def not_less list_update_beyond)

lemma move_type_frame:
  "mp_get_move_type cfg (x\<lparr>bf_replannable := r\<rparr>) = mp_get_move_type cfg x"
  "mp_get_move_type cfg (x\<lparr>bf_move_type := ty\<rparr>) = mp_get_move_type cfg x"
  by (simp_all add: mp_get_move_type_def)

lemma typed_step:
  assumes "j < length (mb_bf (mb s))" and "j = k \<or> typed cfg (get_bf s j)"
  shows "typed cfg (get_bf (set_bf k (\<lambda>x. x\<lparr>bf_move_type := mp_get_move_type cfg x\<rparr>)
           (set_bf k (\<lambda>x. x\<lparr>bf_start_velocity := Vs, bf_end_velocity := Ve,
                              bf_request_velocity := Vr, bf_length := len\<rparr>) s)) j)"
  using assms by (auto simp: get_set_bf_any typed_def move_type_frame)

lemma typed_replannable:
  "typed cfg (get_bf (set_bf k (\<lambda>x. x\<lparr>bf_replannable := False\<rparr>) s) j) = typed cfg (get_bf s j)"
  by (simp add: get_set_bf_any typed_def move_type_frame)

lemma update_move_typed:
  assumes u: "mp_update_move cfg pk mk s = Some s'"
      and j: "j < length (mb_bf (mb s))"
      and p: "m_head (mp_get s pk) = Some j \<or> m_body (mp_get s pk) = Some j
              \<or> m_tail (mp_get s pk) = Some j \<or> typed cfg (get_bf s j)"
  shows "typed cfg (get_bf s' j)"
proof -
  obtain h b t where hbt: "m_head (mp_get s pk) = Some h" "m_body (mp_get s pk) = Some b"
      "m_tail (mp_get s pk) = Some t"
    using u by (auto simp: mp_update_move_def Let_def split: option.splits)
  let ?p = "mp_get s pk"
  define s2 where "s2 = set_bf h (\<lambda>x. x\<lparr>bf_move_type := mp_get_move_type cfg x\<rparr>)
      (set_bf h (\<lambda>x. x\<lparr>bf_start_velocity := m_initial_velocity ?p,
                         bf_end_velocity := m_cruise_velocity ?p,
                         bf_request_velocity := m_initial_velocity_req ?p,
                         bf_length := m_head_length ?p\<rparr>) s)"
  define s4 where "s4 = set_bf b (\<lambda>x. x\<lparr>bf_move_type := mp_get_move_type cfg x\<rparr>)
      (set_bf b (\<lambda>x. x\<lparr>bf_start_velocity := m_cruise_velocity ?p,
                         bf_end_velocity := m_cruise_velocity ?p,
                         bf_request_velocity := m_target_velocity ?p,
                         bf_length := m_body_length ?p\<rparr>) s2)"
  define s6 where "s6 = set_bf t (\<lambda>x. x\<lparr>bf_move_type := mp_get_move_type cfg x\<rparr>)
      (set_bf t (\<lambda>x. x\<lparr>bf_start_velocity := m_cruise_velocity ?p,
                         bf_end_velocity := m_final_velocity ?p,
                         bf_request_velocity := m_final_velocity ?p,
                         bf_length := m_tail_length ?p\<rparr>) s4)"
  have r: "s' = s6 \<or> s' = set_bf t (\<lambda>x. x\<lparr>bf_replannable := False\<rparr>)
                             (set_bf b (\<lambda>x. x\<lparr>bf_replannable := False\<rparr>)
                               (set_bf h (\<lambda>x. x\<lparr>bf_replannable := False\<rparr>) s6))"
    using u unfolding mp_update_move_def Let_def hbt s2_def [symmetric] s4_def [symmetric]
      s6_def [symmetric]
    by (auto simp: s2_def [symmetric] s4_def [symmetric] s6_def [symmetric] split: if_splits)
  have t2: "j = h \<or> typed cfg (get_bf s j) \<Longrightarrow> typed cfg (get_bf s2 j)"
    unfolding s2_def by (rule typed_step [OF j])
  have j2: "j < length (mb_bf (mb s2))"
    using j by (simp add: s2_def)
  have t4: "j = b \<or> typed cfg (get_bf s2 j) \<Longrightarrow> typed cfg (get_bf s4 j)"
    unfolding s4_def by (rule typed_step [OF j2])
  have j4: "j < length (mb_bf (mb s4))"
    using j2 by (simp add: s4_def)
  have t6: "j = t \<or> typed cfg (get_bf s4 j) \<Longrightarrow> typed cfg (get_bf s6 j)"
    unfolding s6_def by (rule typed_step [OF j4])
  have "typed cfg (get_bf s6 j)"
    using p hbt t2 t4 t6 by auto
  then show ?thesis
    using r by (auto simp: typed_replannable)
qed

section \<open>The claims\<close>

subsection \<open>C3: round trip of the jerk relations\<close>

text \<open>
  C3, as the code has it. With the jerk \<open>Jm > 0\<close> cached as \<^verbatim>\<open>mm.linear_jerk_rad3\<close> and
  \<open>Vi \<le> Vf\<close>, the velocity recovered from the length \<open>L(Vi, Vf)\<close> is
  \<open>Vi + (Vf - Vi) \<sqdot> L(Vi, Vf)\<^bsup>1/30000000\<^esup>\<close>: the exponent \<^verbatim>\<open>0.6666667\<close> of the source
  exceeds \<open>2/3\<close> by \<open>1/30000000\<close>. The result is \<open>Vf\<close> itself when the length is 1 or
  \<open>Vi = Vf\<close>.
\<close>

theorem velocity_of_length_round_trip:
  "0 < cfg_linear_jerk_max cfg \<Longrightarrow>
   mm_linear_jerk_rad3 m = cubert (cfg_linear_jerk_max cfg) \<Longrightarrow>
   Vi \<le> Vf \<Longrightarrow>
   mp_get_velocity m Vi (mp_get_length cfg Vi Vf) =
     Vi + (Vf - Vi) * mp_get_length cfg Vi Vf powr (1 / 30000000)"
  by (rule roundtrip_formula)

theorem velocity_of_length_round_trip_witness:
  "0 < cfg_linear_jerk_max cfg_ex \<and>
   mm_linear_jerk_rad3 mm_ex = cubert (cfg_linear_jerk_max cfg_ex) \<and>
   (0::real) \<le> 100 \<and>
   mp_get_velocity mm_ex 0 (mp_get_length cfg_ex 0 100) = 100"
proof -
  have J: "0 < cfg_linear_jerk_max cfg_ex"
    by (simp add: cfg_ex_def)
  have r: "mm_linear_jerk_rad3 mm_ex = cubert (cfg_linear_jerk_max cfg_ex)"
    by (simp add: cfg_ex_def mm_ex_def cubert_ex)
  have L: "mp_get_length cfg_ex 0 100 = 1"
    by (simp add: mp_get_length_def cfg_ex_def sqrt_ex)
  show ?thesis
    using velocity_of_length_round_trip [OF J r, of 0 100] J r by (simp add: L)
qed

text \<open>
  The claim fails in both directions of its range. From \<open>Vi = 100\<close> down to \<open>Vf = 0\<close> the
  length is 1 and the velocity recovered is 200, not 0: \<^verbatim>\<open>_mp_get_velocity\<close> always adds
  to its first argument. From \<open>Vi = 0\<close> up to \<open>Vf = 10\<^sup>6\<close> the velocity recovered exceeds
  \<open>Vf\<close> by more than \<open>1/30\<close>.
\<close>

theorem velocity_of_length_round_trip_counterexample:
  "mp_get_velocity mm_ex 100 (mp_get_length cfg_ex 100 0) = 200 \<and>
   1000000 + 1 / 30 \<le> mp_get_velocity mm_ex 0 (mp_get_length cfg_ex 0 1000000)"
proof
  have "mp_get_length cfg_ex 100 0 = 1"
    by (simp add: mp_get_length_def cfg_ex_def sqrt_ex)
  then show "mp_get_velocity mm_ex 100 (mp_get_length cfg_ex 100 0) = 200"
    by (simp add: mp_get_velocity_def mm_ex_def)
next
  have J: "0 < cfg_linear_jerk_max cfg_ex"
    by (simp add: cfg_ex_def)
  have r: "mm_linear_jerk_rad3 mm_ex = cubert (cfg_linear_jerk_max cfg_ex)"
    by (simp add: cfg_ex_def mm_ex_def cubert_ex)
  have L: "mp_get_length cfg_ex 0 1000000 = 1000000"
    by (simp add: mp_get_length_def cfg_ex_def)
  have V: "mp_get_velocity mm_ex 0 (mp_get_length cfg_ex 0 1000000) =
             1000000 * (1000000 powr (1 / 30000000))"
    using roundtrip_formula [OF J r, of 0 1000000] by (simp only: L) simp
  have "exp 1 \<le> (1000000::real)"
    using exp_le by linarith
  then have "1 \<le> ln (1000000::real)"
    by (simp add: ln_ge_iff)
  then have "1 + 1 / 30000000 \<le> 1 + ln (1000000::real) / 30000000"
    by simp
  also have "\<dots> \<le> exp (ln (1000000::real) / 30000000)"
    by (rule exp_ge_add_one_self)
  also have "\<dots> = (1000000::real) powr (1 / 30000000)"
    by (simp add: powr_def)
  finally have "1000000 * (1 + 1 / 30000000) \<le> 1000000 * ((1000000::real) powr (1 / 30000000))"
    by (simp only: mult_le_cancel_left_pos)
  then show "1000000 + 1 / 30 \<le> mp_get_velocity mm_ex 0 (mp_get_length cfg_ex 0 1000000)"
    by (simp only: V) simp
qed

subsection \<open>C6: the angular jerk factor\<close>

text \<open>
  C6. The unit vector that \<^verbatim>\<open>_mp_get_unit_vector\<close> computes in doubles for the direction
  \<open>(1, 1, 1, 0, 0, 0)\<close> has the three components \<open>5200308914369309 / 2\<^sup>5\<^sup>3\<close>, the double
  next above \<open>1 / sqrt 3\<close>. For a straight join, where the planner's and the buffer's unit
  vector are this same vector, the dot product is above 1 (by less than \<open>10\<^sup>-\<^sup>1\<^sup>5\<close>), so
  \<^verbatim>\<open>acos\<close> and with it \<^verbatim>\<open>_mp_get_angular_jerk_factor\<close> return NaN: the factor is neither
  1 nor in \<open>[0, 1]\<close>.
\<close>

theorem angular_jerk_factor_nan:
  "bf_unit_vec bf_diagonal = mm_unit_vec mm_diagonal \<and>
   mm_unit_vec mm_diagonal ! 0 = 5200308914369309 / 2 ^ 53 \<and>
   3 * (5200308914369309 / 2 ^ 53 - 1 / 2 ^ 53) ^ 2 < (1::real) \<and>
   (1::real) < 3 * (5200308914369309 / 2 ^ 53) ^ 2 \<and>
   3 * (5200308914369309 / 2 ^ 53) ^ 2 < (1::real) + 1 / 10 ^ 15 \<and>
   mp_get_angular_jerk_factor mm_diagonal bf_diagonal = None"
  by (simp add: mp_get_angular_jerk_factor_def c_acos_def mm_diagonal_def bf_diagonal_def
      zero_mm_def zero_buffer_def power2_eq_square)

subsection \<open>C9: the ring pointers\<close>

text \<open>
  C9. Whatever buffer-pool operations run after \<^verbatim>\<open>_mp_init_buffers\<close>, in any order and
  number, every buffer's \<^verbatim>\<open>nx\<close> and \<^verbatim>\<open>pv\<close> pointers are the ones set at initialisation
  (and the ring keeps its number of buffers).
\<close>

theorem pool_operations_keep_ring_pointers:
  "ring_links (foldl pool_step (mp_init_buffers cfg) ops) = ring_links (mp_init_buffers cfg)"
  by (rule links_steps)

subsection \<open>C8: queued stop, start and end without a write buffer\<close>

text \<open>
  C8, as the code has it. When the next write slot is not empty, each of
  \<^verbatim>\<open>mp_queued_stop\<close>, \<^verbatim>\<open>mp_queued_start\<close> and \<^verbatim>\<open>mp_queued_end\<close> records a trap, hands
  no status to its caller (the functions are \<^verbatim>\<open>void\<close>) and leaves the rest of the planner
  state, the buffer pool included, as it was.
\<close>

theorem queued_directive_without_buffer:
  "bf_buffer_state (mb_bf (mb s) ! mb_w (mb s)) \<noteq> MP_BUFFER_EMPTY \<Longrightarrow>
   mp_queued_stop s = (None, TRAP ''Failed to get buffer in mp_queued_stop()'' s) \<and>
   mp_queued_start s = (None, TRAP ''Failed to get buffer in mp_queued_start()'' s) \<and>
   mp_queued_end s = (None, TRAP ''Failed to get buffer in mp_queued_end()'' s)"
  by (simp add: queued_no_buffer)

theorem queued_directive_without_buffer_witness:
  "bf_buffer_state (mb_bf (mb full_ring) ! mb_w (mb full_ring)) \<noteq> MP_BUFFER_EMPTY \<and>
   fst (mp_queued_stop full_ring) = None \<and>
   mb (snd (mp_queued_stop full_ring)) = mb full_ring \<and>
   traps (snd (mp_queued_stop full_ring)) = [''Failed to get buffer in mp_queued_stop()'']"
proof -
  have f: "bf_buffer_state (mb_bf (mb full_ring) ! mb_w (mb full_ring)) \<noteq> MP_BUFFER_EMPTY"
    by (simp add: full_ring_w)
  have t: "traps full_ring = []"
    by (simp add: full_ring_def init_ex_rest)
  show ?thesis
    using queued_directive_without_buffer [OF f] f by (simp add: TRAP_def t)
qed

text \<open>
  On the full ring none of the three functions hands \<^verbatim>\<open>TG_BUFFER_FULL_FATAL\<close> to its
  caller.
\<close>

theorem queued_directive_without_buffer_counterexample:
  "fst (mp_queued_stop full_ring) \<noteq> Some TG_BUFFER_FULL_FATAL \<and>
   fst (mp_queued_start full_ring) \<noteq> Some TG_BUFFER_FULL_FATAL \<and>
   fst (mp_queued_end full_ring) \<noteq> Some TG_BUFFER_FULL_FATAL"
proof -
  have f: "bf_buffer_state (mb_bf (mb full_ring) ! mb_w (mb full_ring)) \<noteq> MP_BUFFER_EMPTY"
    by (simp add: full_ring_w)
  show ?thesis
    by (simp add: queued_no_buffer [OF f])
qed

subsection \<open>C5: the state after BUFFER_FULL_FATAL\<close>

text \<open>
  C5, as the code has it, for a well-formed ring with no write buffer left open. A
  producer of one buffer (\<^verbatim>\<open>mp_dwell\<close>, \<^verbatim>\<open>mp_line\<close>, \<^verbatim>\<open>mp_arc\<close>) that returns
  \<^verbatim>\<open>TG_BUFFER_FULL_FATAL\<close> has acquired nothing and changed nothing but the trap log.
  \<^verbatim>\<open>mp_aline\<close> releases nothing: when it returns \<^verbatim>\<open>TG_BUFFER_FULL_FATAL\<close> and the write
  slot was empty, that slot holds a committed (queued) region afterwards; only when the
  write slot was not empty is the pool unchanged. It does return
  \<^verbatim>\<open>TG_BUFFER_FULL_FATAL\<close> in this way whenever the write slot is empty, its successor is
  not, and the move is not rejected as a zero-length move.
\<close>

theorem buffer_full_fatal_state:
  "ring_ok (mb s) \<Longrightarrow> mb_q (mb s) = mb_w (mb s) \<Longrightarrow>
   (fst (mp_dwell seconds s) = TG_BUFFER_FULL_FATAL \<longrightarrow>
      snd (mp_dwell seconds s) = TRAP ''Failed to get buffer in mp_dwell()'' s) \<and>
   (fst (mp_line cfg target minutes s) = TG_BUFFER_FULL_FATAL \<longrightarrow>
      snd (mp_line cfg target minutes s) = TRAP ''Failed to get buffer in mp_line()'' s) \<and>
   (fst (mp_arc cfg target i j k theta radius angular_travel linear_travel a1 a2 al minutes s)
        = TG_BUFFER_FULL_FATAL \<longrightarrow>
      snd (mp_arc cfg target i j k theta radius angular_travel linear_travel a1 a2 al minutes s)
        = TRAP ''Failed to get buffer in mp_arc()'' s) \<and>
   (\<forall>s'. mp_aline cfg pcm target minutes s = Some (TG_BUFFER_FULL_FATAL, s') \<longrightarrow>
      (if bf_buffer_state (mb_bf (mb s) ! mb_w (mb s)) = MP_BUFFER_EMPTY
       then bf_buffer_state (mb_bf (mb s') ! mb_w (mb s)) = MP_BUFFER_QUEUED
       else mb s' = mb s)) \<and>
   (bf_buffer_state (mb_bf (mb s) ! mb_w (mb s)) = MP_BUFFER_EMPTY \<and>
    bf_buffer_state (mb_bf (mb s) ! bf_nx (mb_bf (mb s) ! mb_w (mb s))) \<noteq> MP_BUFFER_EMPTY \<and>
    \<not> minutes < EPSILON cfg \<and>
    \<not> mp_get_axis_vector_length (mp_copy_vector (mm_target (mm s)) target AXES)
          (mm_position (mm s)) < MIN_LINE_LENGTH cfg \<longrightarrow>
      (\<exists>s'. mp_aline cfg pcm target minutes s = Some (TG_BUFFER_FULL_FATAL, s')))"
proof (intro conjI impI allI)
  assume ok: "ring_ok (mb s)" and q: "mb_q (mb s) = mb_w (mb s)"
  show "snd (mp_dwell seconds s) = TRAP ''Failed to get buffer in mp_dwell()'' s"
    if "fst (mp_dwell seconds s) = TG_BUFFER_FULL_FATAL"
    using that by (rule dwell_full)
  show "snd (mp_line cfg target minutes s) = TRAP ''Failed to get buffer in mp_line()'' s"
    if "fst (mp_line cfg target minutes s) = TG_BUFFER_FULL_FATAL"
    using that by (rule line_full)
  show "snd (mp_arc cfg target i j k theta radius angular_travel linear_travel a1 a2 al minutes s)
        = TRAP ''Failed to get buffer in mp_arc()'' s"
    if "fst (mp_arc cfg target i j k theta radius angular_travel linear_travel a1 a2 al minutes s)
        = TG_BUFFER_FULL_FATAL"
    using that by (rule arc_full)
  show "if bf_buffer_state (mb_bf (mb s) ! mb_w (mb s)) = MP_BUFFER_EMPTY
        then bf_buffer_state (mb_bf (mb s') ! mb_w (mb s)) = MP_BUFFER_QUEUED
        else mb s' = mb s"
    if "mp_aline cfg pcm target minutes s = Some (TG_BUFFER_FULL_FATAL, s')" for s'
    using that ok q by (rule mp_aline_full)
  show "\<exists>s'. mp_aline cfg pcm target minutes s = Some (TG_BUFFER_FULL_FATAL, s')"
    if "bf_buffer_state (mb_bf (mb s) ! mb_w (mb s)) = MP_BUFFER_EMPTY \<and>
        bf_buffer_state (mb_bf (mb s) ! bf_nx (mb_bf (mb s) ! mb_w (mb s))) \<noteq> MP_BUFFER_EMPTY \<and>
        \<not> minutes < EPSILON cfg \<and>
        \<not> mp_get_axis_vector_length (mp_copy_vector (mm_target (mm s)) target AXES)
              (mm_position (mm s)) < MIN_LINE_LENGTH cfg"
    using that by (intro mp_aline_one_free [OF ok q]) simp_all
qed

theorem buffer_full_fatal_state_witness:
  "ring_ok (mb one_free) \<and> mb_q (mb one_free) = mb_w (mb one_free) \<and>
   ring_ok (mb full_ring) \<and> mb_q (mb full_ring) = mb_w (mb full_ring) \<and>
   fst (mp_dwell 0 full_ring) = TG_BUFFER_FULL_FATAL \<and>
   snd (mp_dwell 0 full_ring) = TRAP ''Failed to get buffer in mp_dwell()'' full_ring \<and>
   (\<exists>s'. mp_aline cfg_ex 2 [1, 0, 0, 0, 0, 0] 1 one_free = Some (TG_BUFFER_FULL_FATAL, s') \<and>
         bf_buffer_state (mb_bf (mb s') ! 0) = MP_BUFFER_QUEUED)"
proof -
  have q1: "mb_q (mb one_free) = mb_w (mb one_free)"
    by (simp add: one_free_pool)
  have q2: "mb_q (mb full_ring) = mb_w (mb full_ring)"
    by (simp add: full_ring_pool)
  note t1 = buffer_full_fatal_state [OF one_free_ok q1, where cfg = cfg_ex
      and target = "[1, 0, 0, 0, 0, 0]" and minutes = 1 and pcm = 2]
  note t2 = buffer_full_fatal_state [OF full_ring_ok q2, where seconds = 0]
  note s1 = one_free_pool(8) [unfolded One_nat_def]
  have d: "fst (mp_dwell 0 full_ring) = TG_BUFFER_FULL_FATAL"
    using full_ring_w by (simp add: mp_dwell_def get_write_full)
  have "\<exists>s'. mp_aline cfg_ex 2 [1, 0, 0, 0, 0, 0] 1 one_free = Some (TG_BUFFER_FULL_FATAL, s')"
    using t1
    by (simp add: one_free_pool s1 one_free_rest zero_mm_def zero_vec_list axis_length_x1)
  then obtain s' where
    s': "mp_aline cfg_ex 2 [1, 0, 0, 0, 0, 0] 1 one_free = Some (TG_BUFFER_FULL_FATAL, s')"
    by blast
  then have "bf_buffer_state (mb_bf (mb s') ! 0) = MP_BUFFER_QUEUED"
    using t1 by (simp add: one_free_pool)
  with s' d t2 one_free_ok full_ring_ok q1 q2 show ?thesis
    by blast
qed

text \<open>
  With one free buffer, \<^verbatim>\<open>mp_aline\<close> for a move of 1 mm returns
  \<^verbatim>\<open>TG_BUFFER_FULL_FATAL\<close>; slot 0, empty before the call, is queued after it.
\<close>

theorem buffer_full_fatal_state_counterexample:
  "fst (the (mp_aline cfg_ex 2 [1, 0, 0, 0, 0, 0] 1 one_free)) = TG_BUFFER_FULL_FATAL \<and>
   bf_buffer_state (get_bf one_free 0) = MP_BUFFER_EMPTY \<and>
   bf_buffer_state (get_bf (snd (the (mp_aline cfg_ex 2 [1, 0, 0, 0, 0, 0] 1 one_free))) 0)
     = MP_BUFFER_QUEUED"
proof -
  have q1: "mb_q (mb one_free) = mb_w (mb one_free)"
    by (simp add: one_free_pool)
  have "\<exists>s'. mp_aline cfg_ex 2 [1, 0, 0, 0, 0, 0] 1 one_free = Some (TG_BUFFER_FULL_FATAL, s')"
    by (rule mp_aline_one_free [OF one_free_ok q1])
       (simp_all add: one_free_pool one_free_pool(8) [unfolded One_nat_def] one_free_rest
          zero_mm_def zero_vec_list axis_length_x1)
  then obtain s' where
    s': "mp_aline cfg_ex 2 [1, 0, 0, 0, 0, 0] 1 one_free = Some (TG_BUFFER_FULL_FATAL, s')"
    by blast
  have "bf_buffer_state (mb_bf (mb s') ! 0) = MP_BUFFER_QUEUED"
    using mp_aline_full [OF s' one_free_ok q1] by (simp add: one_free_pool)
  then show ?thesis
    by (simp add: s' get_bf_def one_free_pool)
qed

subsection \<open>C4: the state after ZERO_LENGTH_MOVE\<close>

text \<open>
  C4, as the code has it, for a well-formed ring. When \<^verbatim>\<open>mp_line\<close> returns
  \<^verbatim>\<open>TG_ZERO_LENGTH_MOVE\<close>, every buffer has the state it had, the three pool pointers
  are where they were and \<^verbatim>\<open>mm\<close> is unchanged. When \<^verbatim>\<open>mp_aline\<close> returns
  \<^verbatim>\<open>TG_ZERO_LENGTH_MOVE\<close>, the buffer pool, \<^verbatim>\<open>mm.position\<close> and \<^verbatim>\<open>mm.unit_vec\<close> are
  unchanged; the whole state is unchanged if the minutes were below \<^verbatim>\<open>EPSILON\<close>, and
  otherwise \<^verbatim>\<open>mm.target\<close> holds the requested target.
\<close>

theorem zero_length_move_state:
  "ring_ok (mb s) \<Longrightarrow>
   (fst (mp_line cfg target minutes s) = TG_ZERO_LENGTH_MOVE \<longrightarrow>
      map bf_buffer_state (mb_bf (mb (snd (mp_line cfg target minutes s))))
        = map bf_buffer_state (mb_bf (mb s)) \<and>
      mb_w (mb (snd (mp_line cfg target minutes s))) = mb_w (mb s) \<and>
      mb_q (mb (snd (mp_line cfg target minutes s))) = mb_q (mb s) \<and>
      mb_r (mb (snd (mp_line cfg target minutes s))) = mb_r (mb s) \<and>
      mm (snd (mp_line cfg target minutes s)) = mm s) \<and>
   (\<forall>s'. mp_aline cfg pcm target minutes s = Some (TG_ZERO_LENGTH_MOVE, s') \<longrightarrow>
      mb s' = mb s \<and> mm_position (mm s') = mm_position (mm s) \<and>
      mm_unit_vec (mm s') = mm_unit_vec (mm s) \<and>
      (minutes < EPSILON cfg \<longrightarrow> s' = s) \<and>
      (\<not> minutes < EPSILON cfg \<longrightarrow>
         mm_target (mm s') = mp_copy_vector (mm_target (mm s)) target AXES))"
proof (intro conjI impI allI)
  assume ok: "ring_ok (mb s)"
  {
    assume z: "fst (mp_line cfg target minutes s) = TG_ZERO_LENGTH_MOVE"
    note l = mp_line_zero_length [OF ok z]
    show "map bf_buffer_state (mb_bf (mb (snd (mp_line cfg target minutes s))))
            = map bf_buffer_state (mb_bf (mb s))"
      by (rule l(1))
    show "mb_w (mb (snd (mp_line cfg target minutes s))) = mb_w (mb s)"
      by (rule l(2))
    show "mb_q (mb (snd (mp_line cfg target minutes s))) = mb_q (mb s)"
      by (rule l(3))
    show "mb_r (mb (snd (mp_line cfg target minutes s))) = mb_r (mb s)"
      by (rule l(4))
    show "mm (snd (mp_line cfg target minutes s)) = mm s"
      by (rule l(5))
  }
  fix s'
  assume a: "mp_aline cfg pcm target minutes s = Some (TG_ZERO_LENGTH_MOVE, s')"
  note z = mp_aline_zero_length [OF a]
  show "mb s' = mb s"
    by (rule z(1))
  show "mm_position (mm s') = mm_position (mm s)"
    by (rule z(2))
  show "mm_unit_vec (mm s') = mm_unit_vec (mm s)"
    by (rule z(3))
  show "s' = s" if "minutes < EPSILON cfg"
    using mp_aline_zero_target(1) [OF a] that by simp
  show "mm_target (mm s') = mp_copy_vector (mm_target (mm s)) target AXES"
    if "\<not> minutes < EPSILON cfg"
    using mp_aline_zero_target(2) [OF a] that by simp
qed

theorem zero_length_move_state_witness:
  "ring_ok (mb (mp_init cfg_ex)) \<and>
   fst (mp_line cfg_ex [0, 0, 0, 0, 0, 0] 1 (mp_init cfg_ex)) = TG_ZERO_LENGTH_MOVE \<and>
   mm (snd (mp_line cfg_ex [0, 0, 0, 0, 0, 0] 1 (mp_init cfg_ex))) = mm (mp_init cfg_ex) \<and>
   mp_aline cfg_ex 2 [0, 0, 0, 0, 0, 0] 1 (mp_init cfg_ex)
     = Some (TG_ZERO_LENGTH_MOVE, aline_setup [0, 0, 0, 0, 0, 0] (mp_init cfg_ex)) \<and>
   mb (aline_setup [0, 0, 0, 0, 0, 0] (mp_init cfg_ex)) = mb (mp_init cfg_ex) \<and>
   mm_position (mm (aline_setup [0, 0, 0, 0, 0, 0] (mp_init cfg_ex)))
     = mm_position (mm (mp_init cfg_ex))"
  using zero_length_move_state [OF init_ex_ok, where cfg = cfg_ex
      and target = "[0, 0, 0, 0, 0, 0]" and minutes = 1 and pcm = 2]
    init_ex_ok line_zero_init aline_zero_init
  by simp

text \<open>
  After \<^verbatim>\<open>mp_set_position\<close> to 1 mm on X, \<^verbatim>\<open>mm.target\<close> is still the origin. An
  \<^verbatim>\<open>mp_aline\<close> to the position itself is rejected as a zero-length move, and
  \<^verbatim>\<open>mm.target\<close> has changed to the requested target.
\<close>

theorem zero_length_move_state_counterexample:
  "fst (the (mp_aline cfg_ex 2 [1, 0, 0, 0, 0, 0] 1 at_x1)) = TG_ZERO_LENGTH_MOVE \<and>
   mm_target (mm at_x1) = [0, 0, 0, 0, 0, 0] \<and>
   mm_target (mm (snd (the (mp_aline cfg_ex 2 [1, 0, 0, 0, 0, 0] 1 at_x1)))) = [1, 0, 0, 0, 0, 0]"
  by (simp add: aline_zero_at_x1 aline_setup_frame at_x1_facts copy_vector_AXES)

subsection \<open>C7: the arc runner\<close>




subsection \<open>C10: acceleration and deceleration regions below the minimum length\<close>



subsection \<open>C2: the braking pass\<close>

text \<open>
  C2. \<^verbatim>\<open>_mp_set_braking_velocity\<close> on two queued moves of 2 mm each, the newest with a
  requested initial velocity of 10000 mm/min: the pass accumulates a chain length of 4 mm
  in the scratch struct \<^verbatim>\<open>mp[1]\<close>, and \<open>V(0, 4)\<close> is at most 400; yet the newest move
  \<^verbatim>\<open>mp[0]\<close> keeps its requested initial velocity of 10000, and the buffers are unchanged.
  The bound the pass computes is \<open>V(0, 2)\<close>, from the length of the newest move alone,
  and it is stored in the scratch struct.
\<close>

theorem braking_pass_leaves_newest_move:
  "mp_set_braking_velocity cfg_ex 1 0 brake_ex = Some braked \<and>
   m_initial_velocity_req (mp_get brake_ex 0) = 10000 \<and>
   m_length (mp_get brake_ex 0) = 2 \<and>
   m_length (mp_get braked 1) = 4 \<and>
   mp_get_velocity (mm braked) 0 4 \<le> 400 \<and>
   m_initial_velocity_req (mp_get braked 0) = 10000 \<and>
   m_initial_velocity_req (mp_get braked 1) = mp_get_velocity (mm braked) 0 2 \<and>
   mp_get braked 0 = mp_get brake_ex 0 \<and> mb braked = mb brake_ex"
proof -
  have b: "braked = mp_set 1 (mp_clear_planner\<lparr>m_head := Some 0, m_body := Some 1, m_tail := Some 2,
        m_length := 4, m_initial_velocity_req := mp_get_velocity mm_ex 0 2\<rparr>) brake_ex"
    by (simp only: braked_def braked_eq option.sel)
  have e: "mp_set_braking_velocity cfg_ex 1 0 brake_ex = Some braked"
    by (simp only: braked_def braked_eq option.sel)
  show ?thesis
  proof (intro conjI)
    show "mp_set_braking_velocity cfg_ex 1 0 brake_ex = Some braked"
      by (rule e)
  qed (simp_all add: b mp_set_def mp_get_def brake_ex_rest velocity_ex(1))
qed

subsection \<open>C1: the regions of a committed move\<close>

text \<open>
  C1. A line of 2.5625 mm requested at 156.25 mm/min, queued by \<^verbatim>\<open>mp_aline\<close> after an
  arc that ends at 56.25 mm/min, with a jerk of \<open>10\<^sup>6\<close>. \<^verbatim>\<open>mp_aline\<close> returns
  \<^verbatim>\<open>TG_OK\<close> and commits the move to slots 1, 2 and 3. The velocities chain as the claim
  says (56.25 to 156.25 in the head, 156.25 to 0 in the tail), but the lengths of the
  three regions are 1, 0 and 1.953125 mm: their sum exceeds the length of the move by
  0.390625 mm, far more than \<^verbatim>\<open>EPSILON\<close>.
\<close>

theorem committed_regions_exceed_length:
  "mp_aline cfg_ex 2 [10 * sin (3 / 10) + 41 / 16, 10 * cos (3 / 10) - 10, 0, 0, 0, 0]
     (41 / 2500) arc_queued = Some (TG_OK, line_after_arc) \<and>
   m_length (mp_get line_after_arc 0) = 41 / 16 \<and>
   m_head (mp_get line_after_arc 0) = Some 1 \<and>
   m_body (mp_get line_after_arc 0) = Some 2 \<and>
   m_tail (mp_get line_after_arc 0) = Some 3 \<and>
   bf_buffer_state (get_bf line_after_arc 1) = MP_BUFFER_QUEUED \<and>
   bf_buffer_state (get_bf line_after_arc 2) = MP_BUFFER_QUEUED \<and>
   bf_buffer_state (get_bf line_after_arc 3) = MP_BUFFER_QUEUED \<and>
   bf_length (get_bf line_after_arc 1) = 1 \<and>
   bf_length (get_bf line_after_arc 2) = 0 \<and>
   bf_length (get_bf line_after_arc 3) = 125 / 64 \<and>
   bf_start_velocity (get_bf line_after_arc 1) = 225 / 4 \<and>
   bf_end_velocity (get_bf line_after_arc 1) = 625 / 4 \<and>
   bf_start_velocity (get_bf line_after_arc 3) = 625 / 4 \<and>
   bf_end_velocity (get_bf line_after_arc 3) = 0 \<and>
   bf_length (get_bf line_after_arc 1) + bf_length (get_bf line_after_arc 2)
     + bf_length (get_bf line_after_arc 3) - m_length (mp_get line_after_arc 0) = 25 / 64 \<and>
   EPSILON cfg_ex < 25 / 64"
proof (intro conjI)
  show "mp_aline cfg_ex 2 [10 * sin (3 / 10) + 41 / 16, 10 * cos (3 / 10) - 10, 0, 0, 0, 0]
     (41 / 2500) arc_queued = Some (TG_OK, line_after_arc)"
    by (rule line_after_arc_eq(1))
qed (simp_all add: get_bf_def line_after_arc_eq(2-) [unfolded One_nat_def])

end
